theory Spec2Isabelle
  imports Complex_Main "HOL-Library.AList"
begin

section \<open>Procedural map generation and the chunk cache\<close>

text \<open>
  The development embeds the map generator of the game (\<^verbatim>\<open>utils/MapGenerator.ts\<close>) together
  with the constants it imports from \<^verbatim>\<open>utils/Scale.tsx\<close> and \<^verbatim>\<open>engine/config.tsx\<close>.

  Numbers: a JavaScript \<^verbatim>\<open>number\<close> is modelled as a \<^typ>\<open>real\<close>, so \<^verbatim>\<open>Math.sin\<close>,
  \<^verbatim>\<open>Math.cos\<close>, \<^verbatim>\<open>Math.sqrt\<close> and \<^verbatim>\<open>Math.PI\<close> are \<^term>\<open>sin\<close>, \<^term>\<open>cos\<close>,
  \<^term>\<open>sqrt\<close> and \<^term>\<open>pi\<close>; the rounding of IEEE doubles is outside the model. Values
  that the code obtains from \<^verbatim>\<open>Math.floor\<close> and uses as counters or loop bounds are
  \<^typ>\<open>int\<close>. Chunk coordinates are integers, and so are the radii that the callers pass to
  the cache (2 and 4 in \<^verbatim>\<open>TerrainLayer\<close>).
\<close>

subsection \<open>Constants (Scale.tsx, config.tsx)\<close>

record GameProps =
  JET_SPEED :: real
  ROTATION_LERP_FACTOR :: real
  CONTENT_MIN_GAP :: real
  CONTENT_MAX_GAP :: real
  JET_SIZE :: real
  CLOUD_SIZE :: real
  MAX_ZOOM :: real
  MIN_ZOOM :: real
  ZOOM_STEP :: real

text \<open>
  \<^verbatim>\<open>gameProps\<close> is a module-level object; the generator reads its field
  \<^verbatim>\<open>CLOUD_SIZE\<close> when it runs. The generator functions therefore take the object as
  their first argument; \<open>gameProps\<close> below is the object as \<^verbatim>\<open>config.tsx\<close> creates it.
\<close>

definition gameProps :: GameProps where
  "gameProps = \<lparr>JET_SPEED = 600, ROTATION_LERP_FACTOR = 30, CONTENT_MIN_GAP = 400,
     CONTENT_MAX_GAP = 500, JET_SIZE = 4, CLOUD_SIZE = 1, MAX_ZOOM = 2, MIN_ZOOM = 0.5,
     ZOOM_STEP = 0.1\<rparr>"

definition GAME_SCALE :: real where
  "GAME_SCALE = 1"

definition SPRITE_TILE_SIZE :: real where
  "SPRITE_TILE_SIZE = 10"

definition TILE_SIZE :: real where
  "TILE_SIZE = SPRITE_TILE_SIZE * GAME_SCALE"

definition CHUNK_SIZE :: real where
  "CHUNK_SIZE = 64"

subsection \<open>Data model\<close>

record 'tex AssetDictionary =
  jet :: 'tex
  tile :: 'tex
  grass :: 'tex
  sand :: 'tex
  soil :: 'tex
  rocks :: 'tex
  mountain :: 'tex
  tree :: 'tex
  oceanSuperDeep :: 'tex
  oceanDeep :: 'tex
  oceanSemiDeep :: 'tex
  oceanShallow :: 'tex
  shoal :: 'tex
  cloudCovered :: 'tex
  cloudLessCoverLand :: 'tex
  cloudLessCoverOcean :: 'tex

text \<open>
  \<^verbatim>\<open>IslandTile\<close> is also the element type of a cloud's \<^verbatim>\<open>tiles\<close> array, which has the
  same three fields.
\<close>

record 'tex IslandTile =
  offsetX :: real
  offsetY :: real
  texture :: 'tex

record 'tex Island =
  id :: string
  centerX :: real
  centerY :: real
  radius :: real
  tiles :: "'tex IslandTile list"

record 'tex CloudFormation =
  id :: string
  centerX :: real
  centerY :: real
  radius :: real
  tiles :: "'tex IslandTile list"

text \<open>A deep-ocean patch point \<^verbatim>\<open>{x, y}\<close> is a pair.\<close>

record 'tex Chunk =
  chunkX :: int
  chunkY :: int
  islands :: "'tex Island list"
  clouds :: "'tex CloudFormation list"
  deepOceanPatches :: "(real \<times> real) list"

subsection \<open>Numbers as strings\<close>

text \<open>
  The template literals \<^verbatim>\<open>`${chunkX},${chunkY}`\<close> print an integer in decimal, with a
  leading minus sign when it is negative (the notation JavaScript uses for every integer
  below \<open>10\<^sup>2\<^sup>1\<close> in absolute value).
\<close>

definition digit_char :: "nat \<Rightarrow> char" where
  "digit_char d = ''0123456789'' ! d"

fun string_of_nat :: "nat \<Rightarrow> string" where
  "string_of_nat n =
     (if n < 10 then [digit_char n] else string_of_nat (n div 10) @ [digit_char (n mod 10)])"

declare string_of_nat.simps [simp del]

definition string_of_int :: "int \<Rightarrow> string" where
  "string_of_int i = (if i < 0 then CHR ''-'' # string_of_nat (nat (- i)) else string_of_nat (nat i))"

subsection \<open>Seeded random source and noise\<close>

definition seededRandom :: "real \<Rightarrow> real \<Rightarrow> real \<Rightarrow> real" where
  "seededRandom x y seed =
     (let n = sin (x * 12.9898 + y * 78.233 + seed) * 43758.5453
      in n - of_int \<lfloor>n\<rfloor>)"

function noise2D_loop :: "real \<Rightarrow> real \<Rightarrow> real \<Rightarrow> int \<Rightarrow> real \<Rightarrow> real \<Rightarrow> real \<Rightarrow> real" where
  "noise2D_loop scaledX scaledY seed i val amplitude frequency =
     (if i < 3
      then noise2D_loop scaledX scaledY seed (i + 1)
             (val + seededRandom (scaledX * frequency) (scaledY * frequency)
                      (seed + of_int i * 1000) * amplitude)
             (amplitude * 0.5) (frequency * 2)
      else val)"
  by pat_completeness auto
termination
  by (relation "measure (\<lambda>(sx, sy, sd, i, v, a, f). nat (3 - i))") auto

declare noise2D_loop.simps [simp del]

definition noise2D :: "real \<Rightarrow> real \<Rightarrow> real \<Rightarrow> real \<Rightarrow> real" where
  "noise2D x y seed scale =
     (let scaledX = x * scale; scaledY = y * scale
      in noise2D_loop scaledX scaledY seed 0 0 1 1 / 1.75)"

subsection \<open>Islands\<close>

datatype shape = Circle | Oval | Diagonal | Irregular

text \<open>The band classification of \<^verbatim>\<open>buildIsland\<close>; \<open>None\<close> is the \<^verbatim>\<open>null\<close> texture.\<close>

definition islandTexture :: "'tex AssetDictionary \<Rightarrow> real \<Rightarrow> real \<Rightarrow> 'tex option" where
  "islandTexture assets normalizedDist tileRandom =
     (if normalizedDist < 0.2 then Some (mountain assets)
      else if normalizedDist < 0.4 then
        Some (if tileRandom < 0.8 then rocks assets else tree assets)
      else if normalizedDist < 0.6 then
        (if tileRandom < 0.3 then Some (soil assets)
         else if tileRandom < 0.5 then Some (tree assets)
         else if tileRandom < 0.75 then Some (grass assets)
         else Some (sand assets))
      else if normalizedDist < 0.8 then
        Some (if tileRandom < 0.6 then sand assets else grass assets)
      else if normalizedDist < 1.0 then
        Some (if tileRandom < 0.7 then sand assets else shoal assets)
      else if normalizedDist < 1.2 then Some (shoal assets)
      else if normalizedDist < 1.5 then Some (oceanShallow assets)
      else if normalizedDist < 1.8 then Some (oceanSemiDeep assets)
      else None)"

text \<open>The body of the inner scan loop: the tiles pushed for the offset \<open>(dx, dy)\<close>.\<close>

definition islandTileAt ::
  "'tex AssetDictionary \<Rightarrow> shape \<Rightarrow> real \<Rightarrow> int \<Rightarrow> real \<Rightarrow> real \<Rightarrow> real \<Rightarrow> int \<Rightarrow> int
     \<Rightarrow> 'tex IslandTile list" where
  "islandTileAt assets shp seed radiusTiles stretchX stretchY rotation dx dy =
     (let (rx, ry) =
            (if rotation \<noteq> 0
             then (of_int dx * cos rotation - of_int dy * sin rotation,
                   of_int dx * sin rotation + of_int dy * cos rotation)
             else (of_int dx, of_int dy));
          rx = rx / stretchX;
          ry = ry / stretchY;
          distance = sqrt (rx * rx + ry * ry);
          distance = (if shp = Irregular
                      then distance + (noise2D (of_int dx) (of_int dy) seed 0.2 - 0.5) * 3
                      else distance);
          normalizedDist = distance / of_int radiusTiles;
          tileRandom = seededRandom (of_int dx) (of_int dy) seed
      in case islandTexture assets normalizedDist tileRandom of
           None \<Rightarrow> []
         | Some t \<Rightarrow> [\<lparr>offsetX = of_int dx * TILE_SIZE, offsetY = of_int dy * TILE_SIZE,
                       texture = t\<rparr>])"

function buildIsland_dx ::
  "'tex AssetDictionary \<Rightarrow> shape \<Rightarrow> real \<Rightarrow> int \<Rightarrow> real \<Rightarrow> real \<Rightarrow> real \<Rightarrow> int \<Rightarrow> int \<Rightarrow> int
     \<Rightarrow> 'tex IslandTile list \<Rightarrow> 'tex IslandTile list" where
  "buildIsland_dx assets shp seed radiusTiles stretchX stretchY rotation scanRadius dy dx acc =
     (if dx \<le> scanRadius
      then buildIsland_dx assets shp seed radiusTiles stretchX stretchY rotation scanRadius dy
             (dx + 1)
             (acc @ islandTileAt assets shp seed radiusTiles stretchX stretchY rotation dx dy)
      else acc)"
  by pat_completeness auto
termination
  by (relation "measure (\<lambda>(a, sh, sd, rt, sx, sy, ro, sr, dy, dx, ts). nat (sr + 1 - dx))") auto

declare buildIsland_dx.simps [simp del]

function buildIsland_dy ::
  "'tex AssetDictionary \<Rightarrow> shape \<Rightarrow> real \<Rightarrow> int \<Rightarrow> real \<Rightarrow> real \<Rightarrow> real \<Rightarrow> int \<Rightarrow> int
     \<Rightarrow> 'tex IslandTile list \<Rightarrow> 'tex IslandTile list" where
  "buildIsland_dy assets shp seed radiusTiles stretchX stretchY rotation scanRadius dy acc =
     (if dy \<le> scanRadius
      then buildIsland_dy assets shp seed radiusTiles stretchX stretchY rotation scanRadius
             (dy + 1)
             (buildIsland_dx assets shp seed radiusTiles stretchX stretchY rotation scanRadius dy
                (- scanRadius) acc)
      else acc)"
  by pat_completeness auto
termination
  by (relation "measure (\<lambda>(a, sh, sd, rt, sx, sy, ro, sr, dy, ts). nat (sr + 1 - dy))") auto

declare buildIsland_dy.simps [simp del]

definition buildIsland ::
  "string \<Rightarrow> real \<Rightarrow> real \<Rightarrow> int \<Rightarrow> shape \<Rightarrow> real \<Rightarrow> 'tex AssetDictionary \<Rightarrow> 'tex Island" where
  "buildIsland ident cX cY baseRadius shp seed assets =
     (let radiusTiles = baseRadius;
          (stretchX, stretchY, rotation) =
            (if shp = Oval then
               (let horizontal = (seededRandom 0 0 seed > 0.5)
                in (if horizontal then 1.5 else 0.7, if horizontal then 0.7 else 1.5, 0))
             else if shp = Diagonal then
               (1.4, 0.8, seededRandom 1 0 seed * pi / 2)
             else (1, 1, 0));
          scanRadius = radiusTiles + 8;
          tls = buildIsland_dy assets shp seed radiusTiles stretchX stretchY rotation
                    scanRadius (- scanRadius) []
      in \<lparr>Island.id = ident, Island.centerX = cX, Island.centerY = cY,
          Island.radius = of_int radiusTiles * TILE_SIZE, Island.tiles = tls\<rparr>)"

text \<open>
  The draws of candidate \<open>i\<close> in \<^verbatim>\<open>generateIslandsForChunk\<close>: its centre in pixels and its
  base radius in tiles.
\<close>

definition islandCenterX :: "int \<Rightarrow> int \<Rightarrow> real \<Rightarrow> int \<Rightarrow> real" where
  "islandCenterX cx cy seed i =
     (let offsetX = seededRandom (of_int cx) (of_int cy) (seed + of_int i * 10) * CHUNK_SIZE * 0.6
                      + CHUNK_SIZE * 0.2
      in (of_int cx * CHUNK_SIZE + offsetX) * TILE_SIZE)"

definition islandCenterY :: "int \<Rightarrow> int \<Rightarrow> real \<Rightarrow> int \<Rightarrow> real" where
  "islandCenterY cx cy seed i =
     (let offsetY = seededRandom (of_int cx) (of_int cy) (seed + of_int i * 10 + 1) * CHUNK_SIZE * 0.6
                      + CHUNK_SIZE * 0.2
      in (of_int cy * CHUNK_SIZE + offsetY) * TILE_SIZE)"

definition islandBaseRadius :: "int \<Rightarrow> int \<Rightarrow> real \<Rightarrow> int \<Rightarrow> int" where
  "islandBaseRadius cx cy seed i =
     \<lfloor>seededRandom (of_int cx) (of_int cy) (seed + of_int i * 10 + 2) * 10\<rfloor> + 8"

definition islandShape :: "int \<Rightarrow> int \<Rightarrow> real \<Rightarrow> int \<Rightarrow> shape" where
  "islandShape cx cy seed i =
     (let shapeType = seededRandom (of_int cx) (of_int cy) (seed + of_int i * 10 + 3)
      in if shapeType < 0.3 then Circle
         else if shapeType < 0.5 then Oval
         else if shapeType < 0.65 then Diagonal
         else Irregular)"

text \<open>The overlap test of a candidate against the islands accepted so far.\<close>

definition wouldOverlap :: "'tex Island list \<Rightarrow> real \<Rightarrow> real \<Rightarrow> real \<Rightarrow> bool" where
  "wouldOverlap isls cX cY estimatedRadius =
     list_ex (\<lambda>existing.
        let dx = cX - Island.centerX existing;
            dy = cY - Island.centerY existing;
            distance = sqrt (dx * dx + dy * dy);
            minDistance = estimatedRadius + Island.radius existing + 50
        in distance < minDistance) isls"

function generateIslands_loop ::
  "int \<Rightarrow> int \<Rightarrow> real \<Rightarrow> 'tex AssetDictionary \<Rightarrow> int \<Rightarrow> int \<Rightarrow> 'tex Island list
     \<Rightarrow> 'tex Island list" where
  "generateIslands_loop cx cy seed assets islandCount i isls =
     (if i < islandCount then
        (let cX = islandCenterX cx cy seed i;
             cY = islandCenterY cx cy seed i;
             baseRadius = islandBaseRadius cx cy seed i;
             estimatedRadius = of_int baseRadius * TILE_SIZE * 1.8
         in if wouldOverlap isls cX cY estimatedRadius
            then generateIslands_loop cx cy seed assets islandCount (i + 1) isls
            else generateIslands_loop cx cy seed assets islandCount (i + 1)
                   (isls @ [buildIsland
                      (string_of_int cx @ '','' @ string_of_int cy @ '','' @ string_of_int i)
                      cX cY baseRadius (islandShape cx cy seed i) (seed + of_int i * 100) assets]))
      else isls)"
  by pat_completeness auto
termination
  by (relation "measure (\<lambda>(cx, cy, sd, a, n, i, acc). nat (n - i))") auto

declare generateIslands_loop.simps [simp del]

definition generateIslandsForChunk ::
  "int \<Rightarrow> int \<Rightarrow> real \<Rightarrow> 'tex AssetDictionary \<Rightarrow> 'tex Island list" where
  "generateIslandsForChunk cx cy seed assets =
     (let chunkRandom = seededRandom (of_int cx) (of_int cy) seed
      in if chunkRandom < 0.3 then
           (let islandCount = \<lfloor>seededRandom (of_int cx) (of_int cy) (seed + 100) * 3\<rfloor> + 1
            in generateIslands_loop cx cy seed assets islandCount 0 [])
         else [])"

subsection \<open>Deep-ocean patches\<close>

text \<open>The draws of patch candidate \<open>i\<close>: centre in tiles inside the chunk, and size.\<close>

definition patchCenterX :: "int \<Rightarrow> int \<Rightarrow> real \<Rightarrow> int \<Rightarrow> int" where
  "patchCenterX cx cy seed i =
     \<lfloor>seededRandom (of_int cx) (of_int cy) (seed + 9000 + of_int i * 3) * CHUNK_SIZE\<rfloor>"

definition patchCenterY :: "int \<Rightarrow> int \<Rightarrow> real \<Rightarrow> int \<Rightarrow> int" where
  "patchCenterY cx cy seed i =
     \<lfloor>seededRandom (of_int cx) (of_int cy) (seed + 9000 + of_int i * 3 + 1) * CHUNK_SIZE\<rfloor>"

definition patchSize :: "int \<Rightarrow> int \<Rightarrow> real \<Rightarrow> int \<Rightarrow> int" where
  "patchSize cx cy seed i =
     \<lfloor>seededRandom (of_int cx) (of_int cy) (seed + 9000 + of_int i * 3 + 2) * 5\<rfloor> + 3"

definition patchGlobalX :: "int \<Rightarrow> int \<Rightarrow> real \<Rightarrow> int \<Rightarrow> real" where
  "patchGlobalX cx cy seed i =
     (of_int cx * CHUNK_SIZE + of_int (patchCenterX cx cy seed i)) * TILE_SIZE"

definition patchGlobalY :: "int \<Rightarrow> int \<Rightarrow> real \<Rightarrow> int \<Rightarrow> real" where
  "patchGlobalY cx cy seed i =
     (of_int cy * CHUNK_SIZE + of_int (patchCenterY cx cy seed i)) * TILE_SIZE"

definition farFromIslands :: "'tex Island list \<Rightarrow> real \<Rightarrow> real \<Rightarrow> bool" where
  "farFromIslands isls globalX globalY =
     list_all (\<lambda>island.
        let dx = globalX - Island.centerX island;
            dy = globalY - Island.centerY island;
            dist = sqrt (dx * dx + dy * dy)
        in dist > Island.radius island + 100) isls"

function patch_px :: "real \<Rightarrow> real \<Rightarrow> int \<Rightarrow> int \<Rightarrow> int \<Rightarrow> (real \<times> real) list \<Rightarrow> (real \<times> real) list" where
  "patch_px globalX globalY pSize py px patches =
     (if px \<le> pSize then
        (let patchDist = sqrt (of_int (px * px + py * py))
         in patch_px globalX globalY pSize py (px + 1)
              (if patchDist \<le> of_int pSize
               then patches @ [(globalX + of_int px * TILE_SIZE, globalY + of_int py * TILE_SIZE)]
               else patches))
      else patches)"
  by pat_completeness auto
termination
  by (relation "measure (\<lambda>(gx, gy, sz, py, px, ps). nat (sz + 1 - px))") auto

declare patch_px.simps [simp del]

function patch_py :: "real \<Rightarrow> real \<Rightarrow> int \<Rightarrow> int \<Rightarrow> (real \<times> real) list \<Rightarrow> (real \<times> real) list" where
  "patch_py globalX globalY pSize py patches =
     (if py \<le> pSize
      then patch_py globalX globalY pSize (py + 1)
             (patch_px globalX globalY pSize py (- pSize) patches)
      else patches)"
  by pat_completeness auto
termination
  by (relation "measure (\<lambda>(gx, gy, sz, py, ps). nat (sz + 1 - py))") auto

declare patch_py.simps [simp del]

function generatePatches_loop ::
  "int \<Rightarrow> int \<Rightarrow> real \<Rightarrow> 'tex Island list \<Rightarrow> int \<Rightarrow> int \<Rightarrow> (real \<times> real) list
     \<Rightarrow> (real \<times> real) list" where
  "generatePatches_loop cx cy seed isls patchCount i patches =
     (if i < patchCount then
        (let pSize = patchSize cx cy seed i;
             globalX = patchGlobalX cx cy seed i;
             globalY = patchGlobalY cx cy seed i
         in if farFromIslands isls globalX globalY
            then generatePatches_loop cx cy seed isls patchCount (i + 1)
                   (patch_py globalX globalY pSize (- pSize) patches)
            else generatePatches_loop cx cy seed isls patchCount (i + 1) patches)
      else patches)"
  by pat_completeness auto
termination
  by (relation "measure (\<lambda>(cx, cy, sd, isls, n, i, ps). nat (n - i))") auto

declare generatePatches_loop.simps [simp del]

definition patchCount :: "int \<Rightarrow> int \<Rightarrow> real \<Rightarrow> int" where
  "patchCount cx cy seed = \<lfloor>seededRandom (of_int cx) (of_int cy) (seed + 9000) * 6\<rfloor> + 3"

definition generateDeepOceanPatches ::
  "int \<Rightarrow> int \<Rightarrow> real \<Rightarrow> 'tex Island list \<Rightarrow> (real \<times> real) list" where
  "generateDeepOceanPatches cx cy seed isls =
     generatePatches_loop cx cy seed isls (patchCount cx cy seed) 0 []"

subsection \<open>Clouds\<close>

definition checkOverlap :: "GameProps \<Rightarrow> 'tex CloudFormation list \<Rightarrow> real \<Rightarrow> real \<Rightarrow> real \<Rightarrow> bool" where
  "checkOverlap gp cls x y r =
     list_ex (\<lambda>cloud.
        let dx = x - CloudFormation.centerX cloud;
            dy = y - CloudFormation.centerY cloud;
            distance = sqrt (dx * dx + dy * dy);
            buffer = 150 * CLOUD_SIZE gp
        in distance < r * CLOUD_SIZE gp + CloudFormation.radius cloud * CLOUD_SIZE gp + buffer) cls"

text \<open>JavaScript's \<^verbatim>\<open>Math.round\<close> rounds halves upwards.\<close>

definition js_round :: "real \<Rightarrow> int" where
  "js_round v = \<lfloor>v + 1 / 2\<rfloor>"

function buildCloud_loop ::
  "'tex AssetDictionary \<Rightarrow> real \<Rightarrow> real \<Rightarrow> real \<Rightarrow> real \<Rightarrow> int \<Rightarrow> int \<Rightarrow> 'tex IslandTile list
     \<Rightarrow> 'tex IslandTile list" where
  "buildCloud_loop assets seed rotation width height tileCount i acc =
     (if i < tileCount then
        (let angle = seededRandom (of_int i) 0 seed * pi * 2;
             randomDist1 = seededRandom (of_int i) 1 seed;
             randomDist2 = seededRandom (of_int i) 2 seed;
             gaussianDist = (randomDist1 + randomDist2) / 2;
             distanceFactor = gaussianDist * 0.95;
             oX = cos angle * width * distanceFactor;
             oY = sin angle * height * distanceFactor;
             rotatedX = oX * cos rotation - oY * sin rotation;
             rotatedY = oX * sin rotation + oY * cos rotation;
             t = (if distanceFactor < 0.7 then cloudCovered assets else cloudLessCoverOcean assets)
         in buildCloud_loop assets seed rotation width height tileCount (i + 1)
              (acc @ [\<lparr>offsetX = of_int (js_round (rotatedX / TILE_SIZE)) * TILE_SIZE,
                        offsetY = of_int (js_round (rotatedY / TILE_SIZE)) * TILE_SIZE,
                        texture = t\<rparr>]))
      else acc)"
  by pat_completeness auto
termination
  by (relation "measure (\<lambda>(a, sd, ro, w, h, n, i, acc). nat (n - i))") auto

declare buildCloud_loop.simps [simp del]

definition buildCloudFormation ::
  "GameProps \<Rightarrow> string \<Rightarrow> real \<Rightarrow> real \<Rightarrow> real \<Rightarrow> real \<Rightarrow> 'tex AssetDictionary
     \<Rightarrow> 'tex CloudFormation" where
  "buildCloudFormation gp ident cX cY r seed assets =
     (let aspectRatioRand = seededRandom 0 2 seed;
          aspectRatio =
            (if aspectRatioRand < 0.33 then 0.6 + seededRandom 0 3 seed * 0.2
             else if aspectRatioRand < 0.66 then 1.2 + seededRandom 0 4 seed * 0.4
             else 0.9 + seededRandom 0 5 seed * 0.2);
          rotation = seededRandom 0 6 seed * pi;
          width = r * aspectRatio * CLOUD_SIZE gp;
          height = r / aspectRatio * 0.8 * CLOUD_SIZE gp;
          tileCount = \<lfloor>(width * height * 3) / (TILE_SIZE * TILE_SIZE)\<rfloor>;
          tls = buildCloud_loop assets seed rotation width height tileCount 0 []
      in \<lparr>CloudFormation.id = ident, CloudFormation.centerX = cX, CloudFormation.centerY = cY,
          CloudFormation.radius = r, CloudFormation.tiles = tls\<rparr>)"

text \<open>The draws of attempt \<open>attempts\<close> for cloud slot \<open>i\<close>.\<close>

definition cloudCenterX :: "int \<Rightarrow> int \<Rightarrow> real \<Rightarrow> int \<Rightarrow> int \<Rightarrow> real" where
  "cloudCenterX cx cy seed i attempts =
     (let oX = seededRandom (of_int cx) (of_int cy) (seed + 8000 + of_int i * 5 + of_int attempts)
                 * CHUNK_SIZE * TILE_SIZE
      in of_int cx * CHUNK_SIZE * TILE_SIZE + oX)"

definition cloudCenterY :: "int \<Rightarrow> int \<Rightarrow> real \<Rightarrow> int \<Rightarrow> int \<Rightarrow> real" where
  "cloudCenterY cx cy seed i attempts =
     (let oY = seededRandom (of_int cx) (of_int cy)
                 (seed + 8000 + of_int i * 5 + 1 + of_int attempts) * CHUNK_SIZE * TILE_SIZE
      in of_int cy * CHUNK_SIZE * TILE_SIZE + oY)"

definition cloudRadius :: "int \<Rightarrow> int \<Rightarrow> real \<Rightarrow> int \<Rightarrow> int \<Rightarrow> int" where
  "cloudRadius cx cy seed i attempts =
     \<lfloor>seededRandom (of_int cx) (of_int cy) (seed + 8000 + of_int i * 5 + 2 + of_int attempts) * 100\<rfloor>
       + 1"

definition maxAttempts :: int where
  "maxAttempts = 10"

text \<open>
  The \<^verbatim>\<open>do ... while\<close> loop of one cloud slot. It returns the last drawn centre and radius
  and the number of draws made.
\<close>

function cloudAttempt_loop ::
  "GameProps \<Rightarrow> int \<Rightarrow> int \<Rightarrow> real \<Rightarrow> 'tex CloudFormation list \<Rightarrow> int \<Rightarrow> int
     \<Rightarrow> real \<times> real \<times> int \<times> int" where
  "cloudAttempt_loop gp cx cy seed cls i attempts =
     (let cX = cloudCenterX cx cy seed i attempts;
          cY = cloudCenterY cx cy seed i attempts;
          r = cloudRadius cx cy seed i attempts;
          attempts' = attempts + 1
      in if checkOverlap gp cls cX cY (of_int r) \<and> attempts' < maxAttempts
         then cloudAttempt_loop gp cx cy seed cls i attempts'
         else (cX, cY, r, attempts'))"
  by pat_completeness auto
termination
  by (relation "measure (\<lambda>(gp, cx, cy, sd, cls, i, a). nat (maxAttempts - a))")
    (auto simp: maxAttempts_def)

declare cloudAttempt_loop.simps [simp del]

function generateClouds_loop ::
  "GameProps \<Rightarrow> int \<Rightarrow> int \<Rightarrow> real \<Rightarrow> 'tex AssetDictionary \<Rightarrow> int \<Rightarrow> int
     \<Rightarrow> 'tex CloudFormation list \<Rightarrow> 'tex CloudFormation list" where
  "generateClouds_loop gp cx cy seed assets cloudCount i cls =
     (if i < cloudCount then
        (case cloudAttempt_loop gp cx cy seed cls i 0 of
           (cX, cY, r, attempts) \<Rightarrow>
             if attempts \<ge> maxAttempts \<and> checkOverlap gp cls cX cY (of_int r)
             then generateClouds_loop gp cx cy seed assets cloudCount (i + 1) cls
             else generateClouds_loop gp cx cy seed assets cloudCount (i + 1)
                    (cls @ [buildCloudFormation gp
                       (string_of_int cx @ '','' @ string_of_int cy @ '','' @ string_of_int i)
                       cX cY (of_int r) (seed + of_int i * 50) assets]))
      else cls)"
  by pat_completeness auto
termination
  by (relation "measure (\<lambda>(gp, cx, cy, sd, a, n, i, acc). nat (n - i))") auto

declare generateClouds_loop.simps [simp del]

definition cloudCount :: "int \<Rightarrow> int \<Rightarrow> real \<Rightarrow> int" where
  "cloudCount cx cy seed = \<lfloor>seededRandom (of_int cx) (of_int cy) (seed + 7000) * 3\<rfloor> + 1"

text \<open>The \<^verbatim>\<open>islands\<close> parameter of the source function is never read.\<close>

definition generateCloudsForChunk ::
  "GameProps \<Rightarrow> int \<Rightarrow> int \<Rightarrow> real \<Rightarrow> 'tex Island list \<Rightarrow> 'tex AssetDictionary
     \<Rightarrow> 'tex CloudFormation list" where
  "generateCloudsForChunk gp cx cy seed isls assets =
     generateClouds_loop gp cx cy seed assets (cloudCount cx cy seed) 0 []"

text \<open>
  Two observations of the loop over the cloud slots. \<open>cloudsBefore \<dots> i\<close> is the array
  \<^verbatim>\<open>clouds\<close> when the \<^verbatim>\<open>for\<close> loop reaches slot \<open>i\<close>: the loop run over the slots
  \<open>0, \<dots>, i - 1\<close>. \<open>cloudAttempts \<dots> i\<close> is the value of \<^verbatim>\<open>attempts\<close> when the
  \<^verbatim>\<open>do ... while\<close> loop of slot \<open>i\<close> ends: the number of draws made for the slot.
\<close>

definition cloudsBefore ::
  "GameProps \<Rightarrow> int \<Rightarrow> int \<Rightarrow> real \<Rightarrow> 'tex AssetDictionary \<Rightarrow> int \<Rightarrow> 'tex CloudFormation list" where
  "cloudsBefore gp cx cy seed assets i = generateClouds_loop gp cx cy seed assets i 0 []"

definition cloudAttempts ::
  "GameProps \<Rightarrow> int \<Rightarrow> int \<Rightarrow> real \<Rightarrow> 'tex AssetDictionary \<Rightarrow> int \<Rightarrow> int" where
  "cloudAttempts gp cx cy seed assets i =
     snd (snd (snd (cloudAttempt_loop gp cx cy seed (cloudsBefore gp cx cy seed assets i) i 0)))"

subsection \<open>Chunks\<close>

definition generateChunk ::
  "GameProps \<Rightarrow> int \<Rightarrow> int \<Rightarrow> real \<Rightarrow> 'tex AssetDictionary \<Rightarrow> 'tex Chunk" where
  "generateChunk gp cx cy seed assets =
     (let isls = generateIslandsForChunk cx cy seed assets;
          patches = generateDeepOceanPatches cx cy seed isls;
          cls = generateCloudsForChunk gp cx cy seed isls assets
      in \<lparr>chunkX = cx, chunkY = cy, islands = isls, clouds = cls, deepOceanPatches = patches\<rparr>)"

subsection \<open>The chunk cache\<close>

text \<open>
  A \<^verbatim>\<open>Chunk\<close> is an object: \<^verbatim>\<open>generateChunk\<close> returns a new one at every call, and the
  cache stores and hands out references to it. The store of chunk objects is a list that
  only grows; a reference is a position in it. The \<^verbatim>\<open>Map\<close> of the cache is an association
  list in insertion order, with the operations \<^verbatim>\<open>has\<close>, \<^verbatim>\<open>get\<close>, \<^verbatim>\<open>set\<close> and
  \<^verbatim>\<open>delete\<close>. The non-null assertion on the result of \<^verbatim>\<open>get\<close> in \<^verbatim>\<open>getChunk\<close> is
  \<^term>\<open>the\<close>; the lookup it is applied to always succeeds (lemma \<open>getChunk_lookup\<close>).
\<close>

type_synonym ref = nat

definition Map_has :: "('k \<times> 'v) list \<Rightarrow> 'k \<Rightarrow> bool" where
  "Map_has m k = (map_of m k \<noteq> None)"

definition Map_get :: "('k \<times> 'v) list \<Rightarrow> 'k \<Rightarrow> 'v option" where
  "Map_get m k = map_of m k"

definition Map_set :: "('k \<times> 'v) list \<Rightarrow> 'k \<Rightarrow> 'v \<Rightarrow> ('k \<times> 'v) list" where
  "Map_set m k v = AList.update k v m"

definition Map_delete :: "('k \<times> 'v) list \<Rightarrow> 'k \<Rightarrow> ('k \<times> 'v) list" where
  "Map_delete m k = AList.delete k m"

text \<open>
  The program state: the module object \<^verbatim>\<open>gameProps\<close>, the store of chunk objects, and the
  three fields of the \<^verbatim>\<open>ChunkCache\<close> instance.
\<close>

record 'tex state =
  props :: GameProps
  heap :: "'tex Chunk list"
  cache :: "(string \<times> ref) list"
  seed :: real
  assets :: "'tex AssetDictionary"

definition new_ChunkCache :: "real \<Rightarrow> 'tex AssetDictionary \<Rightarrow> 'tex state" where
  "new_ChunkCache sd a = \<lparr>props = gameProps, heap = [], cache = [], seed = sd, assets = a\<rparr>"

definition getKey :: "int \<Rightarrow> int \<Rightarrow> string" where
  "getKey cx cy = string_of_int cx @ '','' @ string_of_int cy"

definition getChunk :: "int \<Rightarrow> int \<Rightarrow> 'tex state \<Rightarrow> ref \<times> 'tex state" where
  "getChunk cx cy s =
     (let key = getKey cx cy;
          s' = (if \<not> Map_has (cache s) key
                then (let chunk = generateChunk (props s) cx cy (seed s) (assets s);
                          r = length (heap s)
                      in s\<lparr>heap := heap s @ [chunk], cache := Map_set (cache s) key r\<rparr>)
                else s)
      in (the (Map_get (cache s') key), s'))"

function getChunksInRadius_dx ::
  "int \<Rightarrow> int \<Rightarrow> int \<Rightarrow> int \<Rightarrow> int \<Rightarrow> ref list \<times> 'tex state \<Rightarrow> ref list \<times> 'tex state" where
  "getChunksInRadius_dx centerChunkX centerChunkY r dy dx (chunks, s) =
     (if dx \<le> r
      then (case getChunk (centerChunkX + dx) (centerChunkY + dy) s of
              (c, s') \<Rightarrow>
                getChunksInRadius_dx centerChunkX centerChunkY r dy (dx + 1) (chunks @ [c], s'))
      else (chunks, s))"
  by pat_completeness auto
termination
  by (relation "measure (\<lambda>(cx, cy, r, dy, dx, cs). nat (r + 1 - dx))") auto

declare getChunksInRadius_dx.simps [simp del]

function getChunksInRadius_dy ::
  "int \<Rightarrow> int \<Rightarrow> int \<Rightarrow> int \<Rightarrow> ref list \<times> 'tex state \<Rightarrow> ref list \<times> 'tex state" where
  "getChunksInRadius_dy centerChunkX centerChunkY r dy (chunks, s) =
     (if dy \<le> r
      then getChunksInRadius_dy centerChunkX centerChunkY r (dy + 1)
             (getChunksInRadius_dx centerChunkX centerChunkY r dy (- r) (chunks, s))
      else (chunks, s))"
  by pat_completeness auto
termination
  by (relation "measure (\<lambda>(cx, cy, r, dy, cs). nat (r + 1 - dy))") auto

declare getChunksInRadius_dy.simps [simp del]

definition getChunksInRadius :: "int \<Rightarrow> int \<Rightarrow> int \<Rightarrow> 'tex state \<Rightarrow> ref list \<times> 'tex state" where
  "getChunksInRadius centerChunkX centerChunkY r s =
     getChunksInRadius_dy centerChunkX centerChunkY r (- r) ([], s)"

text \<open>The first \<^verbatim>\<open>forEach\<close> of \<^verbatim>\<open>cleanup\<close>, over the entries in insertion order.\<close>

fun cleanup_collect ::
  "'tex Chunk list \<Rightarrow> int \<Rightarrow> int \<Rightarrow> int \<Rightarrow> (string \<times> ref) list \<Rightarrow> string list \<Rightarrow> string list" where
  "cleanup_collect h centerChunkX centerChunkY keepRadius [] toDelete = toDelete"
| "cleanup_collect h centerChunkX centerChunkY keepRadius ((key, r) # es) toDelete =
     (let chunk = h ! r;
          dx = \<bar>chunkX chunk - centerChunkX\<bar>;
          dy = \<bar>chunkY chunk - centerChunkY\<bar>
      in cleanup_collect h centerChunkX centerChunkY keepRadius es
           (if dx > keepRadius \<or> dy > keepRadius then toDelete @ [key] else toDelete))"

definition cleanup :: "int \<Rightarrow> int \<Rightarrow> int \<Rightarrow> 'tex state \<Rightarrow> 'tex state" where
  "cleanup centerChunkX centerChunkY keepRadius s =
     (let toDelete = cleanup_collect (heap s) centerChunkX centerChunkY keepRadius (cache s) []
      in s\<lparr>cache := fold (\<lambda>key m. Map_delete m key) toDelete (cache s)\<rparr>)"

text \<open>
  The states a cache can be in: created by the constructor, then used through its three
  public methods.
\<close>

inductive reachable :: "'tex state \<Rightarrow> bool" where
  reachable_new: "reachable (new_ChunkCache sd a)"
| reachable_getChunk: "reachable s \<Longrightarrow> reachable (snd (getChunk cx cy s))"
| reachable_getChunksInRadius: "reachable s \<Longrightarrow> reachable (snd (getChunksInRadius cx cy r s))"
| reachable_cleanup: "reachable s \<Longrightarrow> reachable (cleanup cx cy k s)"

text \<open>Uses of the cache without \<^verbatim>\<open>cleanup\<close>.\<close>

inductive gets :: "'tex state \<Rightarrow> 'tex state \<Rightarrow> bool" where
  gets_refl: "gets s s"
| gets_getChunk: "gets s t \<Longrightarrow> gets s (snd (getChunk cx cy t))"
| gets_getChunksInRadius: "gets s t \<Longrightarrow> gets s (snd (getChunksInRadius cx cy r t))"

text \<open>Sequences of \<^verbatim>\<open>getChunk\<close> calls, which is what \<^verbatim>\<open>getChunksInRadius\<close> performs.\<close>

inductive getChunk_steps :: "'tex state \<Rightarrow> 'tex state \<Rightarrow> bool" where
  getChunk_steps_refl: "getChunk_steps s s"
| getChunk_steps_step: "getChunk_steps s t \<Longrightarrow> getChunk_steps s (snd (getChunk cx cy t))"

text \<open>
  The invariant of the cache: keys are not repeated, and every entry refers to an allocated
  chunk object that holds what \<^verbatim>\<open>generateChunk\<close> returns for the coordinate of its key.
\<close>

definition cache_inv :: "'tex state \<Rightarrow> bool" where
  "cache_inv s \<longleftrightarrow>
     distinct (map fst (cache s)) \<and>
     (\<forall>(key, r) \<in> set (cache s). r < length (heap s) \<and>
        (\<exists>x y. key = getKey x y \<and> heap s ! r = generateChunk (props s) x y (seed s) (assets s)))"

text \<open>The coordinates of the square visited by \<^verbatim>\<open>getChunksInRadius\<close>, in loop order.\<close>

definition radiusCoords :: "int \<Rightarrow> int \<Rightarrow> int \<Rightarrow> (int \<times> int) list" where
  "radiusCoords cx cy r = concat (map (\<lambda>dy. map (\<lambda>dx. (cx + dx, cy + dy)) [- r..r]) [- r..r])"

text \<open>The eviction test of \<^verbatim>\<open>cleanup\<close> on one cache entry.\<close>

definition outside :: "'tex Chunk list \<Rightarrow> int \<Rightarrow> int \<Rightarrow> int \<Rightarrow> string \<times> ref \<Rightarrow> bool" where
  "outside h cx cy k e \<longleftrightarrow> \<bar>chunkX (h ! snd e) - cx\<bar> > k \<or> \<bar>chunkY (h ! snd e) - cy\<bar> > k"

text \<open>The references \<open>cs\<close> are what the cache holds for the coordinates \<open>ps\<close>, one by one.\<close>

definition served :: "'tex state \<Rightarrow> ref list \<Rightarrow> (int \<times> int) list \<Rightarrow> bool" where
  "served s cs ps \<longleftrightarrow> list_all2 (\<lambda>c p. map_of (cache s) (getKey (fst p) (snd p)) = Some c) cs ps"

text \<open>An asset dictionary in which every texture is the name of its sprite.\<close>

definition spriteNames :: "string AssetDictionary" where
  "spriteNames = \<lparr>jet = ''jet'', tile = ''tile'', grass = ''grass'', sand = ''sand'',
     soil = ''soil'', rocks = ''rocks'', mountain = ''mountain'', tree = ''tree'',
     oceanSuperDeep = ''ocean_super_deep'', oceanDeep = ''ocean_deep'',
     oceanSemiDeep = ''ocean_semi_deep'', oceanShallow = ''ocean_shallow'', shoal = ''shoal'',
     cloudCovered = ''cloud_covered'', cloudLessCoverLand = ''cloud_less_cover_land'',
     cloudLessCoverOcean = ''cloud_less_cover_ocean''\<rparr>"

text \<open>
  The patch candidates of a chunk that pass the clearance test against the islands \<open>isls\<close>,
  and the tiles that the generator pushes for an accepted candidate.
\<close>

definition acceptedPatches :: "int \<Rightarrow> int \<Rightarrow> real \<Rightarrow> 'tex Island list \<Rightarrow> int list" where
  "acceptedPatches cx cy sd isls =
     filter (\<lambda>i. farFromIslands isls (patchGlobalX cx cy sd i) (patchGlobalY cx cy sd i))
       [0..patchCount cx cy sd - 1]"

definition patchTiles :: "int \<Rightarrow> int \<Rightarrow> real \<Rightarrow> int \<Rightarrow> (real \<times> real) list" where
  "patchTiles cx cy sd i =
     patch_py (patchGlobalX cx cy sd i) (patchGlobalY cx cy sd i) (patchSize cx cy sd i)
       (- patchSize cx cy sd i) []"

text \<open>
  Approximations of sine and cosine with an error bound, used to evaluate the random source
  at concrete seeds.
\<close>

definition sc_approx :: "real \<Rightarrow> real \<Rightarrow> real \<Rightarrow> real \<Rightarrow> bool" where
  "sc_approx a s c e \<longleftrightarrow> \<bar>sin a - s\<bar> \<le> e \<and> \<bar>cos a - c\<bar> \<le> e"

section \<open>Cache keys\<close>

text \<open>The decimal notation is injective, and no numeral contains the separator.\<close>

lemma of_char_digit_char: "d < 10 \<Longrightarrow> of_char (digit_char d) = (48 + d :: nat)"
proof -
  assume "d < 10"
  then have "d \<in> {0, 1, 2, 3, 4, 5, 6, 7, 8, 9}" by auto
  then show ?thesis by (auto simp: digit_char_def)
qed

lemma digit_char_inj: "d < 10 \<Longrightarrow> e < 10 \<Longrightarrow> digit_char d = digit_char e \<Longrightarrow> d = e"
  by (metis of_char_digit_char add_left_cancel)

lemma digit_char_not_comma: "d < 10 \<Longrightarrow> digit_char d \<noteq> CHR '',''"
proof
  assume "d < 10" "digit_char d = CHR '',''"
  then have "of_char (CHR '','') = (48 + d :: nat)" using of_char_digit_char by metis
  then show False by simp
qed

lemma digit_char_not_minus: "d < 10 \<Longrightarrow> digit_char d \<noteq> CHR ''-''"
proof
  assume "d < 10" "digit_char d = CHR ''-''"
  then have "of_char (CHR ''-'') = (48 + d :: nat)" using of_char_digit_char by metis
  then show False by simp
qed

lemma string_of_nat_digits: "c \<in> set (string_of_nat n) \<Longrightarrow> \<exists>d<10. c = digit_char d"
proof (induction n rule: string_of_nat.induct)
  case (1 n)
  show ?case
  proof (cases "n < 10")
    case True
    with "1.prems" show ?thesis by (auto simp: string_of_nat.simps [of n])
  next
    case False
    with "1.prems" have "c \<in> set (string_of_nat (n div 10)) \<or> c = digit_char (n mod 10)"
      by (auto simp: string_of_nat.simps [of n])
    then show ?thesis
    proof
      assume "c \<in> set (string_of_nat (n div 10))"
      with False "1.IH" show ?thesis by simp
    next
      assume "c = digit_char (n mod 10)"
      moreover have "n mod 10 < 10" by simp
      ultimately show ?thesis by blast
    qed
  qed
qed

lemma string_of_nat_nonempty: "string_of_nat n \<noteq> []"
  by (subst string_of_nat.simps) simp

lemma string_of_nat_inj: "string_of_nat n = string_of_nat m \<Longrightarrow> n = m"
proof (induction n arbitrary: m rule: string_of_nat.induct)
  case (1 n)
  show ?case
  proof (cases "n < 10")
    case n: True
    show ?thesis
    proof (cases "m < 10")
      case True
      with n "1.prems" show ?thesis
        by (simp add: string_of_nat.simps [of n] string_of_nat.simps [of m] digit_char_inj)
    next
      case False
      with n "1.prems" show ?thesis
        using string_of_nat_nonempty [of "m div 10"]
        by (simp add: string_of_nat.simps [of n] string_of_nat.simps [of m])
    qed
  next
    case n: False
    show ?thesis
    proof (cases "m < 10")
      case True
      with n "1.prems" show ?thesis
        using string_of_nat_nonempty [of "n div 10"]
        by (simp add: string_of_nat.simps [of n] string_of_nat.simps [of m])
    next
      case False
      with n "1.prems" have eq: "string_of_nat (n div 10) = string_of_nat (m div 10)"
        and d: "digit_char (n mod 10) = digit_char (m mod 10)"
        by (simp_all add: string_of_nat.simps [of n] string_of_nat.simps [of m])
      from n eq "1.IH" have "n div 10 = m div 10" by simp
      moreover from d have "n mod 10 = m mod 10" by (intro digit_char_inj) simp_all
      ultimately show ?thesis by (metis div_mult_mod_eq)
    qed
  qed
qed

lemma string_of_nat_no_comma: "CHR '','' \<notin> set (string_of_nat n)"
  by (metis string_of_nat_digits digit_char_not_comma)

lemma string_of_nat_no_minus: "CHR ''-'' \<notin> set (string_of_nat n)"
  by (metis string_of_nat_digits digit_char_not_minus)

lemma string_of_int_no_comma: "CHR '','' \<notin> set (string_of_int i)"
  by (simp add: string_of_int_def string_of_nat_no_comma)

lemma string_of_int_inj: "string_of_int i = string_of_int j \<Longrightarrow> i = j"
proof -
  assume eq: "string_of_int i = string_of_int j"
  have neg: "hd (string_of_nat n) \<noteq> CHR ''-''" for n
    using string_of_nat_no_minus [of n] string_of_nat_nonempty [of n]
    by (cases "string_of_nat n") auto
  show ?thesis
  proof (cases "i < 0")
    case i: True
    show ?thesis
    proof (cases "j < 0")
      case True
      with i eq have "nat (- i) = nat (- j)"
        by (simp add: string_of_int_def string_of_nat_inj)
      with i True show ?thesis by simp
    next
      case False
      with i eq have "CHR ''-'' # string_of_nat (nat (- i)) = string_of_nat (nat j)"
        by (simp add: string_of_int_def)
      then have "hd (string_of_nat (nat j)) = CHR ''-''" by (metis list.sel(1))
      with neg show ?thesis by blast
    qed
  next
    case i: False
    show ?thesis
    proof (cases "j < 0")
      case True
      with i eq have "string_of_nat (nat i) = CHR ''-'' # string_of_nat (nat (- j))"
        by (simp add: string_of_int_def)
      then have "hd (string_of_nat (nat i)) = CHR ''-''" by (metis list.sel(1))
      with neg show ?thesis by blast
    next
      case False
      with i eq have "nat i = nat j"
        by (simp add: string_of_int_def string_of_nat_inj)
      with i False show ?thesis by simp
    qed
  qed
qed

lemma append_sep_inj:
  "x \<notin> set a \<Longrightarrow> x \<notin> set c \<Longrightarrow> a @ x # b = c @ x # d \<Longrightarrow> a = c \<and> b = d"
proof (induction a arbitrary: c)
  case Nil
  then show ?case by (cases c) auto
next
  case (Cons y a)
  then show ?case by (cases c) auto
qed

lemma getKey_inj: "getKey x y = getKey x' y' \<longleftrightarrow> x = x' \<and> y = y'"
proof
  assume "getKey x y = getKey x' y'"
  then have "string_of_int x @ CHR '','' # string_of_int y
      = string_of_int x' @ CHR '','' # string_of_int y'"
    by (simp add: getKey_def)
  then have "string_of_int x = string_of_int x' \<and> string_of_int y = string_of_int y'"
    by (rule append_sep_inj [OF string_of_int_no_comma string_of_int_no_comma])
  then show "x = x' \<and> y = y'" by (simp add: string_of_int_inj)
qed simp

section \<open>The cache invariant\<close>

lemma generateChunk_chunkX [simp]: "chunkX (generateChunk gp x y sd a) = x"
  by (simp add: generateChunk_def Let_def)

lemma generateChunk_chunkY [simp]: "chunkY (generateChunk gp x y sd a) = y"
  by (simp add: generateChunk_def Let_def)

lemma update_absent: "map_of m k = None \<Longrightarrow> AList.update k v m = m @ [(k, v)]"
  by (induction m) (auto split: if_splits)

lemma getChunk_hit:
  "map_of (cache s) (getKey x y) = Some r \<Longrightarrow> getChunk x y s = (r, s)"
  by (simp add: getChunk_def Map_has_def Map_get_def)

lemma getChunk_miss:
  "map_of (cache s) (getKey x y) = None \<Longrightarrow>
   getChunk x y s =
     (length (heap s),
      s\<lparr>heap := heap s @ [generateChunk (props s) x y (seed s) (assets s)],
        cache := cache s @ [(getKey x y, length (heap s))]\<rparr>)"
  by (simp add: getChunk_def Map_has_def Map_get_def Map_set_def Let_def update_absent map_add_def)

lemma getChunk_frame:
  "props (snd (getChunk x y s)) = props s"
  "seed (snd (getChunk x y s)) = seed s"
  "assets (snd (getChunk x y s)) = assets s"
  by (cases "map_of (cache s) (getKey x y)"; simp add: getChunk_hit getChunk_miss)+

lemma getChunk_heap_prefix: "\<exists>ext. heap (snd (getChunk x y s)) = heap s @ ext"
  by (cases "map_of (cache s) (getKey x y)"; simp add: getChunk_hit getChunk_miss)

lemma getChunk_cache_mono:
  "map_of (cache s) k = Some r \<Longrightarrow> map_of (cache (snd (getChunk x y s))) k = Some r"
  by (cases "map_of (cache s) (getKey x y)"; auto simp add: getChunk_hit getChunk_miss map_add_Some_iff)

lemma getChunk_lookup:
  "map_of (cache (snd (getChunk x y s))) (getKey x y) = Some (fst (getChunk x y s))"
  by (cases "map_of (cache s) (getKey x y)"; simp add: getChunk_hit getChunk_miss map_add_def)

lemma cache_inv_getChunk: "cache_inv s \<Longrightarrow> cache_inv (snd (getChunk x y s))"
proof (cases "map_of (cache s) (getKey x y)")
  case (Some r)
  assume "cache_inv s"
  with Some show ?thesis by (simp add: getChunk_hit)
next
  case None
  assume inv: "cache_inv s"
  from None have notin: "getKey x y \<notin> fst ` set (cache s)"
    by (simp add: map_of_eq_None_iff)
  have old: "r < length (heap s) \<and>
      (\<exists>x' y'. key = getKey x' y' \<and>
         (heap s @ [generateChunk (props s) x y (seed s) (assets s)]) ! r
           = generateChunk (props s) x' y' (seed s) (assets s))"
    if "(key, r) \<in> set (cache s)" for key r
    using inv that by (fastforce simp: cache_inv_def nth_append)
  show ?thesis
    using inv notin old
    by (auto simp: getChunk_miss [OF None] cache_inv_def nth_append)
qed

lemma cache_inv_new: "cache_inv (new_ChunkCache sd a)"
  by (simp add: cache_inv_def new_ChunkCache_def)

lemma getChunk_steps_trans:
  "getChunk_steps t u \<Longrightarrow> getChunk_steps s t \<Longrightarrow> getChunk_steps s u"
  by (induction rule: getChunk_steps.induct) (auto intro: getChunk_steps.intros)

lemma getChunksInRadius_dx_steps:
  "getChunk_steps s (snd (getChunksInRadius_dx cx cy r dy dx (cs, s)))"
proof (induction cx cy r dy dx "(cs, s)" arbitrary: cs s rule: getChunksInRadius_dx.induct)
  case (1 cx cy r dy dx cs s)
  show ?case
  proof (cases "dx \<le> r")
    case True
    obtain c s' where g: "getChunk (cx + dx) (cy + dy) s = (c, s')" by fastforce
    have "getChunk_steps s' (snd (getChunksInRadius_dx cx cy r dy (dx + 1) (cs @ [c], s')))"
      using "1.hyps" [OF True g [symmetric]] .
    moreover have "getChunk_steps s s'"
      using getChunk_steps_step [OF getChunk_steps_refl, of s "cx + dx" "cy + dy"] g by simp
    ultimately show ?thesis
      using True g by (simp add: getChunksInRadius_dx.simps [of cx cy r dy dx] getChunk_steps_trans)
  next
    case False
    then show ?thesis
      by (simp add: getChunksInRadius_dx.simps [of cx cy r dy dx] getChunk_steps_refl)
  qed
qed

lemma getChunksInRadius_dy_steps:
  "getChunk_steps s (snd (getChunksInRadius_dy cx cy r dy (cs, s)))"
proof (induction cx cy r dy "(cs, s)" arbitrary: cs s rule: getChunksInRadius_dy.induct)
  case (1 cx cy r dy cs s)
  show ?case
  proof (cases "dy \<le> r")
    case True
    obtain cs' s' where g: "getChunksInRadius_dx cx cy r dy (- r) (cs, s) = (cs', s')"
      by fastforce
    have "getChunk_steps s' (snd (getChunksInRadius_dy cx cy r (dy + 1) (cs', s')))"
      using "1.hyps" [OF True g] .
    moreover have "getChunk_steps s s'"
      using getChunksInRadius_dx_steps [of s cx cy r dy "- r" cs] g by simp
    ultimately show ?thesis
      using True g by (simp add: getChunksInRadius_dy.simps [of cx cy r dy] getChunk_steps_trans)
  next
    case False
    then show ?thesis
      by (simp add: getChunksInRadius_dy.simps [of cx cy r dy] getChunk_steps_refl)
  qed
qed

lemma getChunksInRadius_steps: "getChunk_steps s (snd (getChunksInRadius cx cy r s))"
  by (simp add: getChunksInRadius_def getChunksInRadius_dy_steps)

lemma getChunk_steps_inv: "getChunk_steps s t \<Longrightarrow> cache_inv s \<Longrightarrow> cache_inv t"
  by (induction rule: getChunk_steps.induct) (auto intro: cache_inv_getChunk)


lemma getChunk_steps_cache_mono:
  "getChunk_steps s t \<Longrightarrow> map_of (cache s) k = Some r \<Longrightarrow> map_of (cache t) k = Some r"
  by (induction rule: getChunk_steps.induct) (auto intro: getChunk_cache_mono)

lemma getChunk_steps_heap_prefix: "getChunk_steps s t \<Longrightarrow> \<exists>ext. heap t = heap s @ ext"
proof (induction rule: getChunk_steps.induct)
  case (getChunk_steps_refl s)
  then show ?case by simp
next
  case (getChunk_steps_step s t cx cy)
  then obtain e1 where "heap t = heap s @ e1" by blast
  moreover obtain e2 where "heap (snd (getChunk cx cy t)) = heap t @ e2"
    using getChunk_heap_prefix by blast
  ultimately show ?case by simp
qed

lemma getChunk_steps_frame:
  "getChunk_steps s t \<Longrightarrow> props t = props s \<and> seed t = seed s \<and> assets t = assets s"
  by (induction rule: getChunk_steps.induct) (simp_all add: getChunk_frame)

lemma gets_steps: "gets s t \<Longrightarrow> getChunk_steps s t"
proof (induction rule: gets.induct)
  case (gets_refl s)
  then show ?case by (rule getChunk_steps_refl)
next
  case (gets_getChunk s t cx cy)
  then show ?case by (auto intro: getChunk_steps_step)
next
  case (gets_getChunksInRadius s t cx cy r)
  then show ?case using getChunksInRadius_steps getChunk_steps_trans by blast
qed

subsection \<open>Eviction\<close>

lemma cleanup_collect_eq:
  "cleanup_collect h cx cy k es acc = acc @ map fst (filter (outside h cx cy k) es)"
  by (induction es arbitrary: acc) (auto simp: outside_def Let_def)

lemma fold_delete_eq:
  "fold (\<lambda>key m. Map_delete m key) ks m = filter (\<lambda>e. fst e \<notin> set ks) m"
proof (induction ks arbitrary: m)
  case Nil
  then show ?case by simp
next
  case (Cons k ks)
  have "filter (\<lambda>e. fst e \<notin> set ks) (filter (\<lambda>(k', _). k \<noteq> k') m)
      = filter (\<lambda>e. fst e \<notin> set (k # ks)) m"
    by (induction m) auto
  with Cons show ?case by (simp add: Map_delete_def AList.delete_eq)
qed

lemma cleanup_cache:
  assumes "distinct (map fst (cache s))"
  shows "cache (cleanup cx cy k s) = filter (\<lambda>e. \<not> outside (heap s) cx cy k e) (cache s)"
proof -
  have "(fst e \<notin> fst ` {e \<in> set (cache s). outside (heap s) cx cy k e})
      = (\<not> outside (heap s) cx cy k e)" if "e \<in> set (cache s)" for e
  proof
    assume "fst e \<notin> fst ` {e \<in> set (cache s). outside (heap s) cx cy k e}"
    with that show "\<not> outside (heap s) cx cy k e" by blast
  next
    assume n: "\<not> outside (heap s) cx cy k e"
    show "fst e \<notin> fst ` {e \<in> set (cache s). outside (heap s) cx cy k e}"
    proof
      assume "fst e \<in> fst ` {e \<in> set (cache s). outside (heap s) cx cy k e}"
      then obtain e' where e': "e' \<in> set (cache s)" "outside (heap s) cx cy k e'" "fst e' = fst e"
        by auto
      with assms that have "e' = e" by (metis eq_key_imp_eq_value prod.collapse)
      with e' n show False by simp
    qed
  qed
  then show ?thesis
    by (simp add: cleanup_def cleanup_collect_eq fold_delete_eq cong: filter_cong)
qed

lemma cleanup_frame:
  "heap (cleanup cx cy k s) = heap s" "props (cleanup cx cy k s) = props s"
  "seed (cleanup cx cy k s) = seed s" "assets (cleanup cx cy k s) = assets s"
  by (simp_all add: cleanup_def Let_def)

lemma cache_inv_cleanup: "cache_inv s \<Longrightarrow> cache_inv (cleanup cx cy k s)"
  by (auto simp: cache_inv_def cleanup_cache cleanup_frame distinct_map_filter)

lemma reachable_inv: "reachable s \<Longrightarrow> cache_inv s"
proof (induction rule: reachable.induct)
  case (reachable_new sd a)
  then show ?case by (rule cache_inv_new)
next
  case (reachable_getChunk s cx cy)
  then show ?case by (auto intro: cache_inv_getChunk)
next
  case (reachable_getChunksInRadius s cx cy r)
  then show ?case using getChunksInRadius_steps getChunk_steps_inv by blast
next
  case (reachable_cleanup s cx cy k)
  then show ?case by (auto intro: cache_inv_cleanup)
qed

lemma cache_inv_entry:
  assumes "cache_inv s" "map_of (cache s) (getKey x y) = Some r"
  shows "r < length (heap s)" "heap s ! r = generateChunk (props s) x y (seed s) (assets s)"
proof -
  from assms(2) have "(getKey x y, r) \<in> set (cache s)" by (rule map_of_SomeD)
  with assms(1) obtain x' y' where r: "r < length (heap s)"
    and k: "getKey x y = getKey x' y'"
    and h: "heap s ! r = generateChunk (props s) x' y' (seed s) (assets s)"
    by (fastforce simp: cache_inv_def)
  from k have "x' = x" "y' = y" by (simp_all add: getKey_inj)
  with r h show "r < length (heap s)" "heap s ! r = generateChunk (props s) x y (seed s) (assets s)"
    by simp_all
qed

lemma getChunk_result:
  assumes "cache_inv s" "getChunk x y s = (r, s')"
  shows "r < length (heap s')" "heap s' ! r = generateChunk (props s) x y (seed s) (assets s)"
    "map_of (cache s') (getKey x y) = Some r" "cache_inv s'"
proof -
  from assms(2) have s': "s' = snd (getChunk x y s)" and r: "r = fst (getChunk x y s)" by simp_all
  show inv': "cache_inv s'" using assms(1) s' by (simp add: cache_inv_getChunk)
  show l: "map_of (cache s') (getKey x y) = Some r" using s' r by (simp add: getChunk_lookup)
  from cache_inv_entry [OF inv' l] show "r < length (heap s')"
    "heap s' ! r = generateChunk (props s) x y (seed s) (assets s)"
    by (simp_all add: s' getChunk_frame)
qed

subsection \<open>Batch retrieval\<close>

lemma served_mono: "getChunk_steps s t \<Longrightarrow> served s cs ps \<Longrightarrow> served t cs ps"
  unfolding served_def
  by (erule list_all2_mono) (auto intro: getChunk_steps_cache_mono)

lemma served_snoc:
  "served s cs ps \<Longrightarrow> map_of (cache s) (getKey x y) = Some c \<Longrightarrow> served s (cs @ [c]) (ps @ [(x, y)])"
  by (simp add: served_def list_all2_appendI)


lemma getChunksInRadius_dx_served:
  "served s cs ps \<Longrightarrow>
   served (snd (getChunksInRadius_dx cx cy r dy dx (cs, s)))
     (fst (getChunksInRadius_dx cx cy r dy dx (cs, s)))
     (ps @ map (\<lambda>dx. (cx + dx, cy + dy)) [dx..r])"
proof (induction cx cy r dy dx "(cs, s)" arbitrary: cs s ps rule: getChunksInRadius_dx.induct)
  case (1 cx cy r dy dx cs s)
  show ?case
  proof (cases "dx \<le> r")
    case True
    obtain c s' where g: "getChunk (cx + dx) (cy + dy) s = (c, s')" by fastforce
    have st: "getChunk_steps s s'"
      using getChunk_steps_step [OF getChunk_steps_refl, of s "cx + dx" "cy + dy"] g by simp
    have "map_of (cache s') (getKey (cx + dx) (cy + dy)) = Some c"
      using getChunk_lookup [of "cx + dx" "cy + dy" s] g by simp
    with served_mono [OF st "1.prems"]
    have "served s' (cs @ [c]) (ps @ [(cx + dx, cy + dy)])" by (rule served_snoc)
    from "1.hyps" [OF True g [symmetric] this] True g show ?thesis
      by (simp add: getChunksInRadius_dx.simps [of cx cy r dy dx] upto_rec1 [of dx r])
  next
    case False
    with "1.prems" show ?thesis
      by (simp add: getChunksInRadius_dx.simps [of cx cy r dy dx])
  qed
qed

lemma getChunksInRadius_dy_served:
  "served s cs ps \<Longrightarrow>
   served (snd (getChunksInRadius_dy cx cy r dy (cs, s)))
     (fst (getChunksInRadius_dy cx cy r dy (cs, s)))
     (ps @ concat (map (\<lambda>dy. map (\<lambda>dx. (cx + dx, cy + dy)) [- r..r]) [dy..r]))"
proof (induction cx cy r dy "(cs, s)" arbitrary: cs s ps rule: getChunksInRadius_dy.induct)
  case (1 cx cy r dy cs s)
  show ?case
  proof (cases "dy \<le> r")
    case True
    obtain cs' s' where g: "getChunksInRadius_dx cx cy r dy (- r) (cs, s) = (cs', s')"
      by fastforce
    have "served s' cs' (ps @ map (\<lambda>dx. (cx + dx, cy + dy)) [- r..r])"
      using getChunksInRadius_dx_served [OF "1.prems", of cx cy r dy "- r"] g by simp
    from "1.hyps" [OF True g this] True g show ?thesis
      by (simp add: getChunksInRadius_dy.simps [of cx cy r dy] upto_rec1 [of dy r])
  next
    case False
    with "1.prems" show ?thesis
      by (simp add: getChunksInRadius_dy.simps [of cx cy r dy])
  qed
qed

lemma getChunksInRadius_served:
  "served (snd (getChunksInRadius cx cy r s)) (fst (getChunksInRadius cx cy r s))
     (radiusCoords cx cy r)"
  using getChunksInRadius_dy_served [of s "[]" "[]" cx cy r "- r"]
  by (simp add: getChunksInRadius_def radiusCoords_def served_def)

lemma radiusCoords_mem: "(x, y) \<in> set (radiusCoords cx cy r) \<longleftrightarrow>
      (\<exists>dy\<in>{- r..r}. \<exists>dx\<in>{- r..r}. x = cx + dx \<and> y = cy + dy)"
  by (auto simp add: radiusCoords_def)

lemma set_radiusCoords: "set (radiusCoords cx cy r) = {cx - r..cx + r} \<times> {cy - r..cy + r}"
proof (rule set_eqI)
  fix p :: "int \<times> int"
  obtain x y where p: "p = (x, y)" by (cases p)
  have "(\<exists>dy\<in>{- r..r}. \<exists>dx\<in>{- r..r}. x = cx + dx \<and> y = cy + dy)
      \<longleftrightarrow> x \<in> {cx - r..cx + r} \<and> y \<in> {cy - r..cy + r}"
  proof
    assume "\<exists>dy\<in>{- r..r}. \<exists>dx\<in>{- r..r}. x = cx + dx \<and> y = cy + dy"
    then obtain dx dy where "dy \<in> {- r..r}" "dx \<in> {- r..r}" "x = cx + dx" "y = cy + dy"
      by blast
    then show "x \<in> {cx - r..cx + r} \<and> y \<in> {cy - r..cy + r}" by simp
  next
    assume a: "x \<in> {cx - r..cx + r} \<and> y \<in> {cy - r..cy + r}"
    then have "y - cy \<in> {- r..r}" "x - cx \<in> {- r..r}" "x = cx + (x - cx)" "y = cy + (y - cy)"
      by simp_all
    then show "\<exists>dy\<in>{- r..r}. \<exists>dx\<in>{- r..r}. x = cx + dx \<and> y = cy + dy" by blast
  qed
  then show "p \<in> set (radiusCoords cx cy r) \<longleftrightarrow> p \<in> {cx - r..cx + r} \<times> {cy - r..cy + r}"
    by (simp add: p radiusCoords_mem)
qed


lemma length_radiusCoords: "0 \<le> r \<Longrightarrow> length (radiusCoords cx cy r) = nat ((2 * r + 1)\<^sup>2)"
  by (simp add: radiusCoords_def length_concat comp_def sum_list_triv power2_eq_square nat_mult_distrib)

lemma distinct_radiusCoords: "distinct (radiusCoords cx cy r)"
proof (cases "0 \<le> r")
  case True
  have "card (set (radiusCoords cx cy r)) = card {cx - r..cx + r} * card {cy - r..cy + r}"
    by (simp only: set_radiusCoords card_cartesian_product)
  also have "\<dots> = nat (2 * r + 1) * nat (2 * r + 1)"
    by (simp only: card_atLeastAtMost_int) (simp add: algebra_simps)
  also have "\<dots> = nat ((2 * r + 1)\<^sup>2)"
    using True by (simp only: power2_eq_square nat_mult_distrib)
  finally have "card (set (radiusCoords cx cy r)) = length (radiusCoords cx cy r)"
    using True by (simp only: length_radiusCoords)
  then show ?thesis by (rule card_distinct)
next
  case False
  then show ?thesis by (simp add: radiusCoords_def)
qed

section \<open>Properties of the cache\<close>

text \<open>
  C10. In every reachable cache state, the chunk that \<^verbatim>\<open>getChunk(x, y)\<close> returns is an
  allocated object whose \<^verbatim>\<open>chunkX\<close> is \<open>x\<close> and whose \<^verbatim>\<open>chunkY\<close> is \<open>y\<close>; and two
  coordinates have the same key only when they are equal.
\<close>

theorem getChunk_coordinates:
  assumes "reachable s" and "getChunk x y s = (r, s')"
  shows "r < length (heap s') \<and> chunkX (heap s' ! r) = x \<and> chunkY (heap s' ! r) = y
    \<and> ((getKey x y = getKey x' y') = (x = x' \<and> y = y'))"
  using getChunk_result [OF reachable_inv [OF assms(1)] assms(2)]
  by (simp add: getKey_inj)

theorem getChunk_coordinates_witness:
  "reachable (snd (getChunk 1 0 (new_ChunkCache 42 spriteNames)))
   \<and> getChunk (- 3) 7 (snd (getChunk 1 0 (new_ChunkCache 42 spriteNames)))
       = (1, snd (getChunk (- 3) 7 (snd (getChunk 1 0 (new_ChunkCache 42 spriteNames)))))
   \<and> chunkX (heap (snd (getChunk (- 3) 7 (snd (getChunk 1 0 (new_ChunkCache 42 spriteNames))))) ! 1)
       = - 3
   \<and> chunkY (heap (snd (getChunk (- 3) 7 (snd (getChunk 1 0 (new_ChunkCache 42 spriteNames))))) ! 1)
       = 7"
proof -
  let ?s = "snd (getChunk 1 0 (new_ChunkCache 42 spriteNames))"
  have r: "reachable ?s" by (intro reachable.intros)
  have "getKey (- 3) 7 \<noteq> getKey 1 0" by (simp add: getKey_inj)
  then have g: "getChunk (- 3) 7 ?s = (1, snd (getChunk (- 3) 7 ?s))"
    by (simp add: getChunk_def new_ChunkCache_def Map_has_def Map_get_def Map_set_def Let_def)
  from getChunk_coordinates [OF r g] r g show ?thesis by simp
qed

text \<open>
  C9. Let \<^verbatim>\<open>getChunk(x, y)\<close> return \<open>r\<close> in a reachable state. On a miss the call allocates
  one new chunk object, the result of \<^verbatim>\<open>generateChunk\<close>, and stores it under the key; on a
  hit it changes nothing. After any further calls of \<^verbatim>\<open>getChunk\<close> and
  \<^verbatim>\<open>getChunksInRadius\<close> (no \<^verbatim>\<open>cleanup\<close>), \<^verbatim>\<open>getChunk(x, y)\<close> returns the same
  reference \<open>r\<close>, leaves the state as it is (nothing is rebuilt), and the object at \<open>r\<close> is
  unchanged.
\<close>

theorem getChunk_idempotent:
  assumes "reachable s" and "getChunk x y s = (r, s1)" and "gets s1 s2"
  shows "getChunk x y s2 = (r, s2) \<and> r < length (heap s1) \<and> heap s2 ! r = heap s1 ! r
    \<and> heap s1 ! r = generateChunk (props s) x y (seed s) (assets s)
    \<and> (r, s1) =
        (if Map_has (cache s) (getKey x y) then (the (Map_get (cache s) (getKey x y)), s)
         else (length (heap s),
               s\<lparr>heap := heap s @ [generateChunk (props s) x y (seed s) (assets s)],
                 cache := cache s @ [(getKey x y, length (heap s))]\<rparr>))"
proof -
  note res = getChunk_result [OF reachable_inv [OF assms(1)] assms(2)]
  from assms(3) have st: "getChunk_steps s1 s2" by (rule gets_steps)
  from getChunk_steps_cache_mono [OF st res(3)]
  have 1: "getChunk x y s2 = (r, s2)" by (rule getChunk_hit)
  from getChunk_steps_heap_prefix [OF st] obtain ext where "heap s2 = heap s1 @ ext" by blast
  with res(1) have 2: "heap s2 ! r = heap s1 ! r" by (simp add: nth_append)
  have 3: "(r, s1) =
        (if Map_has (cache s) (getKey x y) then (the (Map_get (cache s) (getKey x y)), s)
         else (length (heap s),
               s\<lparr>heap := heap s @ [generateChunk (props s) x y (seed s) (assets s)],
                 cache := cache s @ [(getKey x y, length (heap s))]\<rparr>))"
  proof (cases "map_of (cache s) (getKey x y)")
    case None
    with getChunk_miss [OF None] assms(2) show ?thesis by (simp add: Map_has_def)
  next
    case (Some r')
    with getChunk_hit [OF Some] assms(2) show ?thesis by (simp add: Map_has_def Map_get_def)
  qed
  from 1 2 res(1,2) 3 show ?thesis by blast
qed

theorem getChunk_idempotent_witness:
  "reachable (new_ChunkCache 42 spriteNames)
   \<and> getChunk 0 0 (new_ChunkCache 42 spriteNames)
       = (0, snd (getChunk 0 0 (new_ChunkCache 42 spriteNames)))
   \<and> gets (snd (getChunk 0 0 (new_ChunkCache 42 spriteNames)))
        (snd (getChunk 1 0 (snd (getChunk 0 0 (new_ChunkCache 42 spriteNames)))))
   \<and> fst (getChunk 0 0 (snd (getChunk 1 0 (snd (getChunk 0 0 (new_ChunkCache 42 spriteNames)))))) = 0
   \<and> heap (snd (getChunk 1 0 (snd (getChunk 0 0 (new_ChunkCache 42 spriteNames))))) ! 0
       = generateChunk gameProps 0 0 42 spriteNames"
proof -
  let ?s = "new_ChunkCache 42 spriteNames"
  let ?s1 = "snd (getChunk 0 0 ?s)"
  let ?s2 = "snd (getChunk 1 0 ?s1)"
  have r: "reachable ?s" by (rule reachable_new)
  have g: "getChunk 0 0 ?s = (0, ?s1)"
    by (simp add: getChunk_def new_ChunkCache_def Map_has_def Map_get_def Map_set_def Let_def)
  have t: "gets ?s1 ?s2" by (intro gets.intros)
  from getChunk_idempotent [OF r g t] r g t show ?thesis
    by (simp add: new_ChunkCache_def)
qed

lemma served_nth:
  assumes "served s cs ps" and "i < length cs"
  shows "map_of (cache s) (getKey (fst (ps ! i)) (snd (ps ! i))) = Some (cs ! i)"
  using list_all2_nthD [OF assms [unfolded served_def]] .

text \<open>
  C7. In a reachable state and for a radius \<open>r \<ge> 0\<close>, \<^verbatim>\<open>getChunksInRadius(cx, cy, r)\<close> returns
  \<open>(2r + 1)\<^sup>2\<close> references, 25 for \<open>r = 2\<close>. Read through the store, their coordinates are the
  list \<open>radiusCoords cx cy r\<close>, which enumerates the square
  \<open>[cx - r, cx + r] \<times> [cy - r, cy + r]\<close> without repetition. Afterwards \<^verbatim>\<open>getChunk\<close> for each
  of these coordinates returns the corresponding reference and leaves the state unchanged, so
  every chunk of the square is cached.
\<close>

theorem getChunksInRadius_complete:
  assumes "reachable s" and "0 \<le> r" and "getChunksInRadius cx cy r s = (chunks, s')"
  shows "length chunks = nat ((2 * r + 1)\<^sup>2)
    \<and> (length chunks = 25 \<or> r \<noteq> 2)
    \<and> map (\<lambda>c. (chunkX (heap s' ! c), chunkY (heap s' ! c))) chunks = radiusCoords cx cy r
    \<and> set (radiusCoords cx cy r) = {cx - r..cx + r} \<times> {cy - r..cy + r}
    \<and> distinct (radiusCoords cx cy r)
    \<and> map (\<lambda>(x, y). getChunk x y s') (radiusCoords cx cy r) = map (\<lambda>c. (c, s')) chunks
    \<and> list_all (\<lambda>c. c < length (heap s')) chunks
    \<and> reachable s'"
proof -
  have s': "s' = snd (getChunksInRadius cx cy r s)" and c: "chunks = fst (getChunksInRadius cx cy r s)"
    using assms(3) by simp_all
  have sv: "served s' chunks (radiusCoords cx cy r)"
    unfolding s' c by (rule getChunksInRadius_served)
  then have len: "length chunks = length (radiusCoords cx cy r)"
    by (simp add: served_def list_all2_lengthD)
  have reach: "reachable s'" unfolding s' using assms(1) by (rule reachable_getChunksInRadius)
  then have inv: "cache_inv s'" by (rule reachable_inv)
  have 1: "length chunks = nat ((2 * r + 1)\<^sup>2)"
    using len assms(2) by (simp add: length_radiusCoords)
  then have 2: "length chunks = 25 \<or> r \<noteq> 2" by auto
  have 3: "map (\<lambda>c. (chunkX (heap s' ! c), chunkY (heap s' ! c))) chunks = radiusCoords cx cy r"
  proof (rule nth_equalityI)
    show "length (map (\<lambda>c. (chunkX (heap s' ! c), chunkY (heap s' ! c))) chunks)
        = length (radiusCoords cx cy r)"
      using len by simp
  next
    fix i assume "i < length (map (\<lambda>c. (chunkX (heap s' ! c), chunkY (heap s' ! c))) chunks)"
    then have i: "i < length chunks" by simp
    with sv have "map_of (cache s') (getKey (fst (radiusCoords cx cy r ! i))
        (snd (radiusCoords cx cy r ! i))) = Some (chunks ! i)"
      by (rule served_nth)
    from cache_inv_entry(2) [OF inv this] i
    show "map (\<lambda>c. (chunkX (heap s' ! c), chunkY (heap s' ! c))) chunks ! i
        = radiusCoords cx cy r ! i"
      by simp
  qed
  have 4: "map (\<lambda>(x, y). getChunk x y s') (radiusCoords cx cy r) = map (\<lambda>c. (c, s')) chunks"
  proof (rule nth_equalityI)
    show "length (map (\<lambda>(x, y). getChunk x y s') (radiusCoords cx cy r))
        = length (map (\<lambda>c. (c, s')) chunks)"
      using len by simp
  next
    fix i assume "i < length (map (\<lambda>(x, y). getChunk x y s') (radiusCoords cx cy r))"
    then have i: "i < length chunks" using len by simp
    with sv have "map_of (cache s') (getKey (fst (radiusCoords cx cy r ! i))
        (snd (radiusCoords cx cy r ! i))) = Some (chunks ! i)"
      by (rule served_nth)
    from getChunk_hit [OF this] i len
    show "map (\<lambda>(x, y). getChunk x y s') (radiusCoords cx cy r) ! i = map (\<lambda>c. (c, s')) chunks ! i"
      by (simp add: case_prod_beta)
  qed
  have 5: "list_all (\<lambda>c. c < length (heap s')) chunks"
    unfolding list_all_length
  proof (intro allI impI)
    fix i assume i: "i < length chunks"
    with sv have "map_of (cache s') (getKey (fst (radiusCoords cx cy r ! i))
        (snd (radiusCoords cx cy r ! i))) = Some (chunks ! i)"
      by (rule served_nth)
    from cache_inv_entry(1) [OF inv this] show "chunks ! i < length (heap s')" .
  qed
  from 1 2 3 4 5 reach set_radiusCoords [of cx cy r] distinct_radiusCoords [of cx cy r]
  show ?thesis by blast
qed

theorem getChunksInRadius_complete_witness:
  "reachable (new_ChunkCache 42 spriteNames) \<and> (0::int) \<le> 2
   \<and> length (fst (getChunksInRadius 0 0 2 (new_ChunkCache 42 spriteNames))) = 25
   \<and> set (radiusCoords 0 0 2) = {- 2..2} \<times> {- 2..2}
   \<and> map (\<lambda>(x, y). getChunk x y (snd (getChunksInRadius 0 0 2 (new_ChunkCache 42 spriteNames))))
        (radiusCoords 0 0 2)
     = map (\<lambda>c. (c, snd (getChunksInRadius 0 0 2 (new_ChunkCache 42 spriteNames))))
         (fst (getChunksInRadius 0 0 2 (new_ChunkCache 42 spriteNames)))"
proof -
  let ?s = "new_ChunkCache 42 spriteNames"
  have r: "reachable ?s" by (rule reachable_new)
  have z: "(0::int) \<le> 2" by simp
  have g: "getChunksInRadius 0 0 2 ?s
      = (fst (getChunksInRadius 0 0 2 ?s), snd (getChunksInRadius 0 0 2 ?s))"
    by simp
  from getChunksInRadius_complete [OF r z g] r show ?thesis by simp
qed

text \<open>
  C8. Let \<open>s\<close> be reachable and \<open>t\<close> the state after \<^verbatim>\<open>cleanup(cx, cy, k)\<close>. No entry of the
  cache of \<open>t\<close> refers to a chunk outside the window \<open>|chunkX - cx| \<le> k\<close>,
  \<open>|chunkY - cy| \<le> k\<close>. The store of chunk objects is untouched, and for a coordinate inside
  the window the cache holds what it held before. A coordinate outside the window that was
  cached at \<open>r\<^sub>0\<close> is no longer cached; \<^verbatim>\<open>getChunk\<close> for it then allocates a new object, at a
  reference that did not exist before, with the contents of the old one, which stays in the
  store as it was.
\<close>

theorem cleanup_evicts:
  assumes "reachable s"
  shows "(\<forall>(key, r) \<in> set (cache (cleanup cx cy k s)).
            \<bar>chunkX (heap (cleanup cx cy k s) ! r) - cx\<bar> \<le> k
          \<and> \<bar>chunkY (heap (cleanup cx cy k s) ! r) - cy\<bar> \<le> k)
    \<and> heap (cleanup cx cy k s) = heap s
    \<and> (\<bar>x - cx\<bar> \<le> k \<and> \<bar>y - cy\<bar> \<le> k \<longrightarrow>
          Map_get (cache (cleanup cx cy k s)) (getKey x y) = Map_get (cache s) (getKey x y))
    \<and> (Map_get (cache s) (getKey x y) = Some r0 \<and> (\<bar>x - cx\<bar> > k \<or> \<bar>y - cy\<bar> > k) \<longrightarrow>
          \<not> Map_has (cache (cleanup cx cy k s)) (getKey x y)
        \<and> fst (getChunk x y (cleanup cx cy k s)) = length (heap s)
        \<and> r0 < length (heap s)
        \<and> heap (snd (getChunk x y (cleanup cx cy k s))) ! fst (getChunk x y (cleanup cx cy k s))
            = heap s ! r0
        \<and> heap (snd (getChunk x y (cleanup cx cy k s))) ! r0 = heap s ! r0
        \<and> length (heap (snd (getChunk x y (cleanup cx cy k s)))) = length (heap s) + 1)"
proof -
  let ?t = "cleanup cx cy k s"
  from assms have inv: "cache_inv s" by (rule reachable_inv)
  then have dist: "distinct (map fst (cache s))" by (simp add: cache_inv_def)
  note cc = cleanup_cache [OF dist, of cx cy k]
  have a: "\<forall>(key, r) \<in> set (cache ?t).
            \<bar>chunkX (heap ?t ! r) - cx\<bar> \<le> k \<and> \<bar>chunkY (heap ?t ! r) - cy\<bar> \<le> k"
    by (auto simp: cc cleanup_frame outside_def)
  have b: "heap ?t = heap s" by (simp add: cleanup_frame)
  have lookup: "map_of (cache ?t) (getKey x y)
      = (if \<bar>x - cx\<bar> > k \<or> \<bar>y - cy\<bar> > k then None else map_of (cache s) (getKey x y))"
  proof (cases "map_of (cache s) (getKey x y)")
    case None
    then have "getKey x y \<notin> fst ` set (cache s)" by (simp add: map_of_eq_None_iff)
    then have "getKey x y \<notin> fst ` set (cache ?t)" by (auto simp: cc)
    then have "map_of (cache ?t) (getKey x y) = None" by (simp add: map_of_eq_None_iff)
    with None show ?thesis by simp
  next
    case (Some r)
    from cache_inv_entry(2) [OF inv Some]
    have out: "outside (heap s) cx cy k (getKey x y, r) \<longleftrightarrow> \<bar>x - cx\<bar> > k \<or> \<bar>y - cy\<bar> > k"
      by (simp add: outside_def)
    show ?thesis
    proof (cases "\<bar>x - cx\<bar> > k \<or> \<bar>y - cy\<bar> > k")
      case True
      have "getKey x y \<notin> fst ` set (cache ?t)"
      proof
        assume "getKey x y \<in> fst ` set (cache ?t)"
        then obtain r' where r': "(getKey x y, r') \<in> set (cache s)"
          "\<not> outside (heap s) cx cy k (getKey x y, r')"
          by (auto simp: cc)
        from map_of_is_SomeI [OF dist r'(1)] Some have "r' = r" by simp
        with r'(2) out True show False by simp
      qed
      then have "map_of (cache ?t) (getKey x y) = None" by (simp add: map_of_eq_None_iff)
      with True show ?thesis by simp
    next
      case False
      have "(getKey x y, r) \<in> set (cache ?t)"
        using map_of_SomeD [OF Some] out False by (simp add: cc)
      moreover have "distinct (map fst (cache ?t))"
        using dist by (simp add: cc distinct_map_filter)
      ultimately have "map_of (cache ?t) (getKey x y) = Some r" by (rule map_of_is_SomeI [rotated])
      with Some False show ?thesis by simp
    qed
  qed
  have c: "\<bar>x - cx\<bar> \<le> k \<and> \<bar>y - cy\<bar> \<le> k \<longrightarrow>
      Map_get (cache ?t) (getKey x y) = Map_get (cache s) (getKey x y)"
    using lookup by (auto simp: Map_get_def)
  have d: "\<not> Map_has (cache ?t) (getKey x y)
        \<and> fst (getChunk x y ?t) = length (heap s)
        \<and> r0 < length (heap s)
        \<and> heap (snd (getChunk x y ?t)) ! fst (getChunk x y ?t) = heap s ! r0
        \<and> heap (snd (getChunk x y ?t)) ! r0 = heap s ! r0
        \<and> length (heap (snd (getChunk x y ?t))) = length (heap s) + 1"
    if old: "Map_get (cache s) (getKey x y) = Some r0" and far: "\<bar>x - cx\<bar> > k \<or> \<bar>y - cy\<bar> > k"
  proof -
    from lookup far have none: "map_of (cache ?t) (getKey x y) = None" by simp
    from old have some: "map_of (cache s) (getKey x y) = Some r0" by (simp add: Map_get_def)
    note e = cache_inv_entry [OF inv some]
    from getChunk_miss [OF none] e none show ?thesis
      by (simp add: Map_has_def cleanup_frame nth_append)
  qed
  from a b c d show ?thesis by blast
qed

theorem cleanup_evicts_witness:
  "reachable (snd (getChunk 5 5 (snd (getChunk 0 0 (new_ChunkCache 42 spriteNames)))))
   \<and> Map_get (cache (snd (getChunk 5 5 (snd (getChunk 0 0 (new_ChunkCache 42 spriteNames))))))
         (getKey 5 5) = Some 1
   \<and> Map_get (cache (snd (getChunk 5 5 (snd (getChunk 0 0 (new_ChunkCache 42 spriteNames))))))
         (getKey 0 0) = Some 0
   \<and> \<bar>5 - 0\<bar> > (1::int) \<and> \<bar>0 - 0\<bar> \<le> (1::int)
   \<and> cache (cleanup 0 0 1 (snd (getChunk 5 5 (snd (getChunk 0 0 (new_ChunkCache 42 spriteNames))))))
       = [(getKey 0 0, 0)]
   \<and> \<bar>chunkX (heap (cleanup 0 0 1
          (snd (getChunk 5 5 (snd (getChunk 0 0 (new_ChunkCache 42 spriteNames)))))) ! 0) - 0\<bar> \<le> 1
   \<and> Map_get (cache (cleanup 0 0 1
          (snd (getChunk 5 5 (snd (getChunk 0 0 (new_ChunkCache 42 spriteNames)))))))
         (getKey 0 0) = Some 0
   \<and> \<not> Map_has (cache (cleanup 0 0 1
          (snd (getChunk 5 5 (snd (getChunk 0 0 (new_ChunkCache 42 spriteNames)))))))
         (getKey 5 5)
   \<and> fst (getChunk 5 5 (cleanup 0 0 1
          (snd (getChunk 5 5 (snd (getChunk 0 0 (new_ChunkCache 42 spriteNames))))))) = 2
   \<and> heap (snd (getChunk 5 5 (cleanup 0 0 1
          (snd (getChunk 5 5 (snd (getChunk 0 0 (new_ChunkCache 42 spriteNames)))))))) ! 2
       = generateChunk gameProps 5 5 42 spriteNames
   \<and> heap (snd (getChunk 5 5 (cleanup 0 0 1
          (snd (getChunk 5 5 (snd (getChunk 0 0 (new_ChunkCache 42 spriteNames)))))))) ! 1
       = generateChunk gameProps 5 5 42 spriteNames"
proof -
  let ?s = "snd (getChunk 5 5 (snd (getChunk 0 0 (new_ChunkCache 42 spriteNames))))"
  have r: "reachable ?s" by (intro reachable.intros)
  have ne: "getKey 5 5 \<noteq> getKey 0 0" "getKey 0 0 \<noteq> getKey 5 5" by (simp_all add: getKey_inj)
  have s: "?s = \<lparr>props = gameProps,
      heap = [generateChunk gameProps 0 0 42 spriteNames, generateChunk gameProps 5 5 42 spriteNames],
      cache = [(getKey 0 0, 0), (getKey 5 5, 1)], seed = 42, assets = spriteNames\<rparr>"
    using ne
    by (simp add: getChunk_def new_ChunkCache_def Map_has_def Map_get_def Map_set_def Let_def)
  have old: "Map_get (cache ?s) (getKey 5 5) = Some 1" "Map_get (cache ?s) (getKey 0 0) = Some 0"
    using ne by (simp_all add: s Map_get_def)
  have far: "\<bar>5 - 0\<bar> > (1::int) \<or> \<bar>5 - 0\<bar> > (1::int)" and near: "\<bar>0 - 0\<bar> \<le> (1::int) \<and> \<bar>0 - 0\<bar> \<le> (1::int)"
    by simp_all
  have c: "cache (cleanup 0 0 1 ?s) = [(getKey 0 0, 0)]"
    using ne by (simp add: s cleanup_def Map_delete_def Let_def)
  from cleanup_evicts [OF r, of 0 0 1 5 5 1] old(1) far
  have out: "\<not> Map_has (cache (cleanup 0 0 1 ?s)) (getKey 5 5)"
    "fst (getChunk 5 5 (cleanup 0 0 1 ?s)) = length (heap ?s)"
    "heap (snd (getChunk 5 5 (cleanup 0 0 1 ?s))) ! fst (getChunk 5 5 (cleanup 0 0 1 ?s)) = heap ?s ! 1"
    "heap (snd (getChunk 5 5 (cleanup 0 0 1 ?s))) ! 1 = heap ?s ! 1"
    by blast+
  from cleanup_evicts [OF r, of 0 0 1 0 0] near old(2)
  have inside: "Map_get (cache (cleanup 0 0 1 ?s)) (getKey 0 0) = Some 0"
    by simp
  have h: "length (heap ?s) = 2" "heap ?s ! 1 = generateChunk gameProps 5 5 42 spriteNames"
    by (simp_all add: s)
  from cleanup_evicts [OF r, of 0 0 1 0 0 0, THEN conjunct1] c
  have kept: "\<bar>chunkX (heap (cleanup 0 0 1 ?s) ! 0) - 0\<bar> \<le> 1"
    by simp
  from r old c kept inside out h show ?thesis by simp
qed

section \<open>Ranges of the draws\<close>

lemma seededRandom_range: "0 \<le> seededRandom x y sd \<and> seededRandom x y sd < 1"
  by (simp add: seededRandom_def Let_def) linarith

lemma floor_scaled_range:
  fixes v :: real
  assumes "0 \<le> v" "v < 1" "0 < k"
  shows "0 \<le> \<lfloor>v * of_int k\<rfloor> \<and> \<lfloor>v * of_int k\<rfloor> \<le> k - 1"
proof -
  from assms have "0 \<le> v * of_int k" by simp
  then have 1: "0 \<le> \<lfloor>v * of_int k\<rfloor>" by simp
  from assms have "v * of_int k < 1 * of_int k" by (intro mult_strict_right_mono) simp_all
  then have "\<lfloor>v * of_int k\<rfloor> < k" by (simp add: floor_less_iff)
  with 1 show ?thesis by simp
qed

lemma islandBaseRadius_range: "8 \<le> islandBaseRadius cx cy sd i \<and> islandBaseRadius cx cy sd i \<le> 17"
  using floor_scaled_range [of "seededRandom (of_int cx) (of_int cy) (sd + of_int i * 10 + 2)" 10]
    seededRandom_range [of "of_int cx" "of_int cy" "sd + of_int i * 10 + 2"]
  by (simp add: islandBaseRadius_def)

lemma islandCenterX_range:
  "(of_int cx + 0.2) * CHUNK_SIZE * TILE_SIZE \<le> islandCenterX cx cy sd i
   \<and> islandCenterX cx cy sd i < (of_int cx + 0.8) * CHUNK_SIZE * TILE_SIZE"
  using seededRandom_range [of "of_int cx" "of_int cy" "sd + of_int i * 10"]
  by (simp add: islandCenterX_def CHUNK_SIZE_def TILE_SIZE_def SPRITE_TILE_SIZE_def GAME_SCALE_def
      Let_def algebra_simps)

lemma islandCenterY_range:
  "(of_int cy + 0.2) * CHUNK_SIZE * TILE_SIZE \<le> islandCenterY cx cy sd i
   \<and> islandCenterY cx cy sd i < (of_int cy + 0.8) * CHUNK_SIZE * TILE_SIZE"
  using seededRandom_range [of "of_int cx" "of_int cy" "sd + of_int i * 10 + 1"]
  by (simp add: islandCenterY_def CHUNK_SIZE_def TILE_SIZE_def SPRITE_TILE_SIZE_def GAME_SCALE_def
      Let_def algebra_simps)

lemma patchCount_range: "3 \<le> patchCount cx cy sd \<and> patchCount cx cy sd \<le> 8"
  using floor_scaled_range [of "seededRandom (of_int cx) (of_int cy) (sd + 9000)" 6]
    seededRandom_range [of "of_int cx" "of_int cy" "sd + 9000"]
  by (simp add: patchCount_def)

lemma patchSize_range: "3 \<le> patchSize cx cy sd i \<and> patchSize cx cy sd i \<le> 7"
  using floor_scaled_range [of "seededRandom (of_int cx) (of_int cy) (sd + 9000 + of_int i * 3 + 2)" 5]
    seededRandom_range [of "of_int cx" "of_int cy" "sd + 9000 + of_int i * 3 + 2"]
  by (simp add: patchSize_def)

section \<open>The placement loops\<close>

lemma generateIslands_loop_inv:
  assumes "P acc"
    and "\<And>isls j. P isls \<Longrightarrow> i \<le> j \<Longrightarrow> j < n \<Longrightarrow>
           \<not> wouldOverlap isls (islandCenterX cx cy sd j) (islandCenterY cx cy sd j)
                (of_int (islandBaseRadius cx cy sd j) * TILE_SIZE * 1.8) \<Longrightarrow>
           P (isls @ [buildIsland
                (string_of_int cx @ '','' @ string_of_int cy @ '','' @ string_of_int j)
                (islandCenterX cx cy sd j) (islandCenterY cx cy sd j)
                (islandBaseRadius cx cy sd j) (islandShape cx cy sd j) (sd + of_int j * 100) a])"
  shows "P (generateIslands_loop cx cy sd a n i acc)"
  using assms
proof (induction cx cy sd a n i acc rule: generateIslands_loop.induct)
  case (1 cx cy sd a n i acc)
  show ?case
  proof (cases "i < n")
    case False
    with "1.prems"(1) show ?thesis by (simp add: generateIslands_loop.simps [of cx cy sd a n i])
  next
    case True
    let ?ov = "wouldOverlap acc (islandCenterX cx cy sd i) (islandCenterY cx cy sd i)
                (of_int (islandBaseRadius cx cy sd i) * TILE_SIZE * 1.8)"
    show ?thesis
    proof (cases ?ov)
      case ov: True
      have "P (generateIslands_loop cx cy sd a n (i + 1) acc)"
        using True ov "1.prems"
        by (intro "1.IH"(1) [OF True refl refl refl refl]) auto
      with True ov show ?thesis
        by (simp add: generateIslands_loop.simps [of cx cy sd a n i] Let_def)
    next
      case ov: False
      let ?new = "acc @ [buildIsland
                (string_of_int cx @ '','' @ string_of_int cy @ '','' @ string_of_int i)
                (islandCenterX cx cy sd i) (islandCenterY cx cy sd i)
                (islandBaseRadius cx cy sd i) (islandShape cx cy sd i) (sd + of_int i * 100) a]"
      have "P ?new" using "1.prems"(1) True ov by (intro "1.prems"(2)) auto
      then have "P (generateIslands_loop cx cy sd a n (i + 1) ?new)"
        using True ov "1.prems"(2)
        by (intro "1.IH"(2) [OF True refl refl refl refl]) auto
      with True ov show ?thesis
        by (simp add: generateIslands_loop.simps [of cx cy sd a n i] Let_def)
    qed
  qed
qed

lemma cloudAttempt_loop_result:
  assumes "cloudAttempt_loop gp cx cy sd cls i k = (cX, cY, r, att)"
  shows "k < att \<and> (att \<le> maxAttempts \<or> att = k + 1)
    \<and> cX = cloudCenterX cx cy sd i (att - 1) \<and> cY = cloudCenterY cx cy sd i (att - 1)
    \<and> r = cloudRadius cx cy sd i (att - 1)
    \<and> (checkOverlap gp cls cX cY (of_int r) \<longrightarrow> maxAttempts \<le> att)"
  using assms
proof (induction gp cx cy sd cls i k rule: cloudAttempt_loop.induct)
  case (1 gp cx cy sd cls i k)
  let ?again = "checkOverlap gp cls (cloudCenterX cx cy sd i k) (cloudCenterY cx cy sd i k)
      (of_int (cloudRadius cx cy sd i k)) \<and> k + 1 < maxAttempts"
  show ?case
  proof (cases ?again)
    case True
    then have "cloudAttempt_loop gp cx cy sd cls i (k + 1) = (cX, cY, r, att)"
      using "1.prems" by (simp add: cloudAttempt_loop.simps [of gp cx cy sd cls i k] Let_def)
    from "1.IH" [OF refl refl refl refl True this] True show ?thesis by auto
  next
    case False
    then have "(cX, cY, r, att) = (cloudCenterX cx cy sd i k, cloudCenterY cx cy sd i k,
        cloudRadius cx cy sd i k, k + 1)"
      using "1.prems"
      by (auto simp add: cloudAttempt_loop.simps [of gp cx cy sd cls i k] Let_def split: if_splits)
    with False show ?thesis by auto
  qed
qed

lemma cloudAttempt_loop_earlier:
  assumes "cloudAttempt_loop gp cx cy sd cls i k = (cX, cY, r, att)"
  shows "\<forall>j. k \<le> j \<and> j < att - 1 \<longrightarrow>
    checkOverlap gp cls (cloudCenterX cx cy sd i j) (cloudCenterY cx cy sd i j)
      (of_int (cloudRadius cx cy sd i j))"
  using assms
proof (induction gp cx cy sd cls i k rule: cloudAttempt_loop.induct)
  case (1 gp cx cy sd cls i k)
  let ?again = "checkOverlap gp cls (cloudCenterX cx cy sd i k) (cloudCenterY cx cy sd i k)
      (of_int (cloudRadius cx cy sd i k)) \<and> k + 1 < maxAttempts"
  show ?case
  proof (cases ?again)
    case True
    then have "cloudAttempt_loop gp cx cy sd cls i (k + 1) = (cX, cY, r, att)"
      using "1.prems" by (simp add: cloudAttempt_loop.simps [of gp cx cy sd cls i k] Let_def)
    from "1.IH" [OF refl refl refl refl True this]
    have ih: "\<forall>j. k + 1 \<le> j \<and> j < att - 1 \<longrightarrow>
      checkOverlap gp cls (cloudCenterX cx cy sd i j) (cloudCenterY cx cy sd i j)
        (of_int (cloudRadius cx cy sd i j))" .
    show ?thesis
    proof (intro allI impI)
      fix j
      assume j: "k \<le> j \<and> j < att - 1"
      show "checkOverlap gp cls (cloudCenterX cx cy sd i j) (cloudCenterY cx cy sd i j)
        (of_int (cloudRadius cx cy sd i j))"
      proof (cases "j = k")
        case eq: True
        with True show ?thesis by simp
      next
        case False
        with j have "k + 1 \<le> j \<and> j < att - 1" by simp
        with ih show ?thesis by blast
      qed
    qed
  next
    case False
    then have "att = k + 1"
      using "1.prems"
      by (auto simp add: cloudAttempt_loop.simps [of gp cx cy sd cls i k] Let_def split: if_splits)
    then show ?thesis by auto
  qed
qed

lemma generateClouds_loop_inv:
  assumes "P acc"
    and "\<And>cls j att. P cls \<Longrightarrow> i \<le> j \<Longrightarrow> j < n \<Longrightarrow> 1 \<le> att \<Longrightarrow> att \<le> maxAttempts \<Longrightarrow>
           \<not> checkOverlap gp cls (cloudCenterX cx cy sd j (att - 1))
                (cloudCenterY cx cy sd j (att - 1)) (of_int (cloudRadius cx cy sd j (att - 1))) \<Longrightarrow>
           P (cls @ [buildCloudFormation gp
                (string_of_int cx @ '','' @ string_of_int cy @ '','' @ string_of_int j)
                (cloudCenterX cx cy sd j (att - 1)) (cloudCenterY cx cy sd j (att - 1))
                (of_int (cloudRadius cx cy sd j (att - 1))) (sd + of_int j * 50) a])"
  shows "P (generateClouds_loop gp cx cy sd a n i acc)"
  using assms
proof (induction gp cx cy sd a n i acc rule: generateClouds_loop.induct)
  case (1 gp cx cy sd a n i acc)
  show ?case
  proof (cases "i < n")
    case False
    with "1.prems"(1) show ?thesis by (simp add: generateClouds_loop.simps [of gp cx cy sd a n i])
  next
    case True
    obtain cX cY r att where at: "cloudAttempt_loop gp cx cy sd acc i 0 = (cX, cY, r, att)"
      by (metis prod_cases4)
    note res = cloudAttempt_loop_result [OF at]
    show ?thesis
    proof (cases "att \<ge> maxAttempts \<and> checkOverlap gp acc cX cY (of_int r)")
      case drop: True
      have "P (generateClouds_loop gp cx cy sd a n (i + 1) acc)"
        using True "1.prems"
        by (intro "1.IH"(1) [OF True at [symmetric] refl refl drop]) auto
      with True at drop show ?thesis
        by (simp add: generateClouds_loop.simps [of gp cx cy sd a n i])
    next
      case keep: False
      with res have no: "\<not> checkOverlap gp acc cX cY (of_int r)" by auto
      from res have att: "1 \<le> att" "att \<le> maxAttempts" by (auto simp: maxAttempts_def)
      let ?new = "acc @ [buildCloudFormation gp
                (string_of_int cx @ '','' @ string_of_int cy @ '','' @ string_of_int i)
                cX cY (of_int r) (sd + of_int i * 50) a]"
      have "P ?new"
        using "1.prems"(2) [OF "1.prems"(1) _ True att] no res by simp
      then have "P (generateClouds_loop gp cx cy sd a n (i + 1) ?new)"
        using True "1.prems"(2)
        by (intro "1.IH"(2) [OF True at [symmetric] refl refl keep]) auto
      with True at keep show ?thesis
        by (auto simp add: generateClouds_loop.simps [of gp cx cy sd a n i])
    qed
  qed
qed

lemma patch_px_closed:
  "patch_px gx gy sz py px acc =
     acc @ concat (map (\<lambda>px. if sqrt (of_int (px * px + py * py)) \<le> of_int sz
                               then [(gx + of_int px * TILE_SIZE, gy + of_int py * TILE_SIZE)]
                               else []) [px..sz])"
proof (induction gx gy sz py px acc rule: patch_px.induct)
  case (1 gx gy sz py px acc)
  show ?case
  proof (cases "px \<le> sz")
    case True
    with "1.IH" [OF True refl] show ?thesis
      by (simp add: patch_px.simps [of gx gy sz py px] upto_rec1 [of px sz])
  next
    case False
    then show ?thesis by (simp add: patch_px.simps [of gx gy sz py px])
  qed
qed

lemma patch_py_closed:
  "patch_py gx gy sz py acc =
     acc @ concat (map (\<lambda>py. patch_px gx gy sz py (- sz) []) [py..sz])"
proof (induction gx gy sz py acc rule: patch_py.induct)
  case (1 gx gy sz py acc)
  show ?case
  proof (cases "py \<le> sz")
    case True
    with "1.IH" [OF True] patch_px_closed [of gx gy sz py "- sz" acc]
      patch_px_closed [of gx gy sz py "- sz" "[]"]
    show ?thesis
      by (simp add: patch_py.simps [of gx gy sz py] upto_rec1 [of py sz])
  next
    case False
    then show ?thesis by (simp add: patch_py.simps [of gx gy sz py])
  qed
qed

lemma generatePatches_loop_closed:
  "generatePatches_loop cx cy sd isls n i acc =
     acc @ concat (map (\<lambda>j. if farFromIslands isls (patchGlobalX cx cy sd j) (patchGlobalY cx cy sd j)
                              then patch_py (patchGlobalX cx cy sd j) (patchGlobalY cx cy sd j)
                                     (patchSize cx cy sd j) (- patchSize cx cy sd j) []
                              else []) [i..n - 1])"
proof (induction cx cy sd isls n i acc rule: generatePatches_loop.induct)
  case (1 cx cy sd isls n i acc)
  show ?case
  proof (cases "i < n")
    case True
    then have up: "[i..n - 1] = i # [i + 1..n - 1]" by (simp add: upto_rec1)
    show ?thesis
    proof (cases "farFromIslands isls (patchGlobalX cx cy sd i) (patchGlobalY cx cy sd i)")
      case far: True
      from "1.IH"(1) [OF True refl refl refl far] True far
        patch_py_closed [of "patchGlobalX cx cy sd i" "patchGlobalY cx cy sd i"
          "patchSize cx cy sd i" "- patchSize cx cy sd i" acc]
        patch_py_closed [of "patchGlobalX cx cy sd i" "patchGlobalY cx cy sd i"
          "patchSize cx cy sd i" "- patchSize cx cy sd i" "[]"]
      show ?thesis
        by (simp add: generatePatches_loop.simps [of cx cy sd isls n i] up Let_def)
    next
      case far: False
      from "1.IH"(2) [OF True refl refl refl far] True far
      show ?thesis
        by (simp add: generatePatches_loop.simps [of cx cy sd isls n i] up Let_def)
    qed
  next
    case False
    then show ?thesis by (simp add: generatePatches_loop.simps [of cx cy sd isls n i])
  qed
qed

lemma buildIsland_fields [simp]:
  "Island.centerX (buildIsland k cX cY br shp sd a) = cX"
  "Island.centerY (buildIsland k cX cY br shp sd a) = cY"
  "Island.radius (buildIsland k cX cY br shp sd a) = of_int br * TILE_SIZE"
  "Island.id (buildIsland k cX cY br shp sd a) = k"
  by (simp_all add: buildIsland_def Let_def split: prod.splits)

lemma buildCloudFormation_fields [simp]:
  "CloudFormation.centerX (buildCloudFormation gp k cX cY r sd a) = cX"
  "CloudFormation.centerY (buildCloudFormation gp k cX cY r sd a) = cY"
  "CloudFormation.radius (buildCloudFormation gp k cX cY r sd a) = r"
  "CloudFormation.id (buildCloudFormation gp k cX cY r sd a) = k"
  by (simp_all add: buildCloudFormation_def Let_def)

lemma generateChunk_fields [simp]:
  "islands (generateChunk gp cx cy sd a) = generateIslandsForChunk cx cy sd a"
  "deepOceanPatches (generateChunk gp cx cy sd a)
     = generateDeepOceanPatches cx cy sd (generateIslandsForChunk cx cy sd a)"
  "clouds (generateChunk gp cx cy sd a)
     = generateCloudsForChunk gp cx cy sd (generateIslandsForChunk cx cy sd a) a"
  by (simp_all add: generateChunk_def Let_def)

lemma pairwise_snoc:
  assumes "\<forall>p q. p < q \<and> q < length xs \<longrightarrow> R (xs ! p) (xs ! q)" and "\<forall>x \<in> set xs. R x y"
  shows "\<forall>p q. p < q \<and> q < length (xs @ [y]) \<longrightarrow> R ((xs @ [y]) ! p) ((xs @ [y]) ! q)"
proof (intro allI impI)
  fix p q assume pq: "p < q \<and> q < length (xs @ [y])"
  show "R ((xs @ [y]) ! p) ((xs @ [y]) ! q)"
  proof (cases "q < length xs")
    case True
    with pq assms(1) show ?thesis by (simp add: nth_append)
  next
    case False
    with pq have "q = length xs" "p < length xs" by simp_all
    with assms(2) show ?thesis by (simp add: nth_append)
  qed
qed

subsection \<open>Islands\<close>

lemma islandCount_range:
  "1 \<le> \<lfloor>seededRandom x y sd * 3\<rfloor> + 1 \<and> \<lfloor>seededRandom x y sd * 3\<rfloor> + 1 \<le> 3"
  using floor_scaled_range [of "seededRandom x y sd" 3] seededRandom_range [of x y sd]
  by simp

lemma islands_from_candidates:
  fixes a :: "'tex AssetDictionary"
  assumes "island \<in> set (generateIslandsForChunk cx cy sd a)"
  shows "\<exists>j. 0 \<le> j \<and> j < 3 \<and> Island.centerX island = islandCenterX cx cy sd j
    \<and> Island.centerY island = islandCenterY cx cy sd j
    \<and> Island.radius island = of_int (islandBaseRadius cx cy sd j) * TILE_SIZE"
proof -
  let ?P = "\<lambda>isls :: 'tex Island list. \<forall>island \<in> set isls. \<exists>j. 0 \<le> j \<and> j < 3
    \<and> Island.centerX island = islandCenterX cx cy sd j
    \<and> Island.centerY island = islandCenterY cx cy sd j
    \<and> Island.radius island = of_int (islandBaseRadius cx cy sd j) * TILE_SIZE"
  let ?n = "\<lfloor>seededRandom (of_int cx) (of_int cy) (sd + 100) * 3\<rfloor> + 1"
  have "?P (generateIslands_loop cx cy sd a ?n 0 [])"
  proof (rule generateIslands_loop_inv)
    show "?P []" by simp
  next
    fix isls j
    assume P: "?P isls" and j: "0 \<le> j" "j < ?n"
    have "?n \<le> 3" using islandCount_range by blast
    with j have "j < 3" by linarith
    with P j(1) show "?P (isls @ [buildIsland
        (string_of_int cx @ '','' @ string_of_int cy @ '','' @ string_of_int j)
        (islandCenterX cx cy sd j) (islandCenterY cx cy sd j)
        (islandBaseRadius cx cy sd j) (islandShape cx cy sd j) (sd + of_int j * 100) a])"
      by (auto intro!: exI [of _ j])
  qed
  with assms show ?thesis
    by (auto simp: generateIslandsForChunk_def Let_def split: if_splits)
qed

lemma not_wouldOverlap_iff:
  "\<not> wouldOverlap isls cX cY est \<longleftrightarrow>
     (\<forall>e \<in> set isls. est + Island.radius e + 50
        \<le> sqrt ((cX - Island.centerX e) * (cX - Island.centerX e)
             + (cY - Island.centerY e) * (cY - Island.centerY e)))"
  by (auto simp: wouldOverlap_def list_ex_iff Let_def not_less)

lemma islands_spacing:
  fixes a :: "'tex AssetDictionary"
  assumes "p < q" and "q < length (generateIslandsForChunk cx cy sd a)"
  shows "1.8 * Island.radius (generateIslandsForChunk cx cy sd a ! q)
      + Island.radius (generateIslandsForChunk cx cy sd a ! p) + 50
    \<le> sqrt ((Island.centerX (generateIslandsForChunk cx cy sd a ! q)
              - Island.centerX (generateIslandsForChunk cx cy sd a ! p))\<^sup>2
           + (Island.centerY (generateIslandsForChunk cx cy sd a ! q)
              - Island.centerY (generateIslandsForChunk cx cy sd a ! p))\<^sup>2)"
proof -
  let ?R = "\<lambda>(e :: 'tex Island) (n :: 'tex Island). 1.8 * Island.radius n + Island.radius e + 50
    \<le> sqrt ((Island.centerX n - Island.centerX e)\<^sup>2 + (Island.centerY n - Island.centerY e)\<^sup>2)"
  let ?P = "\<lambda>isls :: 'tex Island list. \<forall>p q. p < q \<and> q < length isls \<longrightarrow> ?R (isls ! p) (isls ! q)"
  have loop: "?P (generateIslands_loop cx cy sd a n 0 [])" for n
  proof (rule generateIslands_loop_inv)
    show "?P []" by simp
  next
    fix isls j
    assume P: "?P isls" and no: "\<not> wouldOverlap isls (islandCenterX cx cy sd j)
      (islandCenterY cx cy sd j) (of_int (islandBaseRadius cx cy sd j) * TILE_SIZE * 1.8)"
    let ?new = "buildIsland
        (string_of_int cx @ '','' @ string_of_int cy @ '','' @ string_of_int j)
        (islandCenterX cx cy sd j) (islandCenterY cx cy sd j)
        (islandBaseRadius cx cy sd j) (islandShape cx cy sd j) (sd + of_int j * 100) a"
    from no have "\<forall>e \<in> set isls. ?R e ?new"
      by (simp add: not_wouldOverlap_iff power2_eq_square algebra_simps)
    with P show "?P (isls @ [?new])" by (rule pairwise_snoc)
  qed
  have "?P (generateIslandsForChunk cx cy sd a)"
    using loop by (simp add: generateIslandsForChunk_def Let_def)
  with assms show ?thesis by blast
qed

subsection \<open>Clouds\<close>

lemma not_checkOverlap_iff:
  "\<not> checkOverlap gp cls x y r \<longleftrightarrow>
     (\<forall>c \<in> set cls. r * CLOUD_SIZE gp + CloudFormation.radius c * CLOUD_SIZE gp + 150 * CLOUD_SIZE gp
        \<le> sqrt ((x - CloudFormation.centerX c) * (x - CloudFormation.centerX c)
             + (y - CloudFormation.centerY c) * (y - CloudFormation.centerY c)))"
  by (auto simp: checkOverlap_def list_ex_iff Let_def not_less)

lemma clouds_spacing:
  fixes a :: "'tex AssetDictionary"
  assumes "p < q" and "q < length (generateCloudsForChunk gp cx cy sd isls a)"
  shows "CloudFormation.radius (generateCloudsForChunk gp cx cy sd isls a ! q) * CLOUD_SIZE gp
      + CloudFormation.radius (generateCloudsForChunk gp cx cy sd isls a ! p) * CLOUD_SIZE gp
      + 150 * CLOUD_SIZE gp
    \<le> sqrt ((CloudFormation.centerX (generateCloudsForChunk gp cx cy sd isls a ! q)
              - CloudFormation.centerX (generateCloudsForChunk gp cx cy sd isls a ! p))\<^sup>2
           + (CloudFormation.centerY (generateCloudsForChunk gp cx cy sd isls a ! q)
              - CloudFormation.centerY (generateCloudsForChunk gp cx cy sd isls a ! p))\<^sup>2)"
proof -
  let ?R = "\<lambda>(c :: 'tex CloudFormation) (n :: 'tex CloudFormation).
    CloudFormation.radius n * CLOUD_SIZE gp + CloudFormation.radius c * CLOUD_SIZE gp
      + 150 * CLOUD_SIZE gp
    \<le> sqrt ((CloudFormation.centerX n - CloudFormation.centerX c)\<^sup>2
           + (CloudFormation.centerY n - CloudFormation.centerY c)\<^sup>2)"
  let ?P = "\<lambda>cls :: 'tex CloudFormation list. \<forall>p q. p < q \<and> q < length cls \<longrightarrow> ?R (cls ! p) (cls ! q)"
  have "?P (generateClouds_loop gp cx cy sd a (cloudCount cx cy sd) 0 [])"
  proof (rule generateClouds_loop_inv)
    show "?P []" by simp
  next
    fix cls :: "'tex CloudFormation list" and j att
    assume P: "?P cls" and no: "\<not> checkOverlap gp cls (cloudCenterX cx cy sd j (att - 1))
      (cloudCenterY cx cy sd j (att - 1)) (of_int (cloudRadius cx cy sd j (att - 1)))"
    let ?new = "buildCloudFormation gp
        (string_of_int cx @ '','' @ string_of_int cy @ '','' @ string_of_int j)
        (cloudCenterX cx cy sd j (att - 1)) (cloudCenterY cx cy sd j (att - 1))
        (of_int (cloudRadius cx cy sd j (att - 1))) (sd + of_int j * 50) a"
    from no have "\<forall>c \<in> set cls. ?R c ?new"
      by (simp add: not_checkOverlap_iff power2_eq_square)
    with P show "?P (cls @ [?new])" by (rule pairwise_snoc)
  qed
  with assms show ?thesis by (simp add: generateCloudsForChunk_def)
qed

lemma generateClouds_loop_length:
  "length (generateClouds_loop gp cx cy sd a n i acc) \<le> length acc + nat (n - i)"
proof (induction gp cx cy sd a n i acc rule: generateClouds_loop.induct)
  case (1 gp cx cy sd a n i acc)
  show ?case
  proof (cases "i < n")
    case False
    then show ?thesis by (simp add: generateClouds_loop.simps [of gp cx cy sd a n i])
  next
    case True
    obtain cX cY r att where at: "cloudAttempt_loop gp cx cy sd acc i 0 = (cX, cY, r, att)"
      by (metis prod_cases4)
    from True have n: "nat (n - i) = Suc (nat (n - (i + 1)))" by simp
    show ?thesis
    proof (cases "att \<ge> maxAttempts \<and> checkOverlap gp acc cX cY (of_int r)")
      case drop: True
      from "1.IH"(1) [OF True at [symmetric] refl refl drop] True at drop n show ?thesis
        by (simp add: generateClouds_loop.simps [of gp cx cy sd a n i])
    next
      case keep: False
      from "1.IH"(2) [OF True at [symmetric] refl refl keep] True at keep n show ?thesis
        by (auto simp add: generateClouds_loop.simps [of gp cx cy sd a n i])
    qed
  qed
qed

lemma cloudCount_range: "1 \<le> cloudCount cx cy sd \<and> cloudCount cx cy sd \<le> 3"
  using floor_scaled_range [of "seededRandom (of_int cx) (of_int cy) (sd + 7000)" 3]
    seededRandom_range [of "of_int cx" "of_int cy" "sd + 7000"]
  by (simp add: cloudCount_def)

lemma checkOverlap_iff:
  "checkOverlap gp cls x y r \<longleftrightarrow>
     (\<exists>c \<in> set cls. sqrt ((x - CloudFormation.centerX c) * (x - CloudFormation.centerX c)
             + (y - CloudFormation.centerY c) * (y - CloudFormation.centerY c))
        < r * CLOUD_SIZE gp + CloudFormation.radius c * CLOUD_SIZE gp + 150 * CLOUD_SIZE gp)"
  by (auto simp: checkOverlap_def list_ex_iff Let_def)

lemma generateClouds_loop_split:
  assumes "j \<le> n"
  shows "generateClouds_loop gp cx cy sd a n i acc
    = generateClouds_loop gp cx cy sd a n (max i j) (generateClouds_loop gp cx cy sd a j i acc)"
  using assms
proof (induction gp cx cy sd a j i acc rule: generateClouds_loop.induct)
  case (1 gp cx cy sd a j i acc)
  show ?case
  proof (cases "i < j")
    case False
    then show ?thesis
      by (simp add: generateClouds_loop.simps [of gp cx cy sd a j i] max_def)
  next
    case True
    with "1.prems" have lt: "i < n" by simp
    obtain cX cY r att where at: "cloudAttempt_loop gp cx cy sd acc i 0 = (cX, cY, r, att)"
      by (metis prod_cases4)
    from True have m: "max (i + 1) j = max i j" by simp
    show ?thesis
    proof (cases "att \<ge> maxAttempts \<and> checkOverlap gp acc cX cY (of_int r)")
      case drop: True
      from "1.IH"(1) [OF True at [symmetric] refl refl drop "1.prems"] True lt at drop m
      show ?thesis
        by (simp add: generateClouds_loop.simps [of gp cx cy sd a j i]
            generateClouds_loop.simps [of gp cx cy sd a n i])
    next
      case keep: False
      from "1.IH"(2) [OF True at [symmetric] refl refl keep "1.prems"] True lt at keep m
      show ?thesis
        by (auto simp add: generateClouds_loop.simps [of gp cx cy sd a j i]
            generateClouds_loop.simps [of gp cx cy sd a n i])
    qed
  qed
qed

lemma cloudsBefore_0: "cloudsBefore gp cx cy sd a 0 = []"
  by (simp add: cloudsBefore_def generateClouds_loop.simps [of gp cx cy sd a 0 0])

lemma cloudsBefore_final:
  "clouds (generateChunk gp cx cy sd a) = cloudsBefore gp cx cy sd a (cloudCount cx cy sd)"
  by (simp add: cloudsBefore_def generateCloudsForChunk_def)

lemma cloudsBefore_Suc:
  assumes "0 \<le> i"
  shows "cloudsBefore gp cx cy sd a (i + 1) =
    (case cloudAttempt_loop gp cx cy sd (cloudsBefore gp cx cy sd a i) i 0 of
       (cX, cY, r, att) \<Rightarrow>
         if att \<ge> maxAttempts \<and> checkOverlap gp (cloudsBefore gp cx cy sd a i) cX cY (of_int r)
         then cloudsBefore gp cx cy sd a i
         else cloudsBefore gp cx cy sd a i @ [buildCloudFormation gp
                (string_of_int cx @ '','' @ string_of_int cy @ '','' @ string_of_int i)
                cX cY (of_int r) (sd + of_int i * 50) a])"
proof -
  from assms have m: "max 0 i = i" by simp
  have "cloudsBefore gp cx cy sd a (i + 1)
      = generateClouds_loop gp cx cy sd a (i + 1) i (cloudsBefore gp cx cy sd a i)"
    unfolding cloudsBefore_def
    using generateClouds_loop_split [of i "i + 1" gp cx cy sd a 0 "[]"] m by simp
  also have "\<dots> = (case cloudAttempt_loop gp cx cy sd (cloudsBefore gp cx cy sd a i) i 0 of
       (cX, cY, r, att) \<Rightarrow>
         if att \<ge> maxAttempts \<and> checkOverlap gp (cloudsBefore gp cx cy sd a i) cX cY (of_int r)
         then cloudsBefore gp cx cy sd a i
         else cloudsBefore gp cx cy sd a i @ [buildCloudFormation gp
                (string_of_int cx @ '','' @ string_of_int cy @ '','' @ string_of_int i)
                cX cY (of_int r) (sd + of_int i * 50) a])"
    by (simp add: generateClouds_loop.simps [of gp cx cy sd a "i + 1" i]
        generateClouds_loop.simps [of gp cx cy sd a "i + 1" "i + 1"] split: prod.splits)
  finally show ?thesis .
qed

lemma cloud_slot:
  assumes "0 \<le> i"
  shows "1 \<le> cloudAttempts gp cx cy sd a i \<and> cloudAttempts gp cx cy sd a i \<le> 10
    \<and> (\<forall>k. 0 \<le> k \<and> k < cloudAttempts gp cx cy sd a i - 1 \<longrightarrow>
          checkOverlap gp (cloudsBefore gp cx cy sd a i) (cloudCenterX cx cy sd i k)
            (cloudCenterY cx cy sd i k) (of_int (cloudRadius cx cy sd i k)))
    \<and> (if checkOverlap gp (cloudsBefore gp cx cy sd a i)
            (cloudCenterX cx cy sd i (cloudAttempts gp cx cy sd a i - 1))
            (cloudCenterY cx cy sd i (cloudAttempts gp cx cy sd a i - 1))
            (of_int (cloudRadius cx cy sd i (cloudAttempts gp cx cy sd a i - 1)))
        then cloudAttempts gp cx cy sd a i = 10
          \<and> cloudsBefore gp cx cy sd a (i + 1) = cloudsBefore gp cx cy sd a i
        else cloudsBefore gp cx cy sd a (i + 1)
          = cloudsBefore gp cx cy sd a i @ [buildCloudFormation gp
              (string_of_int cx @ '','' @ string_of_int cy @ '','' @ string_of_int i)
              (cloudCenterX cx cy sd i (cloudAttempts gp cx cy sd a i - 1))
              (cloudCenterY cx cy sd i (cloudAttempts gp cx cy sd a i - 1))
              (of_int (cloudRadius cx cy sd i (cloudAttempts gp cx cy sd a i - 1)))
              (sd + of_int i * 50) a])"
proof -
  obtain cX cY r att
    where at: "cloudAttempt_loop gp cx cy sd (cloudsBefore gp cx cy sd a i) i 0 = (cX, cY, r, att)"
    by (metis prod_cases4)
  then have n: "cloudAttempts gp cx cy sd a i = att" by (simp add: cloudAttempts_def)
  note res = cloudAttempt_loop_result [OF at]
  let ?cls = "cloudsBefore gp cx cy sd a i"
  from res have c1: "1 \<le> att" "att \<le> 10" by (auto simp: maxAttempts_def)
  from res have draws: "cX = cloudCenterX cx cy sd i (att - 1)"
    "cY = cloudCenterY cx cy sd i (att - 1)" "r = cloudRadius cx cy sd i (att - 1)" by simp_all
  from res have "checkOverlap gp ?cls cX cY (of_int r) \<longrightarrow> maxAttempts \<le> att"
    by (elim conjE)
  with c1(2) have last: "checkOverlap gp ?cls cX cY (of_int r) \<longrightarrow> att = 10"
    by (simp add: maxAttempts_def)
  have c2: "\<forall>k. 0 \<le> k \<and> k < att - 1 \<longrightarrow>
          checkOverlap gp ?cls (cloudCenterX cx cy sd i k)
            (cloudCenterY cx cy sd i k) (of_int (cloudRadius cx cy sd i k))"
    by (rule cloudAttempt_loop_earlier [OF at])
  have step: "cloudsBefore gp cx cy sd a (i + 1) =
      (if att \<ge> maxAttempts \<and> checkOverlap gp ?cls cX cY (of_int r) then ?cls
       else ?cls @ [buildCloudFormation gp
                (string_of_int cx @ '','' @ string_of_int cy @ '','' @ string_of_int i)
                cX cY (of_int r) (sd + of_int i * 50) a])"
    by (simp only: cloudsBefore_Suc [OF assms] at prod.case)
  have c3: "if checkOverlap gp ?cls cX cY (of_int r)
        then att = 10 \<and> cloudsBefore gp cx cy sd a (i + 1) = ?cls
        else cloudsBefore gp cx cy sd a (i + 1)
          = ?cls @ [buildCloudFormation gp
              (string_of_int cx @ '','' @ string_of_int cy @ '','' @ string_of_int i)
              cX cY (of_int r) (sd + of_int i * 50) a]"
  proof (cases "checkOverlap gp ?cls cX cY (of_int r)")
    case True
    with last have "att = 10" by simp
    with True show ?thesis by (simp add: step maxAttempts_def)
  next
    case False
    then show ?thesis by (simp add: step)
  qed
  show ?thesis
    unfolding n
    by (intro conjI c1 c2 c3 [unfolded draws])
qed



subsection \<open>Dependence on the module object\<close>






subsection \<open>Deep-ocean patches\<close>

lemma generateDeepOceanPatches_closed:
  "generateDeepOceanPatches cx cy sd isls
     = concat (map (patchTiles cx cy sd) (acceptedPatches cx cy sd isls))"
proof -
  have "concat (map (\<lambda>j. if Q j then f j else []) xs) = concat (map f (filter Q xs))"
    for Q :: "int \<Rightarrow> bool" and f :: "int \<Rightarrow> (real \<times> real) list" and xs
    by (induction xs) simp_all
  then show ?thesis
    by (simp add: generateDeepOceanPatches_def generatePatches_loop_closed acceptedPatches_def
        patchTiles_def [abs_def])
qed

lemma acceptedPatches_far:
  assumes "i \<in> set (acceptedPatches cx cy sd isls)" and "island \<in> set isls"
  shows "Island.radius island + 100
    < sqrt ((patchGlobalX cx cy sd i - Island.centerX island)\<^sup>2
          + (patchGlobalY cx cy sd i - Island.centerY island)\<^sup>2)"
  using assms
  by (auto simp: acceptedPatches_def farFromIslands_def list_all_iff Let_def power2_eq_square)

section \<open>The random source at seed 4694\<close>

text \<open>
  Sine and cosine of an integer angle are enclosed by summing the Maclaurin series at \<open>1\<close>
  and applying the addition theorems along a binary chain; every step carries its error
  bound. From the enclosures of \<open>sin (4694 + k)\<close> follow enclosures of the random values
  that chunk \<open>(0, 0)\<close> draws for the seed \<open>4694\<close>.
\<close>

lemma sum_lessThan_numeral:
  "sum f {..<numeral k} = sum f {..<pred_numeral k} + f (pred_numeral k :: nat)"
  by (simp add: numeral_eq_Suc)

lemma Maclaurin_cos_bound:
  "\<bar>cos x - (\<Sum>m<n. cos_coeff m * x ^ m)\<bar> \<le> inverse (fact n) * \<bar>x\<bar> ^ n"
proof -
  obtain t where t: "cos x = (\<Sum>m<n. cos_coeff m * x ^ m) + (cos (t + 1 / 2 * real n * pi) / fact n) * x ^ n"
    using Maclaurin_cos_expansion [of x n] by blast
  define u where "u = cos (t + 1 / 2 * real n * pi)"
  from t have "cos x - (\<Sum>m<n. cos_coeff m * x ^ m) = u / fact n * x ^ n"
    by (simp add: u_def)
  then have "\<bar>cos x - (\<Sum>m<n. cos_coeff m * x ^ m)\<bar> = \<bar>u\<bar> * \<bar>x\<bar> ^ n / fact n"
    by (simp add: abs_mult power_abs)
  also have "\<dots> \<le> 1 * \<bar>x\<bar> ^ n / fact n"
    by (intro divide_right_mono mult_right_mono) (simp_all add: u_def)
  also have "\<dots> = inverse (fact n) * \<bar>x\<bar> ^ n"
    by (simp add: divide_inverse)
  finally show ?thesis .
qed

lemma prod_approx:
  fixes u v u0 v0 :: real
  assumes "\<bar>u\<bar> \<le> 1" and "\<bar>u - u0\<bar> \<le> eu" and "\<bar>v - v0\<bar> \<le> ev"
  shows "\<bar>u * v - u0 * v0\<bar> \<le> ev + \<bar>v0\<bar> * eu"
proof -
  have "u * v - u0 * v0 = u * (v - v0) + v0 * (u - u0)" by (simp add: algebra_simps)
  then have "\<bar>u * v - u0 * v0\<bar> \<le> \<bar>u\<bar> * \<bar>v - v0\<bar> + \<bar>v0\<bar> * \<bar>u - u0\<bar>"
    by (metis abs_mult abs_triangle_ineq)
  also have "\<dots> \<le> 1 * ev + \<bar>v0\<bar> * eu"
    using assms by (intro add_mono mult_mono) simp_all
  finally show ?thesis by simp
qed

lemma sc_approx_add:
  assumes a: "sc_approx a sa ca ea" and b: "sc_approx b sb cb eb"
    and t: "a + b = t"
    and es: "2 * eb + (\<bar>sb\<bar> + \<bar>cb\<bar>) * ea + \<bar>sa * cb + ca * sb - s\<bar> \<le> e"
    and ec: "2 * eb + (\<bar>sb\<bar> + \<bar>cb\<bar>) * ea + \<bar>ca * cb - sa * sb - c\<bar> \<le> e"
  shows "sc_approx t s c e"
proof -
  from a b have A: "\<bar>sin a - sa\<bar> \<le> ea" "\<bar>cos a - ca\<bar> \<le> ea"
    and B: "\<bar>sin b - sb\<bar> \<le> eb" "\<bar>cos b - cb\<bar> \<le> eb"
    by (simp_all add: sc_approx_def)
  have 1: "\<bar>sin a * cos b - sa * cb\<bar> \<le> eb + \<bar>cb\<bar> * ea"
    by (rule prod_approx) (simp_all add: A B)
  have 2: "\<bar>cos a * sin b - ca * sb\<bar> \<le> eb + \<bar>sb\<bar> * ea"
    by (rule prod_approx) (simp_all add: A B)
  have 3: "\<bar>cos a * cos b - ca * cb\<bar> \<le> eb + \<bar>cb\<bar> * ea"
    by (rule prod_approx) (simp_all add: A B)
  have 4: "\<bar>sin a * sin b - sa * sb\<bar> \<le> eb + \<bar>sb\<bar> * ea"
    by (rule prod_approx) (simp_all add: A B)
  have "\<bar>sin (a + b) - s\<bar> \<le> \<bar>sin a * cos b - sa * cb\<bar> + \<bar>cos a * sin b - ca * sb\<bar>
      + \<bar>sa * cb + ca * sb - s\<bar>"
    by (simp add: sin_add)
  with 1 2 es have s: "\<bar>sin (a + b) - s\<bar> \<le> e" by (simp add: algebra_simps)
  have "\<bar>cos (a + b) - c\<bar> \<le> \<bar>cos a * cos b - ca * cb\<bar> + \<bar>sin a * sin b - sa * sb\<bar>
      + \<bar>ca * cb - sa * sb - c\<bar>"
    by (simp add: cos_add)
  with 3 4 ec have c: "\<bar>cos (a + b) - c\<bar> \<le> e" by (simp add: algebra_simps)
  from s c t show ?thesis by (simp add: sc_approx_def)
qed

lemma seededRandom_bounds:
  assumes "sc_approx (x * 12.9898 + y * 78.233 + sd) s c e"
    and "of_int m \<le> (s - e) * 43758.5453" and "(s + e) * 43758.5453 < of_int m + 1"
  shows "(s - e) * 43758.5453 - of_int m \<le> seededRandom x y sd
    \<and> seededRandom x y sd \<le> (s + e) * 43758.5453 - of_int m"
proof -
  let ?n = "sin (x * 12.9898 + y * 78.233 + sd) * 43758.5453"
  from assms(1) have "s - e \<le> sin (x * 12.9898 + y * 78.233 + sd)"
    "sin (x * 12.9898 + y * 78.233 + sd) \<le> s + e"
    by (simp_all add: sc_approx_def abs_le_iff)
  then have lo: "(s - e) * 43758.5453 \<le> ?n" and hi: "?n \<le> (s + e) * 43758.5453"
    by simp_all
  with assms(2,3) have "of_int m \<le> ?n" "?n < of_int m + 1" by linarith+
  then have "\<lfloor>?n\<rfloor> = m" by (simp add: floor_unique)
  with lo hi show ?thesis by (simp add: seededRandom_def Let_def)
qed

lemma approx_shift:
  fixes x t s r e :: real
  shows "\<bar>x - t\<bar> \<le> r \<Longrightarrow> r + \<bar>t - s\<bar> \<le> e \<Longrightarrow> \<bar>x - s\<bar> \<le> e"
  by linarith

lemma seededRandom_interval:
  assumes "sc_approx t s c e" and "x * 12.9898 + y * 78.233 + sd = t"
    and "of_int m \<le> (s - e) * 43758.5453" and "(s + e) * 43758.5453 < of_int m + 1"
    and "lo \<le> (s - e) * 43758.5453 - of_int m" and "(s + e) * 43758.5453 - of_int m \<le> hi"
  shows "lo \<le> seededRandom x y sd \<and> seededRandom x y sd \<le> hi"
  using seededRandom_bounds [of x y sd s c e m] assms by simp

lemma taylor_sin_1: "(\<Sum>m<30. sin_coeff m * (1::real) ^ m) = 7440086172309177470951709137213 / 8841761993739701954543616000000"
  by (simp add: sum_lessThan_numeral sin_coeff_def fact_numeral)

lemma taylor_cos_1: "(\<Sum>m<30. cos_coeff m * (1::real) ^ m) = 32946375125205802031892742289 / 60977668922342772100300800000"
  by (simp add: sum_lessThan_numeral cos_coeff_def fact_numeral)

lemma sincos_1: "sc_approx 1 0.841470984807896507 0.540302305868139717 (0.000000000000000000401)"
proof -
  have "\<bar>sin 1 - 0.841470984807896507\<bar> \<le> (0.000000000000000000401 :: real)"
    by (rule approx_shift [OF Maclaurin_sin_bound [of 1 30, unfolded taylor_sin_1]])
      (simp add: fact_numeral)
  moreover have "\<bar>cos 1 - 0.540302305868139717\<bar> \<le> (0.000000000000000000401 :: real)"
    by (rule approx_shift [OF Maclaurin_cos_bound [of 1 30, unfolded taylor_cos_1]])
      (simp add: fact_numeral)
  ultimately show ?thesis by (simp only: sc_approx_def)
qed

lemma sincos_2: "sc_approx 2 (0.909297426825681695) (- 0.416146836547142388) (0.0000000000000000014529)"
  by (rule sc_approx_add [OF sincos_1 sincos_1]; simp)

lemma sincos_4: "sc_approx 4 (- 0.756802495307928253) (- 0.653643620863611913) (0.0000000000000000049655)"
  by (rule sc_approx_add [OF sincos_2 sincos_2]; simp)

lemma sincos_8: "sc_approx 8 (0.989358246623381777) (- 0.145500033808613530) (0.0000000000000000174095)"
  by (rule sc_approx_add [OF sincos_4 sincos_4]; simp)

lemma sincos_16: "sc_approx 16 (- 0.287903316665065303) (- 0.957659480323384639) (0.0000000000000000548527)"
  by (rule sc_approx_add [OF sincos_8 sincos_8]; simp)

lemma sincos_32: "sc_approx 32 (0.551426681241690565) (0.834223360506510262) (0.0000000000000001783006)"
  by (rule sc_approx_add [OF sincos_16 sincos_16]; simp)

lemma sincos_64: "sc_approx 64 (0.920026038196790696) (0.391857230429549972) (0.0000000000000006039679)"
  by (rule sc_approx_add [OF sincos_32 sincos_32]; simp)

lemma sincos_128: "sc_approx 128 (0.721037710501731512) (- 0.692895821920165148) (0.0000000000000020004887)"
  by (rule sc_approx_add [OF sincos_64 sincos_64]; simp)

lemma sincos_256: "sc_approx 256 (- 0.999208034107062699) (- 0.039790759931157568) (0.0000000000000068295939)"
  by (rule sc_approx_add [OF sincos_128 sincos_128]; simp)

lemma sincos_512: "sc_approx 512 (0.079518494012876070) (- 0.996833390848201959) (0.0000000000000207554785)"
  by (rule sc_approx_add [OF sincos_256 sincos_256]; simp)

lemma sincos_1024: "sc_approx 1024 (- 0.158533380043995398) (0.987353618219848362) (0.000000000000063851437)"
  by (rule sc_approx_add [OF sincos_512 sincos_512]; simp)

lemma sincos_2048: "sc_approx 2048 (- 0.313057012790122319) (0.949734334823652197) (0.0000000000002008697742)"
  by (rule sc_approx_add [OF sincos_1024 sincos_1024]; simp)

lemma sincos_4096: "sc_approx 4096 (- 0.594641987608212798) (0.803990613485850289) (0.0000000000006553965916)"
  by (rule sc_approx_add [OF sincos_2048 sincos_2048]; simp)

lemma sincos_4608: "sc_approx 4608 (0.656691111633092399) (- 0.754159654119797878) (0.0000000000007469487205)"
  by (rule sc_approx_add [OF sincos_4096 sincos_512]; simp)

lemma sincos_4672: "sc_approx 4672 (- 0.436517358495453610) (- 0.899695835119931753) (0.0000000000009811178636)"
  by (rule sc_approx_add [OF sincos_4608 sincos_64]; simp)

lemma sincos_4688: "sc_approx 4688 (0.677060401609666787) (0.735927450617352979) (0.0000000000012221541011)"
  by (rule sc_approx_add [OF sincos_4672 sincos_16]; simp)

lemma sincos_4692: "sc_approx 4692 (- 0.999507943444328733) (0.031366717897930318) (0.0000000000017237927417)"
  by (rule sc_approx_add [OF sincos_4688 sincos_4]; simp)

lemma sincos_4694: "sc_approx 4694 (0.444463744640652601) (0.895796840639666770) (0.0000000000022847945118)"
  by (rule sc_approx_add [OF sincos_4692 sincos_2]; simp)

lemma sincos_4695: "sc_approx 4695 (0.993931835784995351) (0.109997753672831069) (0.0000000000031570692652)"
  by (rule sc_approx_add [OF sincos_4694 sincos_1]; simp)

lemma sincos_4696: "sc_approx 4696 (0.629583580860119750) (- 0.776932760740174248) (0.0000000000030283709742)"
  by (rule sc_approx_add [OF sincos_4694 sincos_2]; simp)

lemma sincos_10: "sc_approx 10 (- 0.544021110889369818) (- 0.839071529076452449) (0.0000000000000000262484)"
  by (rule sc_approx_add [OF sincos_8 sincos_2]; simp)

lemma sincos_4704: "sc_approx 4704 (- 0.860269266210657575) (- 0.509839964707923378) (0.0000000000031601353514)"
  by (rule sc_approx_add [OF sincos_4694 sincos_10]; simp)

lemma sincos_96: "sc_approx 96 (0.983587745434344846) (- 0.180430449291084002) (0.0000000000000011935826)"
  by (rule sc_approx_add [OF sincos_64 sincos_32]; simp)

lemma sincos_100: "sc_approx 100 (- 0.506365641109758745) (0.862318872287683961) (0.0000000000000016938809)"
  by (rule sc_approx_add [OF sincos_96 sincos_4]; simp)

lemma sincos_4794: "sc_approx 4794 (- 0.070331266463312564) (0.997523690424275743) (0.0000000000031305509242)"
  by (rule sc_approx_add [OF sincos_4694 sincos_100]; simp)

lemma sincos_6144: "sc_approx 6144 (- 0.816446812328478538) (0.577420646183236046) (0.0000000000012293690799)"
  by (rule sc_approx_add [OF sincos_4096 sincos_2048]; simp)

lemma sincos_6656: "sc_approx 6656 (0.859777064577035527) (- 0.510669559722621199) (0.0000000000013647449806)"
  by (rule sc_approx_add [OF sincos_6144 sincos_512]; simp)

lemma sincos_6912: "sc_approx 6912 (0.476053944077859397) (0.879416080321433516) (0.0000000000014316277625)"
  by (rule sc_approx_add [OF sincos_6656 sincos_256]; simp)

lemma sincos_6976: "sc_approx 6976 (0.995630872366092993) (- 0.093376474507941932) (0.0000000000018793368001)"
  by (rule sc_approx_add [OF sincos_6912 sincos_64]; simp)

lemma sincos_6992: "sc_approx 6992 (- 0.926591947114703312) (0.376068296380035930) (0.0000000000023409421312)"
  by (rule sc_approx_add [OF sincos_6976 sincos_16]; simp)

lemma sincos_7000: "sc_approx 7000 (0.506885429949172992) (0.862013434295105243) (0.0000000000026566724845)"
  by (rule sc_approx_add [OF sincos_6992 sincos_8]; simp)


lemma sincos_7168: "sc_approx 7168 (- 0.897662160983201144) (0.440684291459281709) (0.0000000000015364210514)"
  by (rule sc_approx_add [OF sincos_6144 sincos_1024]; simp)

lemma sincos_7680: "sc_approx 7680 (0.929862166960982358) (- 0.367908073375165037) (0.0000000000016952411493)"
  by (rule sc_approx_add [OF sincos_7168 sincos_512]; simp)

lemma sincos_7936: "sc_approx 7936 (0.330616780474705227) (0.943765089664022385) (0.0000000000017750130603)"
  by (rule sc_approx_add [OF sincos_7680 sincos_256]; simp)

lemma sincos_8000: "sc_approx 8000 (0.997843032362381959) (0.065645127510318595) (0.000000000002329818141)"
  by (rule sc_approx_add [OF sincos_7936 sincos_64]; simp)


lemma sincos_8192: "sc_approx 8192 (- 0.956173152843144786) (0.292801813146708010) (0.000000000002227452564)"
  by (rule sc_approx_add [OF sincos_4096 sincos_4096]; simp)

lemma sincos_8704: "sc_approx 8704 (0.976428485412313855) (- 0.215841175115904140) (0.0000000000024390341262)"
  by (rule sc_approx_add [OF sincos_8192 sincos_512]; simp)

lemma sincos_8960: "sc_approx 8960 (0.176817404813935667) (0.984243671737270758) (0.0000000000025478131176)"
  by (rule sc_approx_add [OF sincos_8704 sincos_256]; simp)

lemma sincos_8992: "sc_approx 8992 (0.690243431079140544) (0.723577228671615503) (0.0000000000035307341432)"
  by (rule sc_approx_add [OF sincos_8960 sincos_32]; simp)

lemma sincos_9000: "sc_approx 9000 (0.615446655696966931) (- 0.788178541950628491) (0.0000000000040069181848)"
  by (rule sc_approx_add [OF sincos_8992 sincos_8]; simp)

lemma sincos_13694: "sc_approx 13694 (0.200998383554805714) (- 0.979591572956992413) (0.0000000000099399040199)"
  by (rule sc_approx_add [OF sincos_9000 sincos_4694]; simp)

lemma sincos_4705: "sc_approx 4705 (- 0.893821005398310305) (0.448423918082826541) (0.0000000000043665918258)"
  by (rule sc_approx_add [OF sincos_4704 sincos_1]; simp)

lemma sincos_4706: "sc_approx 4706 (- 0.105597834289514456) (0.994408918601077326) (0.0000000000041885864726)"
  by (rule sc_approx_add [OF sincos_4704 sincos_2]; simp)



lemma sincos_5: "sc_approx 5 (- 0.958924274663138468) (0.283662185463226267) (0.0000000000000000079801)"
  by (rule sc_approx_add [OF sincos_4 sincos_1]; simp)




lemma sincos_6: "sc_approx 6 (- 0.279415498198925870) (0.960170286650366022) (0.000000000000000009861)"
  by (rule sc_approx_add [OF sincos_4 sincos_2]; simp)

lemma sincos_13700: "sc_approx 13700 (0.466705742943325492) (- 0.884412657928253518) (0.0000000000123213836653)"
  by (rule sc_approx_add [OF sincos_13694 sincos_6]; simp)

lemma sincos_13701: "sc_approx 13701 (- 0.492045401169274747) (- 0.870569539547626752) (0.000000000017025360126)"
  by (rule sc_approx_add [OF sincos_13700 sincos_1]; simp)

lemma rnd_4694:
  "0.08690396 \<le> seededRandom 0 0 4694 \<and> seededRandom 0 0 4694 \<le> 0.08690417"
  by (rule seededRandom_interval [OF sincos_4694, where m = "19449"]; simp)

lemma rnd_4695:
  "0.01126117 \<le> seededRandom 0 0 4695 \<and> seededRandom 0 0 4695 \<le> 0.01126145"
  by (rule seededRandom_interval [OF sincos_4695, where m = "43493"]; simp)

lemma rnd_4696:
  "0.66164307 \<le> seededRandom 0 0 4696 \<and> seededRandom 0 0 4696 \<le> 0.66164334"
  by (rule seededRandom_interval [OF sincos_4696, where m = "27549"]; simp)

lemma rnd_4704:
  "0.86834418 \<le> seededRandom 0 0 4704 \<and> seededRandom 0 0 4704 \<le> 0.86834447"
  by (rule seededRandom_interval [OF sincos_4704, where m = "-37645"]; simp)

lemma rnd_4705:
  "0.69304499 \<le> seededRandom 0 0 4705 \<and> seededRandom 0 0 4705 \<le> 0.69304538"
  by (rule seededRandom_interval [OF sincos_4705, where m = "-39113"]; simp)

lemma rnd_4706:
  "0.19238447 \<le> seededRandom 0 0 4706 \<and> seededRandom 0 0 4706 \<le> 0.19238485"
  by (rule seededRandom_interval [OF sincos_4706, where m = "-4621"]; simp)

lemma rnd_4794:
  "0.40609032 \<le> seededRandom 0 0 4794 \<and> seededRandom 0 0 4794 \<le> 0.40609060"
  by (rule seededRandom_interval [OF sincos_4794, where m = "-3078"]; simp)








lemma rnd_13694:
  "0.39687157 \<le> seededRandom 0 0 13694 \<and> seededRandom 0 0 13694 \<le> 0.39687245"
  by (rule seededRandom_interval [OF sincos_13694, where m = "8795"]; simp)

lemma rnd_13700:
  "0.36439381 \<le> seededRandom 0 0 13700 \<and> seededRandom 0 0 13700 \<le> 0.36439490"
  by (rule seededRandom_interval [OF sincos_13700, where m = "20422"]; simp)

lemma rnd_13701:
  "0.80902253 \<le> seededRandom 0 0 13701 \<and> seededRandom 0 0 13701 \<le> 0.80902403"
  by (rule seededRandom_interval [OF sincos_13701, where m = "-21532"]; simp)

section \<open>The random source at seed 5292\<close>

text \<open>
  The same chain, continued to the angles \<open>5292 + k\<close> that the cloud loop of chunk \<open>(0, 0)\<close>
  draws from for the seed \<open>5292\<close>.
\<close>

lemma sincos_5120: "sc_approx 5120 (- 0.714581267489968455) (0.699552437028440293) (0.0000000000008787137569)"
  by (rule sc_approx_add [OF sincos_4096 sincos_1024]; simp)

lemma sincos_5248: "sc_approx 5248 (0.999534062237108375) (0.030523080247316534) (0.0000000000012464441934)"
  by (rule sc_approx_add [OF sincos_5120 sincos_128]; simp)

lemma sincos_5280: "sc_approx 5280 (0.850665905182215481) (- 0.525706684150507775) (0.0000000000017274922021)"
  by (rule sc_approx_add [OF sincos_5248 sincos_32]; simp)

lemma sincos_5288: "sc_approx 5288 (- 0.643884161233185523) (- 0.765122988096055646) (0.0000000000019604940862)"
  by (rule sc_approx_add [OF sincos_5280 sincos_8]; simp)

lemma sincos_5292: "sc_approx 5292 (0.999917761173742279) (0.012824620434564842) (0.0000000000027651814252)"
  by (rule sc_approx_add [OF sincos_5288 sincos_4]; simp)

lemma sincos_12292: "sc_approx 12292 (0.868443156564959776) (- 0.495788749182036407) (0.0000000000082208879453)"
  by (rule sc_approx_add [OF sincos_7000 sincos_5292]; simp)

lemma sincos_13292: "sc_approx 13292 (0.078436687075405359) (- 0.996919097078912585) (0.0000000000076003744013)"
  by (rule sc_approx_add [OF sincos_5292 sincos_8000]; simp)

lemma sincos_13293: "sc_approx 13293 (- 0.796498971501292327) (- 0.604639883234130455) (0.0000000000105019956244)"
  by (rule sc_approx_add [OF sincos_13292 sincos_1]; simp)

lemma sincos_13294: "sc_approx 13294 (- 0.939137148922905252) (0.343542450816425712) (0.0000000000100738759625)"
  by (rule sc_approx_add [OF sincos_13292 sincos_2]; simp)

lemma sincos_13297: "sc_approx 13297 (0.978219444140531852) (- 0.207573406546667921) (0.0000000000094441387722)"
  by (rule sc_approx_add [OF sincos_13292 sincos_5]; simp)

lemma sincos_13298: "sc_approx 13298 (0.353867222487424727) (- 0.935295669213235931) (0.0000000000094213362112)"
  by (rule sc_approx_add [OF sincos_13292 sincos_6]; simp)

lemma sincos_7: "sc_approx 7 (0.656986598718789094) (0.753902254343304636) (0.0000000000000000148422)"
  by (rule sc_approx_add [OF sincos_6 sincos_1]; simp)

lemma sincos_13299: "sc_approx 13299 (- 0.595828891578312645) (- 0.803111406942124533) (0.0000000000107233132864)"
  by (rule sc_approx_add [OF sincos_13292 sincos_7]; simp)

lemma sincos_13300: "sc_approx 13300 (- 0.997722670532664997) (0.067449779133564338) (0.0000000000086253830571)"
  by (rule sc_approx_add [OF sincos_13292 sincos_8]; simp)

lemma sincos_13302: "sc_approx 13302 (0.476531043699645948) (0.879157644788763422) (0.0000000000105120747175)"
  by (rule sc_approx_add [OF sincos_13292 sincos_10]; simp)

lemma sincos_11: "sc_approx 11 (- 0.999990206550703457) (0.004425697988050792) (0.0000000000000000372058)"
  by (rule sc_approx_add [OF sincos_10 sincos_1]; simp)

lemma sincos_13303: "sc_approx 13303 (0.997256470890461578) (0.074023856067495942) (0.0000000000076340117522)"
  by (rule sc_approx_add [OF sincos_13292 sincos_11]; simp)

lemma sincos_12: "sc_approx 12 (- 0.536572918000434966) (0.843853958732492108) (0.0000000000000000346384)"
  by (rule sc_approx_add [OF sincos_8 sincos_4]; simp)

lemma sincos_13304: "sc_approx 13304 (0.601108897828433539) (- 0.799167124543724737) (0.0000000000104918306832)"
  by (rule sc_approx_add [OF sincos_13292 sincos_12]; simp)

lemma sincos_13: "sc_approx 13 (0.420167036826640928) (0.907446781450196211) (0.000000000000000048923)"
  by (rule sc_approx_add [OF sincos_12 sincos_1]; simp)

lemma sincos_13305: "sc_approx 13305 (- 0.347695423741344290) (- 0.937607536397466482) (0.0000000000100904603252)"
  by (rule sc_approx_add [OF sincos_13292 sincos_13]; simp)

lemma sincos_14: "sc_approx 14 (0.990607355694870309) (0.136737218207833587) (0.0000000000000000491705)"
  by (rule sc_approx_add [OF sincos_12 sincos_2]; simp)

lemma sincos_13306: "sc_approx 13306 (- 0.976830176202930040) (- 0.214015903286069018) (0.0000000000085683396316)"
  by (rule sc_approx_add [OF sincos_13292 sincos_14]; simp)

lemma sincos_15: "sc_approx 15 (0.650287840157116860) (- 0.759687912858821279) (0.0000000000000000688547)"
  by (rule sc_approx_add [OF sincos_14 sincos_1]; simp)

lemma sincos_13307: "sc_approx 13307 (- 0.707871769546704352) (0.706340964321634741) (0.0000000000107164816316)"
  by (rule sc_approx_add [OF sincos_13292 sincos_15]; simp)

lemma sincos_13308: "sc_approx 13308 (0.211900677512840512) (0.977291206790278331) (0.0000000000094668536969)"
  by (rule sc_approx_add [OF sincos_13292 sincos_16]; simp)

lemma sincos_17: "sc_approx 17 (- 0.961397491879556859) (- 0.275163338051596913) (0.000000000000000077074)"
  by (rule sc_approx_add [OF sincos_16 sincos_1]; simp)

lemma sincos_13309: "sc_approx 13309 (0.936852618897121931) (0.349724420745253950) (0.0000000000093984797093)"
  by (rule sc_approx_add [OF sincos_13292 sincos_17]; simp)

lemma sincos_18: "sc_approx 18 (- 0.750987246771676097) (0.660316708244080152) (0.0000000000000000756843)"
  by (rule sc_approx_add [OF sincos_16 sincos_2]; simp)

lemma sincos_13310: "sc_approx 13310 (0.800466582984600498) (- 0.599377384896157958) (0.0000000000107265901601)"
  by (rule sc_approx_add [OF sincos_13292 sincos_18]; simp)

lemma sincos_19: "sc_approx 19 (0.149877209662952340) (0.988704618186669251) (0.0000000000000001054766)"
  by (rule sc_approx_add [OF sincos_18 sincos_1]; simp)

lemma sincos_13311: "sc_approx 13311 (- 0.071864737783181409) (- 0.997414387034473237) (0.0000000000086538594876)"
  by (rule sc_approx_add [OF sincos_13292 sincos_19]; simp)

lemma sincos_20: "sc_approx 20 (0.912945250727627659) (0.408082061813391976) (0.0000000000000000876596)"
  by (rule sc_approx_add [OF sincos_16 sincos_4]; simp)

lemma sincos_13312: "sc_approx 13312 (- 0.878123950054324775) (- 0.478433201545408139) (0.0000000000100404777475)"
  by (rule sc_approx_add [OF sincos_13292 sincos_20]; simp)

lemma sincos_21: "sc_approx 21 (0.836655638536056026) (- 0.547729260224268431) (0.0000000000000001222543)"
  by (rule sc_approx_add [OF sincos_20 sincos_1]; simp)

lemma sincos_13313: "sc_approx 13313 (- 0.877040052321600249) (0.480417263036752350) (0.0000000000105220882534)"
  by (rule sc_approx_add [OF sincos_13292 sincos_21]; simp)

lemma rnd_12292:
  "0.80920666 \<le> seededRandom 0 0 12292 \<and> seededRandom 0 0 12292 \<le> 0.80920739"
  by (rule seededRandom_interval [OF sincos_12292, where m = "38001"]; simp)

lemma rnd_13292:
  "0.27532423 \<le> seededRandom 0 0 13292 \<and> seededRandom 0 0 13292 \<le> 0.27532491"
  by (rule seededRandom_interval [OF sincos_13292, where m = "3432"]; simp)

lemma rnd_13293:
  "0.36367369 \<le> seededRandom 0 0 13293 \<and> seededRandom 0 0 13293 \<le> 0.36367462"
  by (rule seededRandom_interval [OF sincos_13293, where m = "-34854"]; simp)

lemma rnd_13294:
  "0.72452550 \<le> seededRandom 0 0 13294 \<and> seededRandom 0 0 13294 \<le> 0.72452639"
  by (rule seededRandom_interval [OF sincos_13294, where m = "-41096"]; simp)

lemma rnd_13297:
  "0.45985935 \<le> seededRandom 0 0 13297 \<and> seededRandom 0 0 13297 \<le> 0.45986018"
  by (rule seededRandom_interval [OF sincos_13297, where m = "42805"]; simp)

lemma rnd_13298:
  "0.71488498 \<le> seededRandom 0 0 13298 \<and> seededRandom 0 0 13298 \<le> 0.71488582"
  by (rule seededRandom_interval [OF sincos_13298, where m = "15484"]; simp)

lemma rnd_13299:
  "0.39445635 \<le> seededRandom 0 0 13299 \<and> seededRandom 0 0 13299 \<le> 0.39445730"
  by (rule seededRandom_interval [OF sincos_13299, where m = "-26073"]; simp)

lemma rnd_13300:
  "0.10732428 \<le> seededRandom 0 0 13300 \<and> seededRandom 0 0 13300 \<le> 0.10732504"
  by (rule seededRandom_interval [OF sincos_13300, where m = "-43659"]; simp)

lemma rnd_13302:
  "0.30526212 \<le> seededRandom 0 0 13302 \<and> seededRandom 0 0 13302 \<le> 0.30526305"
  by (rule seededRandom_interval [OF sincos_13302, where m = "20852"]; simp)

lemma rnd_13303:
  "0.49245684 \<le> seededRandom 0 0 13303 \<and> seededRandom 0 0 13303 \<le> 0.49245752"
  by (rule seededRandom_interval [OF sincos_13303, where m = "43638"]; simp)

lemma rnd_13304:
  "0.65093539 \<le> seededRandom 0 0 13304 \<and> seededRandom 0 0 13304 \<le> 0.65093632"
  by (rule seededRandom_interval [OF sincos_13304, where m = "26303"]; simp)

lemma rnd_13305:
  "0.35404917 \<le> seededRandom 0 0 13305 \<and> seededRandom 0 0 13305 \<le> 0.35405006"
  by (rule seededRandom_interval [OF sincos_13305, where m = "-15215"]; simp)

lemma rnd_13306:
  "0.33248384 \<le> seededRandom 0 0 13306 \<and> seededRandom 0 0 13306 \<le> 0.33248460"
  by (rule seededRandom_interval [OF sincos_13306, where m = "-42745"]; simp)

lemma rnd_13307:
  "0.56110523 \<le> seededRandom 0 0 13307 \<and> seededRandom 0 0 13307 \<le> 0.56110617"
  by (rule seededRandom_interval [OF sincos_13307, where m = "-30976"]; simp)

lemma rnd_13308:
  "0.46539563 \<le> seededRandom 0 0 13308 \<and> seededRandom 0 0 13308 \<le> 0.46539647"
  by (rule seededRandom_interval [OF sincos_13308, where m = "9272"]; simp)

lemma rnd_13309:
  "0.30776302 \<le> seededRandom 0 0 13309 \<and> seededRandom 0 0 13309 \<le> 0.30776385"
  by (rule seededRandom_interval [OF sincos_13309, where m = "40995"]; simp)

lemma rnd_13310:
  "0.25323219 \<le> seededRandom 0 0 13310 \<and> seededRandom 0 0 13310 \<le> 0.25323314"
  by (rule seededRandom_interval [OF sincos_13310, where m = "35027"]; simp)

lemma rnd_13311:
  "0.30361586 \<le> seededRandom 0 0 13311 \<and> seededRandom 0 0 13311 \<le> 0.30361663"
  by (rule seededRandom_interval [OF sincos_13311, where m = "-3145"]; simp)

lemma rnd_13312:
  "0.57335209 \<le> seededRandom 0 0 13312 \<and> seededRandom 0 0 13312 \<le> 0.57335298"
  by (rule seededRandom_interval [OF sincos_13312, where m = "-38426"]; simp)

lemma rnd_13313:
  "0.00314011 \<le> seededRandom 0 0 13313 \<and> seededRandom 0 0 13313 \<le> 0.00314104"
  by (rule seededRandom_interval [OF sincos_13313, where m = "-38378"]; simp)

section \<open>Chunk (0, 0) at seed 4694\<close>

lemma dist_lower:
  fixes dx dy :: real
  assumes "0 \<le> a" "a \<le> \<bar>dx\<bar>" "0 \<le> b" "b \<le> \<bar>dy\<bar>" "m * m \<le> a * a + b * b"
  shows "m \<le> sqrt (dx * dx + dy * dy)"
proof -
  have "a * a \<le> \<bar>dx\<bar> * \<bar>dx\<bar>"
    by (rule mult_mono) (use assms in simp_all)
  moreover have "b * b \<le> \<bar>dy\<bar> * \<bar>dy\<bar>"
    by (rule mult_mono) (use assms in simp_all)
  ultimately
  have "a * a + b * b \<le> dx * dx + dy * dy" by (simp only: abs_mult_self_eq add_mono)
  with assms(5) have "m\<^sup>2 \<le> dx * dx + dy * dy" by (simp add: power2_eq_square)
  then show ?thesis by (rule real_le_rsqrt)
qed

lemma dist_upper:
  fixes dx dy :: real
  assumes "\<bar>dx\<bar> \<le> a" "\<bar>dy\<bar> \<le> b" "a * a + b * b < m * m" "0 \<le> m"
  shows "sqrt (dx * dx + dy * dy) < m"
proof -
  have "\<bar>dx\<bar> * \<bar>dx\<bar> \<le> a * a"
    by (rule mult_mono) (use assms in simp_all)
  moreover have "\<bar>dy\<bar> * \<bar>dy\<bar> \<le> b * b"
    by (rule mult_mono) (use assms in simp_all)
  ultimately
  have "dx * dx + dy * dy \<le> a * a + b * b" by (simp only: abs_mult_self_eq add_mono)
  with assms(3) have "dx * dx + dy * dy < m\<^sup>2" by (simp add: power2_eq_square)
  with assms(4) show ?thesis by (simp add: real_less_lsqrt)
qed

lemma islandBaseRadius_4694_0: "islandBaseRadius 0 0 4694 0 = 14"
proof -
  have "\<lfloor>seededRandom 0 0 4696 * 10\<rfloor> = 6"
    by (rule floor_unique) (use rnd_4696 in simp_all)
  then show ?thesis by (simp add: islandBaseRadius_def)
qed

lemma islandBaseRadius_4694_1: "islandBaseRadius 0 0 4694 1 = 9"
proof -
  have "\<lfloor>seededRandom 0 0 4706 * 10\<rfloor> = 1"
    by (rule floor_unique) (use rnd_4706 in simp_all)
  then show ?thesis by (simp add: islandBaseRadius_def)
qed

lemma islandCenters_4694:
  "161.371 \<le> islandCenterX 0 0 4694 0 \<and> islandCenterX 0 0 4694 0 \<le> 161.372"
  "132.324 \<le> islandCenterY 0 0 4694 0 \<and> islandCenterY 0 0 4694 0 \<le> 132.325"
  "461.444 \<le> islandCenterX 0 0 4694 1 \<and> islandCenterX 0 0 4694 1 \<le> 461.445"
  "394.129 \<le> islandCenterY 0 0 4694 1 \<and> islandCenterY 0 0 4694 1 \<le> 394.130"
  using rnd_4694 rnd_4695 rnd_4704 rnd_4705
  by (simp_all add: islandCenterX_def islandCenterY_def CHUNK_SIZE_def TILE_SIZE_def
      SPRITE_TILE_SIZE_def GAME_SCALE_def)

lemma islandCount_4694: "\<lfloor>seededRandom 0 0 4794 * 3\<rfloor> + 1 = 2"
proof -
  have "\<lfloor>seededRandom 0 0 4794 * 3\<rfloor> = 1"
    by (rule floor_unique) (use rnd_4794 in simp_all)
  then show ?thesis by simp
qed

lemma islands_4694_distance:
  "398 \<le> sqrt ((islandCenterX 0 0 4694 1 - islandCenterX 0 0 4694 0)
              * (islandCenterX 0 0 4694 1 - islandCenterX 0 0 4694 0)
            + (islandCenterY 0 0 4694 1 - islandCenterY 0 0 4694 0)
              * (islandCenterY 0 0 4694 1 - islandCenterY 0 0 4694 0))"
  "sqrt ((islandCenterX 0 0 4694 1 - islandCenterX 0 0 4694 0)
              * (islandCenterX 0 0 4694 1 - islandCenterX 0 0 4694 0)
            + (islandCenterY 0 0 4694 1 - islandCenterY 0 0 4694 0)
              * (islandCenterY 0 0 4694 1 - islandCenterY 0 0 4694 0)) < 399"
proof -
  show "398 \<le> sqrt ((islandCenterX 0 0 4694 1 - islandCenterX 0 0 4694 0)
              * (islandCenterX 0 0 4694 1 - islandCenterX 0 0 4694 0)
            + (islandCenterY 0 0 4694 1 - islandCenterY 0 0 4694 0)
              * (islandCenterY 0 0 4694 1 - islandCenterY 0 0 4694 0))"
    by (rule dist_lower [where a = "300.072" and b = "261.804"]) (use islandCenters_4694 in simp_all)
  show "sqrt ((islandCenterX 0 0 4694 1 - islandCenterX 0 0 4694 0)
              * (islandCenterX 0 0 4694 1 - islandCenterX 0 0 4694 0)
            + (islandCenterY 0 0 4694 1 - islandCenterY 0 0 4694 0)
              * (islandCenterY 0 0 4694 1 - islandCenterY 0 0 4694 0)) < 399"
    by (rule dist_upper [where a = "300.074" and b = "261.806"]) (use islandCenters_4694 in simp_all)
qed

lemma islands_4694:
  "generateIslandsForChunk 0 0 4694 a =
     [buildIsland ''0,0,0'' (islandCenterX 0 0 4694 0) (islandCenterY 0 0 4694 0) 14
        (islandShape 0 0 4694 0) 4694 a,
      buildIsland ''0,0,1'' (islandCenterX 0 0 4694 1) (islandCenterY 0 0 4694 1) 9
        (islandShape 0 0 4694 1) 4794 a]"
proof -
  let ?i0 = "buildIsland ''0,0,0'' (islandCenterX 0 0 4694 0) (islandCenterY 0 0 4694 0) 14
        (islandShape 0 0 4694 0) 4694 a"
  let ?i1 = "buildIsland ''0,0,1'' (islandCenterX 0 0 4694 1) (islandCenterY 0 0 4694 1) 9
        (islandShape 0 0 4694 1) 4794 a"
  have keys: "string_of_int 0 = ''0''" "string_of_int 1 = ''1''"
    by (simp_all add: string_of_int_def string_of_nat.simps digit_char_def)
  have no0: "\<not> wouldOverlap [] x y e" for x y e
    by (simp add: wouldOverlap_def)
  have no1: "\<not> wouldOverlap [?i0] (islandCenterX 0 0 4694 1) (islandCenterY 0 0 4694 1)
      (of_int 9 * TILE_SIZE * 1.8)"
    using islands_4694_distance(1)
    by (simp add: not_wouldOverlap_iff TILE_SIZE_def SPRITE_TILE_SIZE_def GAME_SCALE_def)
  have l2: "generateIslands_loop 0 0 4694 a 2 2 [?i0, ?i1] = [?i0, ?i1]"
    by (simp add: generateIslands_loop.simps [of 0 0 4694 a 2 2])
  have l1: "generateIslands_loop 0 0 4694 a 2 1 [?i0] = [?i0, ?i1]"
    using no1 l2
    by (simp add: generateIslands_loop.simps [of 0 0 4694 a 2 1] islandBaseRadius_4694_1 keys Let_def)
  have l0: "generateIslands_loop 0 0 4694 a 2 0 [] = [?i0, ?i1]"
    using l1
    by (simp add: generateIslands_loop.simps [of 0 0 4694 a 2 0] islandBaseRadius_4694_0 keys
        Let_def no0)
  have "seededRandom 0 0 4694 < 0.3" using rnd_4694 by simp
  with l0 show ?thesis
    by (simp add: generateIslandsForChunk_def islandCount_4694 Let_def)
qed

lemma patchCount_4694: "patchCount 0 0 4694 = 5"
proof -
  have "\<lfloor>seededRandom 0 0 13694 * 6\<rfloor> = 2"
    by (rule floor_unique) (use rnd_13694 in simp_all)
  then show ?thesis by (simp add: patchCount_def)
qed

lemma patchGlobal_4694_2: "patchGlobalX 0 0 4694 2 = 230" "patchGlobalY 0 0 4694 2 = 510"
proof -
  have "\<lfloor>seededRandom 0 0 13700 * 64\<rfloor> = 23"
    by (rule floor_unique) (use rnd_13700 in simp_all)
  then show "patchGlobalX 0 0 4694 2 = 230"
    by (simp add: patchGlobalX_def patchCenterX_def CHUNK_SIZE_def TILE_SIZE_def
        SPRITE_TILE_SIZE_def GAME_SCALE_def)
  have "\<lfloor>seededRandom 0 0 13701 * 64\<rfloor> = 51"
    by (rule floor_unique) (use rnd_13701 in simp_all)
  then show "patchGlobalY 0 0 4694 2 = 510"
    by (simp add: patchGlobalY_def patchCenterY_def CHUNK_SIZE_def TILE_SIZE_def
        SPRITE_TILE_SIZE_def GAME_SCALE_def)
qed

lemma acceptedPatches_4694: "2 \<in> set (acceptedPatches 0 0 4694 (generateIslandsForChunk 0 0 4694 a))"
proof -
  have 0: "Island.radius (buildIsland ''0,0,0'' (islandCenterX 0 0 4694 0) (islandCenterY 0 0 4694 0) 14
        (islandShape 0 0 4694 0) 4694 a) + 100
      < sqrt ((230 - islandCenterX 0 0 4694 0) * (230 - islandCenterX 0 0 4694 0)
          + (510 - islandCenterY 0 0 4694 0) * (510 - islandCenterY 0 0 4694 0))"
  proof -
    have "377 \<le> sqrt ((230 - islandCenterX 0 0 4694 0) * (230 - islandCenterX 0 0 4694 0)
          + (510 - islandCenterY 0 0 4694 0) * (510 - islandCenterY 0 0 4694 0))"
      by (rule dist_lower [where a = 0 and b = 377]) (use islandCenters_4694 in simp_all)
    then show ?thesis
      by (simp add: TILE_SIZE_def SPRITE_TILE_SIZE_def GAME_SCALE_def)
  qed
  have 1: "Island.radius (buildIsland ''0,0,1'' (islandCenterX 0 0 4694 1) (islandCenterY 0 0 4694 1) 9
        (islandShape 0 0 4694 1) 4794 a) + 100
      < sqrt ((230 - islandCenterX 0 0 4694 1) * (230 - islandCenterX 0 0 4694 1)
          + (510 - islandCenterY 0 0 4694 1) * (510 - islandCenterY 0 0 4694 1))"
  proof -
    have "231 \<le> sqrt ((230 - islandCenterX 0 0 4694 1) * (230 - islandCenterX 0 0 4694 1)
          + (510 - islandCenterY 0 0 4694 1) * (510 - islandCenterY 0 0 4694 1))"
      by (rule dist_lower [where a = 231 and b = 0]) (use islandCenters_4694 in simp_all)
    then show ?thesis
      by (simp add: TILE_SIZE_def SPRITE_TILE_SIZE_def GAME_SCALE_def)
  qed
  have "farFromIslands (generateIslandsForChunk 0 0 4694 a) (patchGlobalX 0 0 4694 2)
      (patchGlobalY 0 0 4694 2)"
    using 0 1 by (simp add: farFromIslands_def islands_4694 patchGlobal_4694_2 Let_def)
  then show ?thesis
    by (simp add: acceptedPatches_def patchCount_4694)
qed






section \<open>Chunk (0, 0) at seed 5292\<close>

text \<open>
  For the seed \<open>5292\<close> the chunk draws three cloud slots. Slot 0 is accepted at once; the
  first draw of slot 1 overlaps the cloud of slot 0 and the second draw is accepted; all ten
  draws of slot 2 overlap the cloud of slot 0, and the slot is given up.
\<close>

lemma cloudCount_5292: "cloudCount 0 0 5292 = 3"
proof -
  have "\<lfloor>seededRandom 0 0 12292 * 3\<rfloor> = 2"
    by (rule floor_unique) (use rnd_12292 in simp_all)
  then show ?thesis by (simp add: cloudCount_def)
qed

lemma cloudRadius_5292:
  "cloudRadius 0 0 5292 0 0 = 73"
  "cloudRadius 0 0 5292 1 0 = 40"
  "cloudRadius 0 0 5292 1 1 = 11"
  "cloudRadius 0 0 5292 2 0 = 66"
  "cloudRadius 0 0 5292 2 1 = 36"
  "cloudRadius 0 0 5292 2 2 = 34"
  "cloudRadius 0 0 5292 2 3 = 57"
  "cloudRadius 0 0 5292 2 4 = 47"
  "cloudRadius 0 0 5292 2 5 = 31"
  "cloudRadius 0 0 5292 2 6 = 26"
  "cloudRadius 0 0 5292 2 7 = 31"
  "cloudRadius 0 0 5292 2 8 = 58"
  "cloudRadius 0 0 5292 2 9 = 1"
proof -
  have "\<lfloor>seededRandom 0 0 13294 * 100\<rfloor> = 72"
    by (rule floor_unique) (use rnd_13294 in simp_all)
  then show "cloudRadius 0 0 5292 0 0 = 73" by (simp add: cloudRadius_def)
  have "\<lfloor>seededRandom 0 0 13299 * 100\<rfloor> = 39"
    by (rule floor_unique) (use rnd_13299 in simp_all)
  then show "cloudRadius 0 0 5292 1 0 = 40" by (simp add: cloudRadius_def)
  have "\<lfloor>seededRandom 0 0 13300 * 100\<rfloor> = 10"
    by (rule floor_unique) (use rnd_13300 in simp_all)
  then show "cloudRadius 0 0 5292 1 1 = 11" by (simp add: cloudRadius_def)
  have "\<lfloor>seededRandom 0 0 13304 * 100\<rfloor> = 65"
    by (rule floor_unique) (use rnd_13304 in simp_all)
  then show "cloudRadius 0 0 5292 2 0 = 66" by (simp add: cloudRadius_def)
  have "\<lfloor>seededRandom 0 0 13305 * 100\<rfloor> = 35"
    by (rule floor_unique) (use rnd_13305 in simp_all)
  then show "cloudRadius 0 0 5292 2 1 = 36" by (simp add: cloudRadius_def)
  have "\<lfloor>seededRandom 0 0 13306 * 100\<rfloor> = 33"
    by (rule floor_unique) (use rnd_13306 in simp_all)
  then show "cloudRadius 0 0 5292 2 2 = 34" by (simp add: cloudRadius_def)
  have "\<lfloor>seededRandom 0 0 13307 * 100\<rfloor> = 56"
    by (rule floor_unique) (use rnd_13307 in simp_all)
  then show "cloudRadius 0 0 5292 2 3 = 57" by (simp add: cloudRadius_def)
  have "\<lfloor>seededRandom 0 0 13308 * 100\<rfloor> = 46"
    by (rule floor_unique) (use rnd_13308 in simp_all)
  then show "cloudRadius 0 0 5292 2 4 = 47" by (simp add: cloudRadius_def)
  have "\<lfloor>seededRandom 0 0 13309 * 100\<rfloor> = 30"
    by (rule floor_unique) (use rnd_13309 in simp_all)
  then show "cloudRadius 0 0 5292 2 5 = 31" by (simp add: cloudRadius_def)
  have "\<lfloor>seededRandom 0 0 13310 * 100\<rfloor> = 25"
    by (rule floor_unique) (use rnd_13310 in simp_all)
  then show "cloudRadius 0 0 5292 2 6 = 26" by (simp add: cloudRadius_def)
  have "\<lfloor>seededRandom 0 0 13311 * 100\<rfloor> = 30"
    by (rule floor_unique) (use rnd_13311 in simp_all)
  then show "cloudRadius 0 0 5292 2 7 = 31" by (simp add: cloudRadius_def)
  have "\<lfloor>seededRandom 0 0 13312 * 100\<rfloor> = 57"
    by (rule floor_unique) (use rnd_13312 in simp_all)
  then show "cloudRadius 0 0 5292 2 8 = 58" by (simp add: cloudRadius_def)
  have "\<lfloor>seededRandom 0 0 13313 * 100\<rfloor> = 0"
    by (rule floor_unique) (use rnd_13313 in simp_all)
  then show "cloudRadius 0 0 5292 2 9 = 1" by (simp add: cloudRadius_def)
qed

lemma cloudCenter_5292_0_0:
  "176.207 \<le> cloudCenterX 0 0 5292 0 0 \<and> cloudCenterX 0 0 5292 0 0 \<le> 176.208"
  "232.751 \<le> cloudCenterY 0 0 5292 0 0 \<and> cloudCenterY 0 0 5292 0 0 \<le> 232.752"
  using rnd_13292 rnd_13293
  by (simp_all add: cloudCenterX_def cloudCenterY_def CHUNK_SIZE_def TILE_SIZE_def
      SPRITE_TILE_SIZE_def GAME_SCALE_def)

lemma cloudCenter_5292_1_0:
  "294.309 \<le> cloudCenterX 0 0 5292 1 0 \<and> cloudCenterX 0 0 5292 1 0 \<le> 294.311"
  "457.526 \<le> cloudCenterY 0 0 5292 1 0 \<and> cloudCenterY 0 0 5292 1 0 \<le> 457.527"
  using rnd_13297 rnd_13298
  by (simp_all add: cloudCenterX_def cloudCenterY_def CHUNK_SIZE_def TILE_SIZE_def
      SPRITE_TILE_SIZE_def GAME_SCALE_def)

lemma cloudCenter_5292_1_1:
  "457.526 \<le> cloudCenterX 0 0 5292 1 1 \<and> cloudCenterX 0 0 5292 1 1 \<le> 457.527"
  "252.452 \<le> cloudCenterY 0 0 5292 1 1 \<and> cloudCenterY 0 0 5292 1 1 \<le> 252.453"
  using rnd_13298 rnd_13299
  by (simp_all add: cloudCenterX_def cloudCenterY_def CHUNK_SIZE_def TILE_SIZE_def
      SPRITE_TILE_SIZE_def GAME_SCALE_def)

lemma cloudCenter_5292_2_0:
  "195.367 \<le> cloudCenterX 0 0 5292 2 0 \<and> cloudCenterX 0 0 5292 2 0 \<le> 195.369"
  "315.172 \<le> cloudCenterY 0 0 5292 2 0 \<and> cloudCenterY 0 0 5292 2 0 \<le> 315.173"
  using rnd_13302 rnd_13303
  by (simp_all add: cloudCenterX_def cloudCenterY_def CHUNK_SIZE_def TILE_SIZE_def
      SPRITE_TILE_SIZE_def GAME_SCALE_def)

lemma cloudCenter_5292_2_1:
  "315.172 \<le> cloudCenterX 0 0 5292 2 1 \<and> cloudCenterX 0 0 5292 2 1 \<le> 315.173"
  "416.598 \<le> cloudCenterY 0 0 5292 2 1 \<and> cloudCenterY 0 0 5292 2 1 \<le> 416.600"
  using rnd_13303 rnd_13304
  by (simp_all add: cloudCenterX_def cloudCenterY_def CHUNK_SIZE_def TILE_SIZE_def
      SPRITE_TILE_SIZE_def GAME_SCALE_def)

lemma cloudCenter_5292_2_2:
  "416.598 \<le> cloudCenterX 0 0 5292 2 2 \<and> cloudCenterX 0 0 5292 2 2 \<le> 416.600"
  "226.591 \<le> cloudCenterY 0 0 5292 2 2 \<and> cloudCenterY 0 0 5292 2 2 \<le> 226.593"
  using rnd_13304 rnd_13305
  by (simp_all add: cloudCenterX_def cloudCenterY_def CHUNK_SIZE_def TILE_SIZE_def
      SPRITE_TILE_SIZE_def GAME_SCALE_def)

lemma cloudCenter_5292_2_3:
  "226.591 \<le> cloudCenterX 0 0 5292 2 3 \<and> cloudCenterX 0 0 5292 2 3 \<le> 226.593"
  "212.789 \<le> cloudCenterY 0 0 5292 2 3 \<and> cloudCenterY 0 0 5292 2 3 \<le> 212.791"
  using rnd_13305 rnd_13306
  by (simp_all add: cloudCenterX_def cloudCenterY_def CHUNK_SIZE_def TILE_SIZE_def
      SPRITE_TILE_SIZE_def GAME_SCALE_def)

lemma cloudCenter_5292_2_4:
  "212.789 \<le> cloudCenterX 0 0 5292 2 4 \<and> cloudCenterX 0 0 5292 2 4 \<le> 212.791"
  "359.107 \<le> cloudCenterY 0 0 5292 2 4 \<and> cloudCenterY 0 0 5292 2 4 \<le> 359.108"
  using rnd_13306 rnd_13307
  by (simp_all add: cloudCenterX_def cloudCenterY_def CHUNK_SIZE_def TILE_SIZE_def
      SPRITE_TILE_SIZE_def GAME_SCALE_def)

lemma cloudCenter_5292_2_5:
  "359.107 \<le> cloudCenterX 0 0 5292 2 5 \<and> cloudCenterX 0 0 5292 2 5 \<le> 359.108"
  "297.853 \<le> cloudCenterY 0 0 5292 2 5 \<and> cloudCenterY 0 0 5292 2 5 \<le> 297.854"
  using rnd_13307 rnd_13308
  by (simp_all add: cloudCenterX_def cloudCenterY_def CHUNK_SIZE_def TILE_SIZE_def
      SPRITE_TILE_SIZE_def GAME_SCALE_def)

lemma cloudCenter_5292_2_6:
  "297.853 \<le> cloudCenterX 0 0 5292 2 6 \<and> cloudCenterX 0 0 5292 2 6 \<le> 297.854"
  "196.968 \<le> cloudCenterY 0 0 5292 2 6 \<and> cloudCenterY 0 0 5292 2 6 \<le> 196.969"
  using rnd_13308 rnd_13309
  by (simp_all add: cloudCenterX_def cloudCenterY_def CHUNK_SIZE_def TILE_SIZE_def
      SPRITE_TILE_SIZE_def GAME_SCALE_def)

lemma cloudCenter_5292_2_7:
  "196.968 \<le> cloudCenterX 0 0 5292 2 7 \<and> cloudCenterX 0 0 5292 2 7 \<le> 196.969"
  "162.068 \<le> cloudCenterY 0 0 5292 2 7 \<and> cloudCenterY 0 0 5292 2 7 \<le> 162.070"
  using rnd_13309 rnd_13310
  by (simp_all add: cloudCenterX_def cloudCenterY_def CHUNK_SIZE_def TILE_SIZE_def
      SPRITE_TILE_SIZE_def GAME_SCALE_def)

lemma cloudCenter_5292_2_8:
  "162.068 \<le> cloudCenterX 0 0 5292 2 8 \<and> cloudCenterX 0 0 5292 2 8 \<le> 162.070"
  "194.314 \<le> cloudCenterY 0 0 5292 2 8 \<and> cloudCenterY 0 0 5292 2 8 \<le> 194.315"
  using rnd_13310 rnd_13311
  by (simp_all add: cloudCenterX_def cloudCenterY_def CHUNK_SIZE_def TILE_SIZE_def
      SPRITE_TILE_SIZE_def GAME_SCALE_def)

lemma cloudCenter_5292_2_9:
  "194.314 \<le> cloudCenterX 0 0 5292 2 9 \<and> cloudCenterX 0 0 5292 2 9 \<le> 194.315"
  "366.945 \<le> cloudCenterY 0 0 5292 2 9 \<and> cloudCenterY 0 0 5292 2 9 \<le> 366.946"
  using rnd_13311 rnd_13312
  by (simp_all add: cloudCenterX_def cloudCenterY_def CHUNK_SIZE_def TILE_SIZE_def
      SPRITE_TILE_SIZE_def GAME_SCALE_def)

lemma near_5292_1_0:
  "sqrt ((cloudCenterX 0 0 5292 1 0 - cloudCenterX 0 0 5292 0 0)
          * (cloudCenterX 0 0 5292 1 0 - cloudCenterX 0 0 5292 0 0)
        + (cloudCenterY 0 0 5292 1 0 - cloudCenterY 0 0 5292 0 0)
          * (cloudCenterY 0 0 5292 1 0 - cloudCenterY 0 0 5292 0 0))
     < 263"
  by (rule dist_upper [where a = "118.11" and b = "224.78"])
    (use cloudCenter_5292_1_0 cloudCenter_5292_0_0 in simp_all)

lemma far_5292_1_1:
  "234 \<le> sqrt ((cloudCenterX 0 0 5292 1 1 - cloudCenterX 0 0 5292 0 0)
          * (cloudCenterX 0 0 5292 1 1 - cloudCenterX 0 0 5292 0 0)
        + (cloudCenterY 0 0 5292 1 1 - cloudCenterY 0 0 5292 0 0)
          * (cloudCenterY 0 0 5292 1 1 - cloudCenterY 0 0 5292 0 0))"
  by (rule dist_lower [where a = "281.31" and b = "19.70"])
    (use cloudCenter_5292_1_1 cloudCenter_5292_0_0 in simp_all)

lemma near_5292_2_0:
  "sqrt ((cloudCenterX 0 0 5292 2 0 - cloudCenterX 0 0 5292 0 0)
          * (cloudCenterX 0 0 5292 2 0 - cloudCenterX 0 0 5292 0 0)
        + (cloudCenterY 0 0 5292 2 0 - cloudCenterY 0 0 5292 0 0)
          * (cloudCenterY 0 0 5292 2 0 - cloudCenterY 0 0 5292 0 0))
     < 289"
  by (rule dist_upper [where a = "19.17" and b = "82.43"])
    (use cloudCenter_5292_2_0 cloudCenter_5292_0_0 in simp_all)

lemma near_5292_2_1:
  "sqrt ((cloudCenterX 0 0 5292 2 1 - cloudCenterX 0 0 5292 0 0)
          * (cloudCenterX 0 0 5292 2 1 - cloudCenterX 0 0 5292 0 0)
        + (cloudCenterY 0 0 5292 2 1 - cloudCenterY 0 0 5292 0 0)
          * (cloudCenterY 0 0 5292 2 1 - cloudCenterY 0 0 5292 0 0))
     < 259"
  by (rule dist_upper [where a = "138.97" and b = "183.85"])
    (use cloudCenter_5292_2_1 cloudCenter_5292_0_0 in simp_all)

lemma near_5292_2_2:
  "sqrt ((cloudCenterX 0 0 5292 2 2 - cloudCenterX 0 0 5292 0 0)
          * (cloudCenterX 0 0 5292 2 2 - cloudCenterX 0 0 5292 0 0)
        + (cloudCenterY 0 0 5292 2 2 - cloudCenterY 0 0 5292 0 0)
          * (cloudCenterY 0 0 5292 2 2 - cloudCenterY 0 0 5292 0 0))
     < 257"
  by (rule dist_upper [where a = "240.40" and b = "6.17"])
    (use cloudCenter_5292_2_2 cloudCenter_5292_0_0 in simp_all)

lemma near_5292_2_3:
  "sqrt ((cloudCenterX 0 0 5292 2 3 - cloudCenterX 0 0 5292 0 0)
          * (cloudCenterX 0 0 5292 2 3 - cloudCenterX 0 0 5292 0 0)
        + (cloudCenterY 0 0 5292 2 3 - cloudCenterY 0 0 5292 0 0)
          * (cloudCenterY 0 0 5292 2 3 - cloudCenterY 0 0 5292 0 0))
     < 280"
  by (rule dist_upper [where a = "50.39" and b = "19.97"])
    (use cloudCenter_5292_2_3 cloudCenter_5292_0_0 in simp_all)

lemma near_5292_2_4:
  "sqrt ((cloudCenterX 0 0 5292 2 4 - cloudCenterX 0 0 5292 0 0)
          * (cloudCenterX 0 0 5292 2 4 - cloudCenterX 0 0 5292 0 0)
        + (cloudCenterY 0 0 5292 2 4 - cloudCenterY 0 0 5292 0 0)
          * (cloudCenterY 0 0 5292 2 4 - cloudCenterY 0 0 5292 0 0))
     < 270"
  by (rule dist_upper [where a = "36.59" and b = "126.36"])
    (use cloudCenter_5292_2_4 cloudCenter_5292_0_0 in simp_all)

lemma near_5292_2_5:
  "sqrt ((cloudCenterX 0 0 5292 2 5 - cloudCenterX 0 0 5292 0 0)
          * (cloudCenterX 0 0 5292 2 5 - cloudCenterX 0 0 5292 0 0)
        + (cloudCenterY 0 0 5292 2 5 - cloudCenterY 0 0 5292 0 0)
          * (cloudCenterY 0 0 5292 2 5 - cloudCenterY 0 0 5292 0 0))
     < 254"
  by (rule dist_upper [where a = "182.91" and b = "65.11"])
    (use cloudCenter_5292_2_5 cloudCenter_5292_0_0 in simp_all)

lemma near_5292_2_6:
  "sqrt ((cloudCenterX 0 0 5292 2 6 - cloudCenterX 0 0 5292 0 0)
          * (cloudCenterX 0 0 5292 2 6 - cloudCenterX 0 0 5292 0 0)
        + (cloudCenterY 0 0 5292 2 6 - cloudCenterY 0 0 5292 0 0)
          * (cloudCenterY 0 0 5292 2 6 - cloudCenterY 0 0 5292 0 0))
     < 249"
  by (rule dist_upper [where a = "121.65" and b = "35.79"])
    (use cloudCenter_5292_2_6 cloudCenter_5292_0_0 in simp_all)

lemma near_5292_2_7:
  "sqrt ((cloudCenterX 0 0 5292 2 7 - cloudCenterX 0 0 5292 0 0)
          * (cloudCenterX 0 0 5292 2 7 - cloudCenterX 0 0 5292 0 0)
        + (cloudCenterY 0 0 5292 2 7 - cloudCenterY 0 0 5292 0 0)
          * (cloudCenterY 0 0 5292 2 7 - cloudCenterY 0 0 5292 0 0))
     < 254"
  by (rule dist_upper [where a = "20.77" and b = "70.69"])
    (use cloudCenter_5292_2_7 cloudCenter_5292_0_0 in simp_all)

lemma near_5292_2_8:
  "sqrt ((cloudCenterX 0 0 5292 2 8 - cloudCenterX 0 0 5292 0 0)
          * (cloudCenterX 0 0 5292 2 8 - cloudCenterX 0 0 5292 0 0)
        + (cloudCenterY 0 0 5292 2 8 - cloudCenterY 0 0 5292 0 0)
          * (cloudCenterY 0 0 5292 2 8 - cloudCenterY 0 0 5292 0 0))
     < 281"
  by (rule dist_upper [where a = "14.14" and b = "38.44"])
    (use cloudCenter_5292_2_8 cloudCenter_5292_0_0 in simp_all)

lemma near_5292_2_9:
  "sqrt ((cloudCenterX 0 0 5292 2 9 - cloudCenterX 0 0 5292 0 0)
          * (cloudCenterX 0 0 5292 2 9 - cloudCenterX 0 0 5292 0 0)
        + (cloudCenterY 0 0 5292 2 9 - cloudCenterY 0 0 5292 0 0)
          * (cloudCenterY 0 0 5292 2 9 - cloudCenterY 0 0 5292 0 0))
     < 224"
  by (rule dist_upper [where a = "18.11" and b = "134.20"])
    (use cloudCenter_5292_2_9 cloudCenter_5292_0_0 in simp_all)

lemma clouds_5292:
  fixes a :: "'tex AssetDictionary"
  shows "cloudsBefore gameProps 0 0 5292 a 1 =
     [buildCloudFormation gameProps ''0,0,0'' (cloudCenterX 0 0 5292 0 0)
        (cloudCenterY 0 0 5292 0 0) 73 5292 a]"
  and "cloudsBefore gameProps 0 0 5292 a 2 =
     [buildCloudFormation gameProps ''0,0,0'' (cloudCenterX 0 0 5292 0 0)
        (cloudCenterY 0 0 5292 0 0) 73 5292 a,
      buildCloudFormation gameProps ''0,0,1'' (cloudCenterX 0 0 5292 1 1)
        (cloudCenterY 0 0 5292 1 1) 11 5342 a]"
  and "cloudsBefore gameProps 0 0 5292 a 3 =
     [buildCloudFormation gameProps ''0,0,0'' (cloudCenterX 0 0 5292 0 0)
        (cloudCenterY 0 0 5292 0 0) 73 5292 a,
      buildCloudFormation gameProps ''0,0,1'' (cloudCenterX 0 0 5292 1 1)
        (cloudCenterY 0 0 5292 1 1) 11 5342 a]"
  and "cloudAttempts gameProps 0 0 5292 a 0 = 1"
  and "cloudAttempts gameProps 0 0 5292 a 1 = 2"
  and "cloudAttempts gameProps 0 0 5292 a 2 = 10"
proof -
  let ?c0 = "buildCloudFormation gameProps ''0,0,0'' (cloudCenterX 0 0 5292 0 0)
        (cloudCenterY 0 0 5292 0 0) 73 5292 a"
  let ?c1 = "buildCloudFormation gameProps ''0,0,1'' (cloudCenterX 0 0 5292 1 1)
        (cloudCenterY 0 0 5292 1 1) 11 5342 a"
  have keys: "string_of_int 0 = ''0''" "string_of_int 1 = ''1''"
    by (simp_all add: string_of_int_def string_of_nat.simps digit_char_def)
  have cs: "CLOUD_SIZE gameProps = 1" by (simp add: gameProps_def)
  have no0: "\<not> checkOverlap gameProps [] x y r" for x y r
    by (simp add: checkOverlap_def)
  have ov10: "checkOverlap gameProps [?c0] (cloudCenterX 0 0 5292 1 0) (cloudCenterY 0 0 5292 1 0) 40"
    using near_5292_1_0 by (simp add: checkOverlap_iff cs)
  have no11: "\<not> checkOverlap gameProps [?c0] (cloudCenterX 0 0 5292 1 1) (cloudCenterY 0 0 5292 1 1) 11"
    using far_5292_1_1 by (simp add: not_checkOverlap_iff cs)
  have ov20: "checkOverlap gameProps [?c0, ?c1] (cloudCenterX 0 0 5292 2 0) (cloudCenterY 0 0 5292 2 0) 66"
    using near_5292_2_0 by (simp add: checkOverlap_iff cs)
  have ov21: "checkOverlap gameProps [?c0, ?c1] (cloudCenterX 0 0 5292 2 1) (cloudCenterY 0 0 5292 2 1) 36"
    using near_5292_2_1 by (simp add: checkOverlap_iff cs)
  have ov22: "checkOverlap gameProps [?c0, ?c1] (cloudCenterX 0 0 5292 2 2) (cloudCenterY 0 0 5292 2 2) 34"
    using near_5292_2_2 by (simp add: checkOverlap_iff cs)
  have ov23: "checkOverlap gameProps [?c0, ?c1] (cloudCenterX 0 0 5292 2 3) (cloudCenterY 0 0 5292 2 3) 57"
    using near_5292_2_3 by (simp add: checkOverlap_iff cs)
  have ov24: "checkOverlap gameProps [?c0, ?c1] (cloudCenterX 0 0 5292 2 4) (cloudCenterY 0 0 5292 2 4) 47"
    using near_5292_2_4 by (simp add: checkOverlap_iff cs)
  have ov25: "checkOverlap gameProps [?c0, ?c1] (cloudCenterX 0 0 5292 2 5) (cloudCenterY 0 0 5292 2 5) 31"
    using near_5292_2_5 by (simp add: checkOverlap_iff cs)
  have ov26: "checkOverlap gameProps [?c0, ?c1] (cloudCenterX 0 0 5292 2 6) (cloudCenterY 0 0 5292 2 6) 26"
    using near_5292_2_6 by (simp add: checkOverlap_iff cs)
  have ov27: "checkOverlap gameProps [?c0, ?c1] (cloudCenterX 0 0 5292 2 7) (cloudCenterY 0 0 5292 2 7) 31"
    using near_5292_2_7 by (simp add: checkOverlap_iff cs)
  have ov28: "checkOverlap gameProps [?c0, ?c1] (cloudCenterX 0 0 5292 2 8) (cloudCenterY 0 0 5292 2 8) 58"
    using near_5292_2_8 by (simp add: checkOverlap_iff cs)
  have ov29: "checkOverlap gameProps [?c0, ?c1] (cloudCenterX 0 0 5292 2 9) (cloudCenterY 0 0 5292 2 9) 1"
    using near_5292_2_9 by (simp add: checkOverlap_iff cs)
  have a0: "cloudAttempt_loop gameProps 0 0 5292 [] 0 0
      = (cloudCenterX 0 0 5292 0 0, cloudCenterY 0 0 5292 0 0, 73, 1)"
    by (simp add: cloudAttempt_loop.simps [of gameProps 0 0 5292 "[]" 0 0] no0 cloudRadius_5292)
  have a11: "cloudAttempt_loop gameProps 0 0 5292 [?c0] 1 1
      = (cloudCenterX 0 0 5292 1 1, cloudCenterY 0 0 5292 1 1, 11, 2)"
    using no11
    by (simp add: cloudAttempt_loop.simps [of gameProps 0 0 5292 "[?c0]" 1 1] cloudRadius_5292)
  have a10: "cloudAttempt_loop gameProps 0 0 5292 [?c0] 1 0
      = (cloudCenterX 0 0 5292 1 1, cloudCenterY 0 0 5292 1 1, 11, 2)"
    using ov10 a11
    by (simp add: cloudAttempt_loop.simps [of gameProps 0 0 5292 "[?c0]" 1 0] cloudRadius_5292
        maxAttempts_def)
  have a29: "cloudAttempt_loop gameProps 0 0 5292 [?c0, ?c1] 2 9
      = (cloudCenterX 0 0 5292 2 9, cloudCenterY 0 0 5292 2 9, 1, 10)"
    by (simp add: cloudAttempt_loop.simps [of gameProps 0 0 5292 "[?c0, ?c1]" 2 9] cloudRadius_5292
        maxAttempts_def)
  have a28: "cloudAttempt_loop gameProps 0 0 5292 [?c0, ?c1] 2 8
      = (cloudCenterX 0 0 5292 2 9, cloudCenterY 0 0 5292 2 9, 1, 10)"
    using ov28 a29
    by (simp add: cloudAttempt_loop.simps [of gameProps 0 0 5292 "[?c0, ?c1]" 2 8] cloudRadius_5292
        maxAttempts_def)
  have a27: "cloudAttempt_loop gameProps 0 0 5292 [?c0, ?c1] 2 7
      = (cloudCenterX 0 0 5292 2 9, cloudCenterY 0 0 5292 2 9, 1, 10)"
    using ov27 a28
    by (simp add: cloudAttempt_loop.simps [of gameProps 0 0 5292 "[?c0, ?c1]" 2 7] cloudRadius_5292
        maxAttempts_def)
  have a26: "cloudAttempt_loop gameProps 0 0 5292 [?c0, ?c1] 2 6
      = (cloudCenterX 0 0 5292 2 9, cloudCenterY 0 0 5292 2 9, 1, 10)"
    using ov26 a27
    by (simp add: cloudAttempt_loop.simps [of gameProps 0 0 5292 "[?c0, ?c1]" 2 6] cloudRadius_5292
        maxAttempts_def)
  have a25: "cloudAttempt_loop gameProps 0 0 5292 [?c0, ?c1] 2 5
      = (cloudCenterX 0 0 5292 2 9, cloudCenterY 0 0 5292 2 9, 1, 10)"
    using ov25 a26
    by (simp add: cloudAttempt_loop.simps [of gameProps 0 0 5292 "[?c0, ?c1]" 2 5] cloudRadius_5292
        maxAttempts_def)
  have a24: "cloudAttempt_loop gameProps 0 0 5292 [?c0, ?c1] 2 4
      = (cloudCenterX 0 0 5292 2 9, cloudCenterY 0 0 5292 2 9, 1, 10)"
    using ov24 a25
    by (simp add: cloudAttempt_loop.simps [of gameProps 0 0 5292 "[?c0, ?c1]" 2 4] cloudRadius_5292
        maxAttempts_def)
  have a23: "cloudAttempt_loop gameProps 0 0 5292 [?c0, ?c1] 2 3
      = (cloudCenterX 0 0 5292 2 9, cloudCenterY 0 0 5292 2 9, 1, 10)"
    using ov23 a24
    by (simp add: cloudAttempt_loop.simps [of gameProps 0 0 5292 "[?c0, ?c1]" 2 3] cloudRadius_5292
        maxAttempts_def)
  have a22: "cloudAttempt_loop gameProps 0 0 5292 [?c0, ?c1] 2 2
      = (cloudCenterX 0 0 5292 2 9, cloudCenterY 0 0 5292 2 9, 1, 10)"
    using ov22 a23
    by (simp add: cloudAttempt_loop.simps [of gameProps 0 0 5292 "[?c0, ?c1]" 2 2] cloudRadius_5292
        maxAttempts_def)
  have a21: "cloudAttempt_loop gameProps 0 0 5292 [?c0, ?c1] 2 1
      = (cloudCenterX 0 0 5292 2 9, cloudCenterY 0 0 5292 2 9, 1, 10)"
    using ov21 a22
    by (simp add: cloudAttempt_loop.simps [of gameProps 0 0 5292 "[?c0, ?c1]" 2 1] cloudRadius_5292
        maxAttempts_def)
  have a20: "cloudAttempt_loop gameProps 0 0 5292 [?c0, ?c1] 2 0
      = (cloudCenterX 0 0 5292 2 9, cloudCenterY 0 0 5292 2 9, 1, 10)"
    using ov20 a21
    by (simp add: cloudAttempt_loop.simps [of gameProps 0 0 5292 "[?c0, ?c1]" 2 0] cloudRadius_5292
        maxAttempts_def)
  show b1: "cloudsBefore gameProps 0 0 5292 a 1 = [?c0]"
    using cloudsBefore_Suc [of 0 gameProps 0 0 5292 a]
    by (simp add: cloudsBefore_0 a0 no0 keys)
  show b2: "cloudsBefore gameProps 0 0 5292 a 2 = [?c0, ?c1]"
    using cloudsBefore_Suc [of 1 gameProps 0 0 5292 a] no11
    by (simp add: b1 a10 keys)
  show b3: "cloudsBefore gameProps 0 0 5292 a 3 = [?c0, ?c1]"
    using cloudsBefore_Suc [of 2 gameProps 0 0 5292 a] ov29
    by (simp add: b2 a20 maxAttempts_def)
  show "cloudAttempts gameProps 0 0 5292 a 0 = 1"
    by (simp add: cloudAttempts_def cloudsBefore_0 a0)
  show "cloudAttempts gameProps 0 0 5292 a 1 = 2"
    by (simp add: cloudAttempts_def b1 a10)
  show "cloudAttempts gameProps 0 0 5292 a 2 = 10"
    by (simp add: cloudAttempts_def b2 a20)
qed

section \<open>Properties of chunk generation\<close>




text \<open>
  C2, at a failing input. For the seed 4694, chunk \<open>(0, 0)\<close> holds two islands, of base radius 14
  and 9 tiles, that is 140 and 90 pixels. Their centres are less than 399 pixels apart, while
  the sum of the two estimated radii and the margin is \<open>1.8 \<sqdot> 140 + 1.8 \<sqdot> 90 + 50 = 464\<close>.
  The generator accepts the second island because it compares the distance with
  \<open>1.8 \<sqdot> 90 + 140 + 50 = 352\<close>: the radius of the existing island enters without the factor
  (lemma \<open>islands_spacing\<close> is what the test guarantees in general).
\<close>

theorem islands_4694_within_estimated_radii:
  "length (islands (generateChunk gameProps 0 0 4694 spriteNames)) = 2
   \<and> Island.radius (islands (generateChunk gameProps 0 0 4694 spriteNames) ! 0) = 140
   \<and> Island.radius (islands (generateChunk gameProps 0 0 4694 spriteNames) ! 1) = 90
   \<and> sqrt ((Island.centerX (islands (generateChunk gameProps 0 0 4694 spriteNames) ! 1)
             - Island.centerX (islands (generateChunk gameProps 0 0 4694 spriteNames) ! 0))\<^sup>2
          + (Island.centerY (islands (generateChunk gameProps 0 0 4694 spriteNames) ! 1)
             - Island.centerY (islands (generateChunk gameProps 0 0 4694 spriteNames) ! 0))\<^sup>2)
       < 399
   \<and> \<not> (1.8 * Island.radius (islands (generateChunk gameProps 0 0 4694 spriteNames) ! 0)
          + 1.8 * Island.radius (islands (generateChunk gameProps 0 0 4694 spriteNames) ! 1) + 50
        \<le> sqrt ((Island.centerX (islands (generateChunk gameProps 0 0 4694 spriteNames) ! 1)
             - Island.centerX (islands (generateChunk gameProps 0 0 4694 spriteNames) ! 0))\<^sup>2
          + (Island.centerY (islands (generateChunk gameProps 0 0 4694 spriteNames) ! 1)
             - Island.centerY (islands (generateChunk gameProps 0 0 4694 spriteNames) ! 0))\<^sup>2))"
  using islands_4694_distance(2)
  by (simp add: islands_4694 power2_eq_square TILE_SIZE_def SPRITE_TILE_SIZE_def GAME_SCALE_def)

text \<open>
  C3. The patch points of a generated chunk are the tiles of those candidates
  \<open>0, \<dots>, patchCount - 1\<close> that pass the clearance test, in order: a candidate that fails the
  test contributes nothing and is not drawn again. Every accepted candidate has its centre
  farther than \<open>radius + 100\<close> pixels from the centre of every island of the chunk.
\<close>

theorem deepOceanPatches_clearance:
  "deepOceanPatches (generateChunk gp cx cy sd a)
     = concat (map (patchTiles cx cy sd)
         (acceptedPatches cx cy sd (islands (generateChunk gp cx cy sd a))))
   \<and> (\<forall>i \<in> set (acceptedPatches cx cy sd (islands (generateChunk gp cx cy sd a))).
        0 \<le> i \<and> i < patchCount cx cy sd
        \<and> (\<forall>island \<in> set (islands (generateChunk gp cx cy sd a)).
              Island.radius island + 100
                < sqrt ((patchGlobalX cx cy sd i - Island.centerX island)\<^sup>2
                      + (patchGlobalY cx cy sd i - Island.centerY island)\<^sup>2)))"
proof -
  have "0 \<le> i \<and> i < patchCount cx cy sd" if "i \<in> set (acceptedPatches cx cy sd isls)"
    for i and isls :: "'a Island list"
    using that by (auto simp: acceptedPatches_def)
  then show ?thesis
    by (auto simp: generateDeepOceanPatches_closed acceptedPatches_far)
qed

theorem deepOceanPatches_clearance_witness:
  "2 \<in> set (acceptedPatches 0 0 4694 (islands (generateChunk gameProps 0 0 4694 spriteNames)))
   \<and> islands (generateChunk gameProps 0 0 4694 spriteNames) ! 0
       \<in> set (islands (generateChunk gameProps 0 0 4694 spriteNames))
   \<and> Island.radius (islands (generateChunk gameProps 0 0 4694 spriteNames) ! 0) = 140
   \<and> patchGlobalX 0 0 4694 2 = 230 \<and> patchGlobalY 0 0 4694 2 = 510
   \<and> (240::real)
       < sqrt ((230 - Island.centerX (islands (generateChunk gameProps 0 0 4694 spriteNames) ! 0))\<^sup>2
             + (510 - Island.centerY (islands (generateChunk gameProps 0 0 4694 spriteNames) ! 0))\<^sup>2)"
proof -
  let ?isls = "islands (generateChunk gameProps 0 0 4694 spriteNames)"
  have acc: "2 \<in> set (acceptedPatches 0 0 4694 ?isls)"
    using acceptedPatches_4694 [of spriteNames] by simp
  have mem: "?isls ! 0 \<in> set ?isls" by (simp add: islands_4694)
  have rad: "Island.radius (?isls ! 0) = 140"
    by (simp add: islands_4694 TILE_SIZE_def SPRITE_TILE_SIZE_def GAME_SCALE_def)
  from deepOceanPatches_clearance [of gameProps 0 0 4694 spriteNames] acc mem
  have "Island.radius (?isls ! 0) + 100
      < sqrt ((patchGlobalX 0 0 4694 2 - Island.centerX (?isls ! 0))\<^sup>2
            + (patchGlobalY 0 0 4694 2 - Island.centerY (?isls ! 0))\<^sup>2)"
    by blast
  with acc mem rad show ?thesis by (simp add: patchGlobal_4694_2)
qed

text \<open>
  C4. With the configured module object, where \<^verbatim>\<open>CLOUD_SIZE\<close> is 1 and the buffer
  \<^verbatim>\<open>150 * CLOUD_SIZE\<close> is 150 pixels:

  \<^item> any two clouds of a generated chunk have their centres at least the sum of their radii,
    each scaled by \<^verbatim>\<open>CLOUD_SIZE\<close>, plus 150 pixels apart;

  \<^item> a chunk has between 1 and 3 cloud slots and holds at most one cloud per slot;

  \<^item> every slot \<open>i\<close> draws position and radius at least once and at most 10 times; every draw
    but the last overlaps a cloud accepted before the slot; if the last draw overlaps too,
    it is the tenth and the slot adds no cloud; otherwise the slot adds the cloud of its last
    draw.

  The clouds of the chunk are those accepted when all slots are done, starting from none.
\<close>

theorem clouds_do_not_overlap:
  "clouds (generateChunk gameProps cx cy sd a) = cloudsBefore gameProps cx cy sd a (cloudCount cx cy sd)
   \<and> cloudsBefore gameProps cx cy sd a 0 = []
   \<and> 1 \<le> cloudCount cx cy sd \<and> cloudCount cx cy sd \<le> 3
   \<and> length (clouds (generateChunk gameProps cx cy sd a)) \<le> nat (cloudCount cx cy sd)
   \<and> (\<forall>p q. p < q \<and> q < length (clouds (generateChunk gameProps cx cy sd a)) \<longrightarrow>
        CloudFormation.radius (clouds (generateChunk gameProps cx cy sd a) ! p) * CLOUD_SIZE gameProps
          + CloudFormation.radius (clouds (generateChunk gameProps cx cy sd a) ! q) * CLOUD_SIZE gameProps
          + 150
        \<le> sqrt ((CloudFormation.centerX (clouds (generateChunk gameProps cx cy sd a) ! q)
                  - CloudFormation.centerX (clouds (generateChunk gameProps cx cy sd a) ! p))\<^sup>2
               + (CloudFormation.centerY (clouds (generateChunk gameProps cx cy sd a) ! q)
                  - CloudFormation.centerY (clouds (generateChunk gameProps cx cy sd a) ! p))\<^sup>2))
   \<and> (\<forall>i. 0 \<le> i \<and> i < cloudCount cx cy sd \<longrightarrow>
        1 \<le> cloudAttempts gameProps cx cy sd a i \<and> cloudAttempts gameProps cx cy sd a i \<le> 10
        \<and> (\<forall>k. 0 \<le> k \<and> k < cloudAttempts gameProps cx cy sd a i - 1 \<longrightarrow>
              checkOverlap gameProps (cloudsBefore gameProps cx cy sd a i) (cloudCenterX cx cy sd i k)
                (cloudCenterY cx cy sd i k) (of_int (cloudRadius cx cy sd i k)))
        \<and> (if checkOverlap gameProps (cloudsBefore gameProps cx cy sd a i)
                (cloudCenterX cx cy sd i (cloudAttempts gameProps cx cy sd a i - 1))
                (cloudCenterY cx cy sd i (cloudAttempts gameProps cx cy sd a i - 1))
                (of_int (cloudRadius cx cy sd i (cloudAttempts gameProps cx cy sd a i - 1)))
            then cloudAttempts gameProps cx cy sd a i = 10
              \<and> cloudsBefore gameProps cx cy sd a (i + 1) = cloudsBefore gameProps cx cy sd a i
            else cloudsBefore gameProps cx cy sd a (i + 1)
              = cloudsBefore gameProps cx cy sd a i @ [buildCloudFormation gameProps
                  (string_of_int cx @ '','' @ string_of_int cy @ '','' @ string_of_int i)
                  (cloudCenterX cx cy sd i (cloudAttempts gameProps cx cy sd a i - 1))
                  (cloudCenterY cx cy sd i (cloudAttempts gameProps cx cy sd a i - 1))
                  (of_int (cloudRadius cx cy sd i (cloudAttempts gameProps cx cy sd a i - 1)))
                  (sd + of_int i * 50) a]))"
proof -
  have cs: "CLOUD_SIZE gameProps = 1" by (simp add: gameProps_def)
  have len: "length (clouds (generateChunk gameProps cx cy sd a)) \<le> nat (cloudCount cx cy sd)"
    using generateClouds_loop_length [of gameProps cx cy sd a "cloudCount cx cy sd" 0 "[]"]
    by (simp add: generateCloudsForChunk_def)
  have spacing: "CloudFormation.radius (clouds (generateChunk gameProps cx cy sd a) ! p) * CLOUD_SIZE gameProps
          + CloudFormation.radius (clouds (generateChunk gameProps cx cy sd a) ! q) * CLOUD_SIZE gameProps
          + 150
        \<le> sqrt ((CloudFormation.centerX (clouds (generateChunk gameProps cx cy sd a) ! q)
                  - CloudFormation.centerX (clouds (generateChunk gameProps cx cy sd a) ! p))\<^sup>2
               + (CloudFormation.centerY (clouds (generateChunk gameProps cx cy sd a) ! q)
                  - CloudFormation.centerY (clouds (generateChunk gameProps cx cy sd a) ! p))\<^sup>2)"
    if "p < q \<and> q < length (clouds (generateChunk gameProps cx cy sd a))" for p q
    using clouds_spacing [of p q gameProps cx cy sd "generateIslandsForChunk cx cy sd a" a] that cs
    by simp
  show ?thesis
    apply (intro conjI allI impI)
    subgoal by (rule cloudsBefore_final)
    subgoal by (rule cloudsBefore_0)
    subgoal using cloudCount_range [of cx cy sd] by simp
    subgoal using cloudCount_range [of cx cy sd] by simp
    subgoal by (rule len)
    subgoal for p q by (rule spacing)
    subgoal for i using cloud_slot [of i gameProps cx cy sd a] by simp
    subgoal for i using cloud_slot [of i gameProps cx cy sd a] by simp
    subgoal for i k using cloud_slot [of i gameProps cx cy sd a] by simp
    subgoal for i using cloud_slot [of i gameProps cx cy sd a] by simp
    done
qed

theorem clouds_do_not_overlap_witness:
  "cloudCount 0 0 5292 = 3
   \<and> length (clouds (generateChunk gameProps 0 0 5292 spriteNames)) = 2
   \<and> CloudFormation.radius (clouds (generateChunk gameProps 0 0 5292 spriteNames) ! 0) = 73
   \<and> CloudFormation.radius (clouds (generateChunk gameProps 0 0 5292 spriteNames) ! 1) = 11
   \<and> 234
     \<le> sqrt ((CloudFormation.centerX (clouds (generateChunk gameProps 0 0 5292 spriteNames) ! 1)
              - CloudFormation.centerX (clouds (generateChunk gameProps 0 0 5292 spriteNames) ! 0))\<^sup>2
           + (CloudFormation.centerY (clouds (generateChunk gameProps 0 0 5292 spriteNames) ! 1)
              - CloudFormation.centerY (clouds (generateChunk gameProps 0 0 5292 spriteNames) ! 0))\<^sup>2)
   \<and> cloudAttempts gameProps 0 0 5292 spriteNames 1 = 2
   \<and> checkOverlap gameProps (cloudsBefore gameProps 0 0 5292 spriteNames 1)
        (cloudCenterX 0 0 5292 1 0) (cloudCenterY 0 0 5292 1 0) (of_int (cloudRadius 0 0 5292 1 0))
   \<and> \<not> checkOverlap gameProps (cloudsBefore gameProps 0 0 5292 spriteNames 1)
        (cloudCenterX 0 0 5292 1 1) (cloudCenterY 0 0 5292 1 1) (of_int (cloudRadius 0 0 5292 1 1))
   \<and> cloudsBefore gameProps 0 0 5292 spriteNames 2
       = cloudsBefore gameProps 0 0 5292 spriteNames 1
         @ [buildCloudFormation gameProps ''0,0,1'' (cloudCenterX 0 0 5292 1 1)
              (cloudCenterY 0 0 5292 1 1) 11 5342 spriteNames]
   \<and> cloudAttempts gameProps 0 0 5292 spriteNames 2 = 10
   \<and> checkOverlap gameProps (cloudsBefore gameProps 0 0 5292 spriteNames 2)
        (cloudCenterX 0 0 5292 2 8) (cloudCenterY 0 0 5292 2 8) (of_int (cloudRadius 0 0 5292 2 8))
   \<and> checkOverlap gameProps (cloudsBefore gameProps 0 0 5292 spriteNames 2)
        (cloudCenterX 0 0 5292 2 9) (cloudCenterY 0 0 5292 2 9) (of_int (cloudRadius 0 0 5292 2 9))
   \<and> cloudsBefore gameProps 0 0 5292 spriteNames 3 = cloudsBefore gameProps 0 0 5292 spriteNames 2"
proof -
  let ?cls = "clouds (generateChunk gameProps 0 0 5292 spriteNames)"
  note c4 = clouds_do_not_overlap [of 0 0 5292 spriteNames]
  note ev = clouds_5292 [of spriteNames]
  have cs: "CLOUD_SIZE gameProps = 1" by (simp add: gameProps_def)
  have keys: "string_of_int 0 = ''0''" "string_of_int 1 = ''1''"
    by (simp_all add: string_of_int_def string_of_nat.simps digit_char_def)
  from c4 have fin: "?cls = cloudsBefore gameProps 0 0 5292 spriteNames 3"
    by (simp add: cloudCount_5292)
  have len: "length ?cls = 2" unfolding fin ev(3) by simp
  have r: "CloudFormation.radius (?cls ! 0) = 73" "CloudFormation.radius (?cls ! 1) = 11"
    unfolding fin ev(3) by simp_all
  from c4 have "(0::nat) < 1 \<and> 1 < length ?cls \<longrightarrow>
      CloudFormation.radius (?cls ! 0) * CLOUD_SIZE gameProps
        + CloudFormation.radius (?cls ! 1) * CLOUD_SIZE gameProps + 150
      \<le> sqrt ((CloudFormation.centerX (?cls ! 1) - CloudFormation.centerX (?cls ! 0))\<^sup>2
             + (CloudFormation.centerY (?cls ! 1) - CloudFormation.centerY (?cls ! 0))\<^sup>2)"
    by blast
  with len have sp: "234
      \<le> sqrt ((CloudFormation.centerX (?cls ! 1) - CloudFormation.centerX (?cls ! 0))\<^sup>2
             + (CloudFormation.centerY (?cls ! 1) - CloudFormation.centerY (?cls ! 0))\<^sup>2)"
    unfolding r cs by simp
  from c4 have slot: "0 \<le> i \<and> i < cloudCount 0 0 5292 \<longrightarrow>
        (\<forall>k. 0 \<le> k \<and> k < cloudAttempts gameProps 0 0 5292 spriteNames i - 1 \<longrightarrow>
              checkOverlap gameProps (cloudsBefore gameProps 0 0 5292 spriteNames i)
                (cloudCenterX 0 0 5292 i k) (cloudCenterY 0 0 5292 i k)
                (of_int (cloudRadius 0 0 5292 i k)))
        \<and> (if checkOverlap gameProps (cloudsBefore gameProps 0 0 5292 spriteNames i)
                (cloudCenterX 0 0 5292 i (cloudAttempts gameProps 0 0 5292 spriteNames i - 1))
                (cloudCenterY 0 0 5292 i (cloudAttempts gameProps 0 0 5292 spriteNames i - 1))
                (of_int (cloudRadius 0 0 5292 i (cloudAttempts gameProps 0 0 5292 spriteNames i - 1)))
            then cloudAttempts gameProps 0 0 5292 spriteNames i = 10
              \<and> cloudsBefore gameProps 0 0 5292 spriteNames (i + 1)
                = cloudsBefore gameProps 0 0 5292 spriteNames i
            else cloudsBefore gameProps 0 0 5292 spriteNames (i + 1)
              = cloudsBefore gameProps 0 0 5292 spriteNames i @ [buildCloudFormation gameProps
                  (string_of_int 0 @ '','' @ string_of_int 0 @ '','' @ string_of_int i)
                  (cloudCenterX 0 0 5292 i (cloudAttempts gameProps 0 0 5292 spriteNames i - 1))
                  (cloudCenterY 0 0 5292 i (cloudAttempts gameProps 0 0 5292 spriteNames i - 1))
                  (of_int (cloudRadius 0 0 5292 i (cloudAttempts gameProps 0 0 5292 spriteNames i - 1)))
                  (5292 + of_int i * 50) spriteNames])" for i
    by blast
  from slot [of 1] have e1: "checkOverlap gameProps (cloudsBefore gameProps 0 0 5292 spriteNames 1)
        (cloudCenterX 0 0 5292 1 0) (cloudCenterY 0 0 5292 1 0) (of_int (cloudRadius 0 0 5292 1 0))"
    by (simp add: cloudCount_5292 ev(5))
  have n1: "\<not> checkOverlap gameProps (cloudsBefore gameProps 0 0 5292 spriteNames 1)
        (cloudCenterX 0 0 5292 1 1) (cloudCenterY 0 0 5292 1 1) (of_int (cloudRadius 0 0 5292 1 1))"
    using far_5292_1_1 by (simp add: ev(1) not_checkOverlap_iff cs cloudRadius_5292)
  from slot [of 1] n1 have keep: "cloudsBefore gameProps 0 0 5292 spriteNames 2
       = cloudsBefore gameProps 0 0 5292 spriteNames 1
         @ [buildCloudFormation gameProps ''0,0,1'' (cloudCenterX 0 0 5292 1 1)
              (cloudCenterY 0 0 5292 1 1) 11 5342 spriteNames]"
    by (simp add: cloudCount_5292 ev(5) keys cloudRadius_5292)
  from slot [of 2] have e2: "\<forall>k. 0 \<le> k \<and> k < 9 \<longrightarrow>
      checkOverlap gameProps (cloudsBefore gameProps 0 0 5292 spriteNames 2)
        (cloudCenterX 0 0 5292 2 k) (cloudCenterY 0 0 5292 2 k) (of_int (cloudRadius 0 0 5292 2 k))"
    by (simp add: cloudCount_5292 ev(6))
  then have e28: "checkOverlap gameProps (cloudsBefore gameProps 0 0 5292 spriteNames 2)
        (cloudCenterX 0 0 5292 2 8) (cloudCenterY 0 0 5292 2 8) (of_int (cloudRadius 0 0 5292 2 8))"
    by simp
  have e29: "checkOverlap gameProps (cloudsBefore gameProps 0 0 5292 spriteNames 2)
        (cloudCenterX 0 0 5292 2 9) (cloudCenterY 0 0 5292 2 9) (of_int (cloudRadius 0 0 5292 2 9))"
    using near_5292_2_9 by (simp add: ev(2) checkOverlap_iff cs cloudRadius_5292)
  from slot [of 2] e29 have drop: "cloudsBefore gameProps 0 0 5292 spriteNames 3
      = cloudsBefore gameProps 0 0 5292 spriteNames 2"
    by (simp add: cloudCount_5292 ev(6))
  show ?thesis
    by (intro conjI cloudCount_5292 len r sp ev(5) ev(6) e1 n1 keep e28 e29 drop)
qed

text \<open>
  C5. For every candidate index, the drawn base radius lies between 8 and 18 tiles (it never
  exceeds 17), and the drawn centre lies between 0.2 and 0.8 of the chunk extent from the
  chunk's origin on each axis, in pixels. Every island of a generated chunk has the centre
  and the radius of one of the candidates 0, 1, 2.
\<close>

theorem island_candidate_ranges:
  "8 \<le> islandBaseRadius cx cy sd i \<and> islandBaseRadius cx cy sd i \<le> 18
   \<and> islandBaseRadius cx cy sd i \<le> 17
   \<and> (of_int cx + 0.2) * CHUNK_SIZE * TILE_SIZE \<le> islandCenterX cx cy sd i
   \<and> islandCenterX cx cy sd i \<le> (of_int cx + 0.8) * CHUNK_SIZE * TILE_SIZE
   \<and> (of_int cy + 0.2) * CHUNK_SIZE * TILE_SIZE \<le> islandCenterY cx cy sd i
   \<and> islandCenterY cx cy sd i \<le> (of_int cy + 0.8) * CHUNK_SIZE * TILE_SIZE
   \<and> (\<forall>island \<in> set (islands (generateChunk gp cx cy sd a)).
         \<exists>j. 0 \<le> j \<and> j < 3 \<and> Island.centerX island = islandCenterX cx cy sd j
           \<and> Island.centerY island = islandCenterY cx cy sd j
           \<and> Island.radius island = of_int (islandBaseRadius cx cy sd j) * TILE_SIZE)"
proof -
  have "\<exists>j. 0 \<le> j \<and> j < 3 \<and> Island.centerX island = islandCenterX cx cy sd j
           \<and> Island.centerY island = islandCenterY cx cy sd j
           \<and> Island.radius island = of_int (islandBaseRadius cx cy sd j) * TILE_SIZE"
    if "island \<in> set (islands (generateChunk gp cx cy sd a))" for island
    using that islands_from_candidates [of island cx cy sd a] by simp
  with islandBaseRadius_range [of cx cy sd i] islandCenterX_range [of cx cy sd i]
    islandCenterY_range [of cy cx sd i]
  show ?thesis by (simp add: less_imp_le)
qed

theorem island_candidate_ranges_witness:
  "islands (generateChunk gameProps 0 0 4694 spriteNames) ! 0
     \<in> set (islands (generateChunk gameProps 0 0 4694 spriteNames))
   \<and> Island.centerX (islands (generateChunk gameProps 0 0 4694 spriteNames) ! 0)
       = islandCenterX 0 0 4694 0
   \<and> Island.radius (islands (generateChunk gameProps 0 0 4694 spriteNames) ! 0)
       = of_int (islandBaseRadius 0 0 4694 0) * TILE_SIZE
   \<and> islandBaseRadius 0 0 4694 0 = 14
   \<and> 128 \<le> islandCenterX 0 0 4694 0 \<and> islandCenterX 0 0 4694 0 \<le> 512"
proof -
  let ?isls = "islands (generateChunk gameProps 0 0 4694 spriteNames)"
  have mem: "?isls ! 0 \<in> set ?isls" by (simp add: islands_4694)
  have eq: "Island.centerX (?isls ! 0) = islandCenterX 0 0 4694 0"
    "Island.radius (?isls ! 0) = of_int (islandBaseRadius 0 0 4694 0) * TILE_SIZE"
    by (simp_all add: islands_4694 islandBaseRadius_4694_0)
  from island_candidate_ranges [of 0 0 4694 0 gameProps spriteNames] mem eq
  show ?thesis
    by (simp add: islandBaseRadius_4694_0 CHUNK_SIZE_def TILE_SIZE_def SPRITE_TILE_SIZE_def
        GAME_SCALE_def)
qed

text \<open>
  C6. The patch synthesizer visits the candidates \<open>0, \<dots>, patchCount - 1\<close>, where
  \<open>patchCount\<close> lies between 3 and 8, and the size drawn for a candidate lies between 3 and 8
  tiles (it never exceeds 7).
\<close>

theorem patch_candidate_ranges:
  "3 \<le> patchCount cx cy sd \<and> patchCount cx cy sd \<le> 8
   \<and> 3 \<le> patchSize cx cy sd i \<and> patchSize cx cy sd i \<le> 8 \<and> patchSize cx cy sd i \<le> 7
   \<and> generateDeepOceanPatches cx cy sd isls
       = concat (map (\<lambda>j. if farFromIslands isls (patchGlobalX cx cy sd j) (patchGlobalY cx cy sd j)
                           then patchTiles cx cy sd j else [])
           [0..patchCount cx cy sd - 1])
   \<and> length [0..patchCount cx cy sd - 1] = nat (patchCount cx cy sd)"
proof -
  have "generateDeepOceanPatches cx cy sd isls
       = concat (map (\<lambda>j. if farFromIslands isls (patchGlobalX cx cy sd j) (patchGlobalY cx cy sd j)
                           then patchTiles cx cy sd j else [])
           [0..patchCount cx cy sd - 1])"
    unfolding patchTiles_def
    by (simp add: generateDeepOceanPatches_def generatePatches_loop_closed)
  moreover have "length [0..patchCount cx cy sd - 1] = nat (patchCount cx cy sd)"
    by simp
  ultimately show ?thesis
    using patchCount_range [of cx cy sd] patchSize_range [of cx cy sd i] by simp
qed

end
